theory Spec2Isabelle
  imports Main "HOL-Library.Multiset" "HOL-Library.Signed_Division"
begin

section \<open>ParallelIO: initialization and support functions (src/clib/pioc.c)\<close>

text \<open>
  A shallow embedding of the functions of \<^verbatim>\<open>pioc.c\<close> that create I/O systems and
  decompositions. C \<^verbatim>\<open>int\<close> and \<^verbatim>\<open>PIO_Offset\<close> values are kept as integers, and the
  results of the arithmetic on them are brought back into the range of the type. A pointer
  argument that may be NULL is an \<open>option\<close>. A function returns an \<open>outcome\<close>
  together with the library state it leaves and the values it wrote through its
  output pointers. Everything the C code obtains from MPI, from \<^verbatim>\<open>malloc\<close> or from
  another translation unit is read from an environment record, so every theorem
  holds for every behaviour of those parts.
\<close>

subsection \<open>Constants of pio.h\<close>

definition PIO_NOERR :: int where "PIO_NOERR = 0"
definition PIO_EBADID :: int where "PIO_EBADID = -33"
definition PIO_EINVAL :: int where "PIO_EINVAL = -36"
definition PIO_ENOMEM :: int where "PIO_ENOMEM = -61"
definition PIO_EIO :: int where "PIO_EIO = -68"
definition PIO_EBADREARR :: int where "PIO_EBADREARR = -502"
definition PIO_DEFAULT :: int where "PIO_DEFAULT = -1"
definition MPI_SUCCESS :: int where "MPI_SUCCESS = 0"

text \<open>enum PIO\_REARRANGERS and enum PIO\_ERROR\_HANDLERS.\<close>

definition PIO_REARR_BOX :: int where "PIO_REARR_BOX = 1"
definition PIO_REARR_SUBSET :: int where "PIO_REARR_SUBSET = 2"
definition PIO_INTERNAL_ERROR :: int where "PIO_INTERNAL_ERROR = -51"
definition PIO_BCAST_ERROR :: int where "PIO_BCAST_ERROR = -52"
definition PIO_RETURN_ERROR :: int where "PIO_RETURN_ERROR = -53"

text \<open>enum PIO\_REARR\_COMM\_TYPE and PIO\_REARR\_COMM\_FC\_DIR, as far as pioc.c uses them.\<close>

definition PIO_REARR_COMM_COLL :: int where "PIO_REARR_COMM_COLL = 1"
definition PIO_REARR_COMM_FC_2D_DISABLE :: int where "PIO_REARR_COMM_FC_2D_DISABLE = 3"

lemmas pio_consts =
  PIO_NOERR_def PIO_EBADID_def PIO_EINVAL_def PIO_ENOMEM_def PIO_EIO_def
  PIO_EBADREARR_def PIO_DEFAULT_def MPI_SUCCESS_def PIO_REARR_BOX_def
  PIO_REARR_SUBSET_def PIO_INTERNAL_ERROR_def PIO_BCAST_ERROR_def
  PIO_RETURN_ERROR_def PIO_REARR_COMM_COLL_def PIO_REARR_COMM_FC_2D_DISABLE_def

subsection \<open>Machine integers\<close>

text \<open>
  \<^verbatim>\<open>int\<close> is 32 bits wide and \<^verbatim>\<open>PIO_Offset\<close> 64. Their values are kept as
  integers; where the code computes with them, the result is brought back into the
  range of the type the way two's complement arithmetic does (\<open>c_int\<close>,
  \<open>c_offset\<close>). The operator \<^verbatim>\<open>%\<close> truncates towards zero, which is \<open>smod\<close>;
  the division traps when the divisor is 0 and when INT\_MIN is divided by -1
  (\<open>c_rem\<close> is then \<open>None\<close>).
\<close>

definition INT_MAX :: int where "INT_MAX = 2147483647"
definition INT_MIN :: int where "INT_MIN = - 2147483648"
definition LLONG_MAX :: int where "LLONG_MAX = 9223372036854775807"
definition LLONG_MIN :: int where "LLONG_MIN = - 9223372036854775808"

definition c_int :: "int \<Rightarrow> int" where
  "c_int x = (x + 2147483648) mod 4294967296 - 2147483648"

definition c_offset :: "int \<Rightarrow> int" where
  "c_offset x = (x + 9223372036854775808) mod 18446744073709551616 - 9223372036854775808"

definition c_rem :: "int \<Rightarrow> int \<Rightarrow> int option" where
  "c_rem x y = (if y = 0 \<or> (x = INT_MIN \<and> y = - 1) then None else Some (x smod y))"

subsection \<open>Data model\<close>

text \<open>An MPI communicator handle, and the value of a root argument or master flag.\<close>

datatype mpi_comm = MPI_COMM_NULL | Comm nat

datatype mpi_root = Rank int | MPI_ROOT | MPI_PROC_NULL

text \<open>What a call does to its process: it returns a code, or the process is aborted.\<close>

datatype outcome = Return int | Abort

record rearr_opt =
  comm_type :: int
  fcd :: int

text \<open>struct iosystem\_desc\_t of pio.h.\<close>

record iosystem_desc =
  iosysid :: int
  union_comm :: mpi_comm
  io_comm :: mpi_comm
  comp_comm :: mpi_comm
  intercomm :: mpi_comm
  my_comm :: mpi_comm
  num_iotasks :: int
  num_comptasks :: int
  num_uniontasks :: int
  union_rank :: int
  comp_rank :: int
  io_rank :: int
  iomaster :: mpi_root
  compmaster :: mpi_root
  ioroot :: int
  comproot :: int
  ioranks :: "int list"
  compranks :: "int list"
  error_handler :: int
  default_rearranger :: int
  async :: bool
  ioproc :: bool
  compproc :: bool
  rearr_opts :: rearr_opt

text \<open>struct io\_region: the start and count arrays of the first region.\<close>

record io_region =
  start :: "int list"
  count_r :: "int list"

text \<open>
  struct io\_desc\_t of pio.h. The arrays a descriptor owns (\<open>map\<close>, \<open>remap\<close>,
  \<open>dimlen\<close>) are held by value; \<open>remap\<close> is \<open>None\<close> while the C pointer is NULL.
\<close>

record io_desc =
  ioid :: int
  maplen :: int
  map_d :: "int list"
  remap :: "int list option"
  nrecvs :: int
  ndof :: int
  ndims :: int
  dimlen :: "int list"
  num_aiotasks :: int
  rearranger :: int
  maxregions :: int
  needsfill :: bool
  needssort :: bool
  readonly :: bool
  piotype :: int
  llen :: int
  maxiobuflen :: int
  rfrom :: "int list"
  rcount :: "int list"
  scount :: "int list"
  sindex :: "int list"
  rindex :: "int list"
  firstregion :: io_region

text \<open>
  The library state of one process: the global variables of pioc.c
  (\<open>default_error_handler\<close>, \<open>pio_next_ioid\<close>), the lists of open I/O systems and
  decompositions, and the \<^verbatim>\<open>PIO_Offset\<close> buffers that live outside a descriptor
  (the caller's arrays and the temporaries of pioc.c), by address. \<open>brk\<close> is the
  first address \<^verbatim>\<open>malloc\<close> has not handed out yet.

  Modelled from the spec: the lists of I/O systems and decompositions are kept in
  pioc\_support.c and pio\_lists.c; the spec (section 9) describes them as registries
  keyed by the integer id, which is what \<open>pio_iosystem_list\<close> and
  \<open>pio_iodesc_list\<close> are.
\<close>

record pio_state =
  default_error_handler :: int
  pio_next_ioid :: int
  pio_iosystem_list :: "int \<Rightarrow> iosystem_desc option"
  pio_iodesc_list :: "int \<Rightarrow> io_desc option"
  heap :: "nat \<Rightarrow> int list option"
  brk :: nat

text \<open>The initializers of the globals in pioc.c (lines 70 and 77); nothing is open yet.\<close>

definition initial_state :: pio_state where
  "initial_state =
     \<lparr> default_error_handler = PIO_INTERNAL_ERROR,
       pio_next_ioid = 512,
       pio_iosystem_list = (\<lambda>_. None),
       pio_iodesc_list = (\<lambda>_. None),
       heap = (\<lambda>_. None),
       brk = 0 \<rparr>"

subsection \<open>Helpers that pioc.c calls\<close>

text \<open>Modelled from the spec: lookup in the registry of I/O systems (pio\_lists.c).\<close>

definition pio_get_iosystem_from_id :: "pio_state \<Rightarrow> int \<Rightarrow> iosystem_desc option" where
  "pio_get_iosystem_from_id st iosysid' = pio_iosystem_list st iosysid'"

text \<open>Modelled from the spec: lookup in the registry of decompositions (pio\_lists.c).\<close>

definition pio_get_iodesc_from_id :: "pio_state \<Rightarrow> int \<Rightarrow> io_desc option" where
  "pio_get_iodesc_from_id st i = pio_iodesc_list st i"

text \<open>
  Modelled from the spec: \<^verbatim>\<open>pio_err(ios, file, err, ...)\<close> of pioc\_support.c. The
  handler is the I/O system's, or \<open>default_error_handler\<close> when no I/O system is
  given (pioc.c line 69). Under \<open>PIO_INTERNAL_ERROR\<close> errors cause an abort
  (pio.h line 637; spec section 5); under the other two handlers the code is
  returned to the caller.
\<close>

definition pio_err :: "pio_state \<Rightarrow> iosystem_desc option \<Rightarrow> int \<Rightarrow> outcome" where
  "pio_err st ios err_num =
     (if err_num = PIO_NOERR then Return PIO_NOERR
      else if (case ios of None \<Rightarrow> default_error_handler st | Some i \<Rightarrow> error_handler i)
              = PIO_INTERNAL_ERROR
      then Abort
      else Return err_num)"

text \<open>
  Modelled from the spec: \<^verbatim>\<open>check_mpi(ios, file, mpierr, ...)\<close> of pioc\_support.c. An
  MPI failure is surfaced or aborts per the configured error handler (spec
  section 4.1); the code surfaced is the I/O error of pio.h.
\<close>

definition check_mpi :: "pio_state \<Rightarrow> iosystem_desc option \<Rightarrow> int \<Rightarrow> outcome" where
  "check_mpi st ios mpierr =
     (if mpierr = MPI_SUCCESS then Return PIO_NOERR
      else if (case ios of None \<Rightarrow> default_error_handler st | Some i \<Rightarrow> error_handler i)
              = PIO_INTERNAL_ERROR
      then Abort
      else Return PIO_EIO)"

text \<open>
  \<^verbatim>\<open>piodie(msg, file, line)\<close>: the process is aborted (pioc.c lines 141 and 343: "any
  failure will result in MPI\_Abort").
\<close>

definition piodie :: outcome where
  "piodie = Abort"

subsection \<open>Early returns\<close>

text \<open>
  A C function that makes its checks one after the other and returns at the first one
  that fails: \<open>first_failure\<close> takes the checks in that order, each with what the
  function returns when it fails, and gives the return of the first failing check.
\<close>

fun first_failure :: "(bool \<times> 'r) list \<Rightarrow> 'r option" where
  "first_failure [] = None"
| "first_failure ((c, r) # cs) = (if c then Some r else first_failure cs)"

subsection \<open>PIOc\_iosystem\_is\_active (pioc.c lines 95-112)\<close>

text \<open>
  \<open>active\<close> tells whether the pointer is non-NULL; the third component of the result
  is the value written through it, if any.
\<close>

definition PIOc_iosystem_is_active :: "pio_state \<Rightarrow> int \<Rightarrow> bool \<Rightarrow> outcome \<times> pio_state \<times> bool option" where
  "PIOc_iosystem_is_active st iosysid' active =
     (let ios = pio_get_iosystem_from_id st iosysid' in
      (Return PIO_NOERR, st,
       if active then
         (case ios of
            None \<Rightarrow> Some False
          | Some i \<Rightarrow>
              if comp_comm i = MPI_COMM_NULL \<and> io_comm i = MPI_COMM_NULL
              then Some False else Some True)
       else None))"

subsection \<open>PIOc\_get\_local\_array\_size (pioc.c lines 329-338)\<close>

text \<open>The C function returns \<open>iodesc->ndof\<close> itself, not an error code.\<close>

definition PIOc_get_local_array_size :: "pio_state \<Rightarrow> int \<Rightarrow> outcome" where
  "PIOc_get_local_array_size st i =
     (case pio_get_iodesc_from_id st i of
        None \<Rightarrow> piodie
      | Some iodesc \<Rightarrow> Return (ndof iodesc))"

subsection \<open>PIOc\_set\_iosystem\_error\_handling (pioc.c lines 383-438)\<close>

text \<open>
  What MPI answers during one call: \<open>msg_mpierr\<close> is \<open>mpierr\<close> after the
  \<^verbatim>\<open>MPI_Send\<close> and \<^verbatim>\<open>MPI_Bcast\<close> calls that ship the parameters to the I/O tasks
  (the first nonzero return code, or \<open>MPI_SUCCESS\<close>); \<open>bcast_mpierr\<close> is the
  broadcast of \<open>mpierr\<close> from the computation root: its return code \<open>mpierr2\<close> and
  the value \<open>mpierr\<close> holds afterwards.
\<close>

record mpi_msg_env =
  msg_mpierr :: int
  bcast_mpierr :: "int \<Rightarrow> int \<times> int"

definition valid_error_handler :: "int \<Rightarrow> bool" where
  "valid_error_handler method \<longleftrightarrow>
     method = PIO_INTERNAL_ERROR \<or> method = PIO_BCAST_ERROR \<or> method = PIO_RETURN_ERROR"

text \<open>The async block of lines 402-425: \<open>None\<close> when the call goes on.\<close>

definition async_send_params :: "mpi_msg_env \<Rightarrow> pio_state \<Rightarrow> iosystem_desc \<Rightarrow> outcome option" where
  "async_send_params env st ios =
     (if async ios then
        (let mpierr = (if \<not> ioproc ios then msg_mpierr env else MPI_SUCCESS);
             (mpierr2, mpierr') = bcast_mpierr env mpierr
         in if mpierr2 \<noteq> MPI_SUCCESS \<and> check_mpi st (Some ios) mpierr2 = Abort then Some Abort
            else if mpierr' \<noteq> MPI_SUCCESS then Some (check_mpi st (Some ios) mpierr')
            else None)
      else None)"

text \<open>
  \<open>old_method\<close> tells whether the pointer is non-NULL; the third component of the
  result is the value written through it, if any.
\<close>

definition PIOc_set_iosystem_error_handling ::
  "mpi_msg_env \<Rightarrow> pio_state \<Rightarrow> int \<Rightarrow> int \<Rightarrow> bool \<Rightarrow> outcome \<times> pio_state \<times> int option" where
  "PIOc_set_iosystem_error_handling env st iosysid' method old_method =
     (let ios = (if iosysid' \<noteq> PIO_DEFAULT then pio_get_iosystem_from_id st iosysid' else None) in
      if iosysid' \<noteq> PIO_DEFAULT \<and> ios = None then (pio_err st None PIO_EBADID, st, None)
      else if \<not> valid_error_handler method then (pio_err st ios PIO_EINVAL, st, None)
      else
        (case (case ios of None \<Rightarrow> None | Some i \<Rightarrow> async_send_params env st i) of
           Some failed \<Rightarrow> (failed, st, None)
         | None \<Rightarrow>
             (Return PIO_NOERR,
              (case ios of
                 None \<Rightarrow> st\<lparr>default_error_handler := method\<rparr>
               | Some i \<Rightarrow>
                   st\<lparr>pio_iosystem_list :=
                        (pio_iosystem_list st)(iosysid' := Some (i\<lparr>error_handler := method\<rparr>))\<rparr>),
              if old_method
              then Some (case ios of None \<Rightarrow> default_error_handler st | Some i \<Rightarrow> error_handler i)
              else None)))"

subsection \<open>PIOc\_Init\_Intracomm (pioc.c lines 956-1108)\<close>

text \<open>
  What the calls of one PIOc\_Init\_Intracomm answer, in the order of the C code: a
  return code, with the value written through the output pointer where there is
  one; for \<^verbatim>\<open>calloc\<close>, whether it succeeded.

  Modelled from the spec: \<open>pio_add_to_iosystem_list\<close> (pio\_lists.c) enters the I/O
  system in the registry and returns the id it gave it; the id is read from the
  environment.
\<close>

record intracomm_env =
  pio_init_logging :: int
  MPI_Comm_size :: "int \<times> int"
  calloc_ios :: bool
  MPI_Comm_dup_union :: "int \<times> mpi_comm"
  MPI_Comm_dup_comp :: "int \<times> mpi_comm"
  MPI_Comm_rank_comp :: "int \<times> int"
  calloc_compranks :: bool
  calloc_ioranks :: bool
  MPI_Comm_group :: int
  MPI_Group_incl :: int
  MPI_Comm_create :: "int \<times> mpi_comm"
  MPI_Comm_rank_io :: "int \<times> int"
  pio_add_to_iosystem_list :: int

text \<open>
  The I/O system after \<^verbatim>\<open>calloc\<close> and the assignments of lines 999-1011. The two
  communicators that are only set later hold MPI\_COMM\_NULL until then.
\<close>

definition calloc_iosystem :: "pio_state \<Rightarrow> int \<Rightarrow> int \<Rightarrow> int \<Rightarrow> iosystem_desc" where
  "calloc_iosystem st num_iotasks' num_comptasks' rearr =
     \<lparr> iosysid = 0, union_comm = MPI_COMM_NULL, io_comm = MPI_COMM_NULL,
       comp_comm = MPI_COMM_NULL, intercomm = MPI_COMM_NULL, my_comm = MPI_COMM_NULL,
       num_iotasks = num_iotasks', num_comptasks = num_comptasks',
       num_uniontasks = num_comptasks', union_rank = 0, comp_rank = 0, io_rank = 0,
       iomaster = Rank 0, compmaster = Rank 0, ioroot = 0, comproot = 0,
       ioranks = [], compranks = [], error_handler = default_error_handler st,
       default_rearranger = rearr, async = False, ioproc = False, compproc = False,
       rearr_opts = \<lparr> comm_type = PIO_REARR_COMM_COLL, fcd = PIO_REARR_COMM_FC_2D_DISABLE \<rparr> \<rparr>"

text \<open>
  The loop of lines 1048-1054: \<^verbatim>\<open>(base + i * ustride) % ios->num_comptasks\<close> in
  \<^verbatim>\<open>int\<close> arithmetic for every \<open>i\<close> below \<open>num_iotasks\<close>. The result is \<open>None\<close>
  when one of the divisions traps.
\<close>

definition compute_ioranks :: "int \<Rightarrow> int \<Rightarrow> int \<Rightarrow> int \<Rightarrow> int list option" where
  "compute_ioranks base ustride num_iotasks' num_comptasks' =
     (let rs = map (\<lambda>i. c_rem (c_int (base + c_int (int i * ustride))) num_comptasks')
                 [0..<nat num_iotasks']
      in if None \<in> set rs then None else Some (map the rs))"

text \<open>Lines 1013-1030: the duplicated communicators and the rank of this task.\<close>

definition ios_set_comms :: "intracomm_env \<Rightarrow> iosystem_desc \<Rightarrow> iosystem_desc" where
  "ios_set_comms env ios =
     ios\<lparr> union_comm := snd (MPI_Comm_dup_union env),
          comp_comm := snd (MPI_Comm_dup_comp env),
          my_comm := snd (MPI_Comm_dup_comp env),
          comp_rank := snd (MPI_Comm_rank_comp env),
          compproc := True \<rparr>"

text \<open>Lines 1034-1041: every task computes; rank 0 is the computation master.\<close>

definition ios_set_compranks :: "iosystem_desc \<Rightarrow> iosystem_desc" where
  "ios_set_compranks ios =
     ios\<lparr> compranks := map int [0..<nat (num_comptasks ios)],
          compmaster := (if comp_rank ios = 0 then MPI_ROOT else compmaster ios) \<rparr>"

text \<open>Lines 1046-1062: the ranks of the I/O tasks, and whether this task is one.\<close>

definition ios_set_ioranks :: "int list \<Rightarrow> iosystem_desc \<Rightarrow> iosystem_desc" where
  "ios_set_ioranks ranks ios =
     ios\<lparr> ioranks := ranks,
          ioproc := (ioproc ios \<or> comp_rank ios \<in> set ranks),
          ioroot := ranks ! 0,
          iomaster := (if comp_rank ios = ranks ! 0 then MPI_ROOT else iomaster ios) \<rparr>"

text \<open>Lines 1087-1097: the rank in the I/O communicator and in the union.\<close>

definition ios_set_io_rank :: "intracomm_env \<Rightarrow> iosystem_desc \<Rightarrow> iosystem_desc" where
  "ios_set_io_rank env ios =
     ios\<lparr> io_rank := (if ioproc ios then snd (MPI_Comm_rank_io env) else -1),
          union_rank := comp_rank ios \<rparr>"

text \<open>
  \<open>iosysidp\<close> tells whether the pointer is non-NULL; the third component of the
  result is the id written through it, if any. The product of line 991 is an
  \<^verbatim>\<open>int\<close> product. A division that traps in the loop of line 1050 ends the
  process.
\<close>

definition PIOc_Init_Intracomm ::
  "intracomm_env \<Rightarrow> pio_state \<Rightarrow> mpi_comm \<Rightarrow> int \<Rightarrow> int \<Rightarrow> int \<Rightarrow> int \<Rightarrow> bool
     \<Rightarrow> outcome \<times> pio_state \<times> int option" where
  "PIOc_Init_Intracomm env st comp_comm' num_iotasks' stride base rearr iosysidp =
     (if pio_init_logging env \<noteq> 0 then (pio_err st None (pio_init_logging env), st, None)
      else if fst (MPI_Comm_size env) \<noteq> MPI_SUCCESS
      then (check_mpi st None (fst (MPI_Comm_size env)), st, None)
      else
        let num_comptasks' = snd (MPI_Comm_size env) in
        if \<not> iosysidp \<or> num_iotasks' < 1 \<or> c_int (num_iotasks' * stride) > num_comptasks'
        then (pio_err st None PIO_EINVAL, st, None)
        else if \<not> calloc_ios env then (pio_err st None PIO_ENOMEM, st, None)
        else
          let ios0 = calloc_iosystem st num_iotasks' num_comptasks' rearr in
          if fst (MPI_Comm_dup_union env) \<noteq> MPI_SUCCESS
          then (check_mpi st (Some ios0) (fst (MPI_Comm_dup_union env)), st, None)
          else if fst (MPI_Comm_dup_comp env) \<noteq> MPI_SUCCESS
          then (check_mpi st (Some ios0) (fst (MPI_Comm_dup_comp env)), st, None)
          else if fst (MPI_Comm_rank_comp env) \<noteq> MPI_SUCCESS
          then (check_mpi st (Some ios0) (fst (MPI_Comm_rank_comp env)), st, None)
          else
            let ios1 = ios_set_comms env ios0;
                ustride = stride
            in
            if \<not> calloc_compranks env then (pio_err st (Some ios1) PIO_ENOMEM, st, None)
            else
              let ios2 = ios_set_compranks ios1 in
              if \<not> calloc_ioranks env then (pio_err st (Some ios2) PIO_ENOMEM, st, None)
              else if compute_ioranks base ustride (num_iotasks ios2) (num_comptasks ios2) = None
              then (Abort, st, None)
              else
                let ios3 = ios_set_ioranks
                      (the (compute_ioranks base ustride (num_iotasks ios2) (num_comptasks ios2)))
                      ios2
                in
                if MPI_Comm_group env \<noteq> MPI_SUCCESS
                then (check_mpi st (Some ios3) (MPI_Comm_group env), st, None)
                else if MPI_Group_incl env \<noteq> MPI_SUCCESS
                then (check_mpi st (Some ios3) (MPI_Group_incl env), st, None)
                else if fst (MPI_Comm_create env) \<noteq> MPI_SUCCESS
                then (check_mpi st (Some ios3) (fst (MPI_Comm_create env)), st, None)
                else
                  let ios4 = ios3\<lparr> io_comm := snd (MPI_Comm_create env) \<rparr> in
                  if ioproc ios4 \<and> fst (MPI_Comm_rank_io env) \<noteq> MPI_SUCCESS
                  then (check_mpi st (Some ios4) (fst (MPI_Comm_rank_io env)), st, None)
                  else
                    let ios5 = ios_set_io_rank env ios4;
                        new_id = pio_add_to_iosystem_list env;
                        ios6 = ios5\<lparr> iosysid := new_id \<rparr>
                    in (Return PIO_NOERR,
                        st\<lparr>pio_iosystem_list := (pio_iosystem_list st)(new_id := Some ios6)\<rparr>,
                        Some new_id))"

text \<open>
  The same function read as its checks in order (\<open>intracomm_checks\<close>) and the
  descriptor it registers when none fails (\<open>intracomm_ios\<close>); the lemma
  \<open>PIOc_Init_Intracomm_checks\<close> proves that this reading is the definition above.
\<close>

definition intracomm_ios ::
  "intracomm_env \<Rightarrow> pio_state \<Rightarrow> int \<Rightarrow> int \<Rightarrow> int \<Rightarrow> int \<Rightarrow> iosystem_desc" where
  "intracomm_ios env st num_iotasks' stride base rearr =
     (let ios2 = ios_set_compranks
                   (ios_set_comms env
                     (calloc_iosystem st num_iotasks' (snd (MPI_Comm_size env)) rearr))
      in
      (ios_set_io_rank env
         ((ios_set_ioranks
             (the (compute_ioranks base stride (num_iotasks ios2) (num_comptasks ios2))) ios2)
          \<lparr> io_comm := snd (MPI_Comm_create env) \<rparr>))
      \<lparr> iosysid := pio_add_to_iosystem_list env \<rparr>)"

definition intracomm_checks ::
  "intracomm_env \<Rightarrow> pio_state \<Rightarrow> int \<Rightarrow> int \<Rightarrow> int \<Rightarrow> int \<Rightarrow> bool \<Rightarrow> (bool \<times> outcome) list" where
  "intracomm_checks env st num_iotasks' stride base rearr iosysidp =
    (let ios0 = calloc_iosystem st num_iotasks' (snd (MPI_Comm_size env)) rearr;
         ios1 = ios_set_comms env ios0;
         ios2 = ios_set_compranks ios1;
         ios3 = ios_set_ioranks
                  (the (compute_ioranks base stride (num_iotasks ios2) (num_comptasks ios2))) ios2;
         ios4 = ios3\<lparr> io_comm := snd (MPI_Comm_create env) \<rparr>
     in
     [(pio_init_logging env \<noteq> 0, pio_err st None (pio_init_logging env)),
      (fst (MPI_Comm_size env) \<noteq> MPI_SUCCESS, check_mpi st None (fst (MPI_Comm_size env))),
      (\<not> iosysidp \<or> num_iotasks' < 1
         \<or> c_int (num_iotasks' * stride) > snd (MPI_Comm_size env),
       pio_err st None PIO_EINVAL),
      (\<not> calloc_ios env, pio_err st None PIO_ENOMEM),
      (fst (MPI_Comm_dup_union env) \<noteq> MPI_SUCCESS,
       check_mpi st (Some ios0) (fst (MPI_Comm_dup_union env))),
      (fst (MPI_Comm_dup_comp env) \<noteq> MPI_SUCCESS,
       check_mpi st (Some ios0) (fst (MPI_Comm_dup_comp env))),
      (fst (MPI_Comm_rank_comp env) \<noteq> MPI_SUCCESS,
       check_mpi st (Some ios0) (fst (MPI_Comm_rank_comp env))),
      (\<not> calloc_compranks env, pio_err st (Some ios1) PIO_ENOMEM),
      (\<not> calloc_ioranks env, pio_err st (Some ios2) PIO_ENOMEM),
      (compute_ioranks base stride (num_iotasks ios2) (num_comptasks ios2) = None, Abort),
      (MPI_Comm_group env \<noteq> MPI_SUCCESS, check_mpi st (Some ios3) (MPI_Comm_group env)),
      (MPI_Group_incl env \<noteq> MPI_SUCCESS, check_mpi st (Some ios3) (MPI_Group_incl env)),
      (fst (MPI_Comm_create env) \<noteq> MPI_SUCCESS,
       check_mpi st (Some ios3) (fst (MPI_Comm_create env))),
      (ioproc ios4 \<and> fst (MPI_Comm_rank_io env) \<noteq> MPI_SUCCESS,
       check_mpi st (Some ios4) (fst (MPI_Comm_rank_io env)))])"

text \<open>Every call that PIOc\_Init\_Intracomm makes succeeds.\<close>

definition intracomm_env_ok :: "intracomm_env \<Rightarrow> bool" where
  "intracomm_env_ok env \<longleftrightarrow>
     pio_init_logging env = 0 \<and> fst (MPI_Comm_size env) = MPI_SUCCESS \<and> calloc_ios env
     \<and> fst (MPI_Comm_dup_union env) = MPI_SUCCESS \<and> fst (MPI_Comm_dup_comp env) = MPI_SUCCESS
     \<and> fst (MPI_Comm_rank_comp env) = MPI_SUCCESS \<and> calloc_compranks env
     \<and> calloc_ioranks env \<and> MPI_Comm_group env = MPI_SUCCESS
     \<and> MPI_Group_incl env = MPI_SUCCESS \<and> fst (MPI_Comm_create env) = MPI_SUCCESS
     \<and> fst (MPI_Comm_rank_io env) = MPI_SUCCESS"

subsection \<open>PIOc\_InitDecomp (pioc.c lines 505-769)\<close>

text \<open>struct sort\_map and the comparison function that qsort is given (lines 80-83, 448-459).\<close>

record sort_map =
  s_remap :: int
  s_map :: int

definition compare :: "sort_map \<Rightarrow> sort_map \<Rightarrow> int" where
  "compare l_a l_b =
     (if s_map l_a < s_map l_b then -1
      else if s_map l_a > s_map l_b then 1
      else 0)"

text \<open>
  What one call of PIOc\_InitDecomp obtains from outside pioc.c:
  \<^item> \<open>params_mpi\<close>: the MPI calls of lines 540-583 (as for
    PIOc\_set\_iosystem\_error\_handling);
  \<^item> \<open>malloc_iodesc\<close>: its return code and the descriptor it allocates;
  \<^item> \<open>malloc_map\<close> ... \<open>malloc_compmap_1_based\<close>: whether each \<^verbatim>\<open>malloc\<close> of pioc.c
    succeeds;
  \<^item> \<open>qsort\<close>: the C library's sort of an array under a comparison function;
  \<^item> \<open>run_unique_check\<close>: its return code, the contents of the buffer it was given
    after the call, and the value it stores in \<open>iodesc->readonly\<close>;
  \<^item> \<open>subset_rearrange_create\<close>, \<open>box_rearrange_create\<close>: the return code and the
    descriptor after the call;
  \<^item> \<open>CalcStartandCount\<close>: the return code and the start, count and
    \<open>num_aiotasks\<close> it writes; \<open>compute_maxIObuffersize\<close>: the return code and the
    \<open>maxiobuflen\<close> it stores;
  \<^item> \<open>bcast_num_aiotasks\<close>, \<open>bcast_next_ioid\<close>: the two broadcasts from the I/O
    root (lines 719 and 734), as a function of the value this task holds: the
    return code and the value held afterwards.
\<close>

record decomp_env =
  params_mpi :: mpi_msg_env
  malloc_iodesc :: "iosystem_desc \<Rightarrow> int \<Rightarrow> int \<Rightarrow> int \<times> io_desc"
  malloc_map :: bool
  malloc_tmpsort :: bool
  malloc_remap :: bool
  malloc_dimlen :: bool
  malloc_tmpmap :: bool
  malloc_compmap_1_based :: bool
  qsort :: "(sort_map \<Rightarrow> sort_map \<Rightarrow> int) \<Rightarrow> sort_map list \<Rightarrow> sort_map list"
  run_unique_check :: "int list \<Rightarrow> int \<times> int list \<times> bool"
  subset_rearrange_create ::
    "iosystem_desc \<Rightarrow> int \<Rightarrow> int list \<Rightarrow> int list \<Rightarrow> int \<Rightarrow> io_desc \<Rightarrow> int \<times> io_desc"
  box_rearrange_create ::
    "iosystem_desc \<Rightarrow> int \<Rightarrow> int list \<Rightarrow> int list \<Rightarrow> int \<Rightarrow> io_desc \<Rightarrow> int \<times> io_desc"
  CalcStartandCount :: "int \<Rightarrow> int \<Rightarrow> int list \<Rightarrow> int \<Rightarrow> int \<Rightarrow> int \<times> int list \<times> int list \<times> int"
  compute_maxIObuffersize :: "io_desc \<Rightarrow> int \<times> int"
  bcast_num_aiotasks :: "int \<Rightarrow> int \<times> int"
  bcast_next_ioid :: "int \<Rightarrow> int \<times> int"

text \<open>
  The first \<open>maplen\<close> elements of the caller's array at address \<open>p\<close>. The C code
  requires the array to have that many; the model reads what is there.
\<close>

definition read_compmap :: "pio_state \<Rightarrow> nat \<Rightarrow> int \<Rightarrow> int list" where
  "read_compmap st p maplen' =
     take (nat maplen') (case heap st p of None \<Rightarrow> [] | Some buf \<Rightarrow> buf)"

text \<open>\<^verbatim>\<open>malloc\<close> and \<^verbatim>\<open>free\<close> of a buffer of the heap.\<close>

definition malloc_buf :: "pio_state \<Rightarrow> int list \<Rightarrow> nat \<times> pio_state" where
  "malloc_buf st contents =
     (brk st, st\<lparr>heap := (heap st)(brk st := Some contents), brk := Suc (brk st)\<rparr>)"

definition free_buf :: "pio_state \<Rightarrow> nat \<Rightarrow> pio_state" where
  "free_buf st a = st\<lparr>heap := (heap st)(a := None)\<rparr>"

text \<open>
  Lines 536-588: with async, the parameters are sent to the I/O tasks and the
  rearranger must be the default one. \<open>None\<close> when the call goes on.
\<close>

definition InitDecomp_async ::
  "decomp_env \<Rightarrow> pio_state \<Rightarrow> iosystem_desc \<Rightarrow> int option \<Rightarrow> outcome option" where
  "InitDecomp_async env st ios rearranger' =
     (if async ios then
        (let mpierr = (if \<not> ioproc ios then msg_mpierr (params_mpi env) else MPI_SUCCESS);
             (mpierr2, mpierr') = bcast_mpierr (params_mpi env) mpierr
         in if mpierr2 \<noteq> MPI_SUCCESS then Some (check_mpi st (Some ios) mpierr2)
            else if mpierr' \<noteq> MPI_SUCCESS then Some (check_mpi st (Some ios) mpierr')
            else if (case rearranger' of None \<Rightarrow> False | Some r \<Rightarrow> r \<noteq> default_rearranger ios)
            then Some (pio_err st (Some ios) PIO_EBADREARR)
            else None)
      else None)"

text \<open>
  The loop of lines 605-613: is there an index \<open>m > 0\<close> with
  \<open>compmap[m] > 0\<close> and \<open>compmap[m] < compmap[m-1]\<close>?
\<close>

fun needs_sort :: "int list \<Rightarrow> bool" where
  "needs_sort (x # y # ys) = ((y > 0 \<and> y < x) \<or> needs_sort (y # ys))"
| "needs_sort _ = False"

text \<open>The loop of lines 625-629: every element with its index.\<close>

definition tmpsort_init :: "int list \<Rightarrow> sort_map list" where
  "tmpsort_init cm = map (\<lambda>m. \<lparr> s_remap = int m, s_map = cm ! m \<rparr>) [0..<length cm]"

text \<open>
  Lines 597-644, when the allocations succeed: the descriptor remembers the map,
  sorted through qsort when \<open>needs_sort\<close> holds, and copied as it is otherwise.
\<close>

definition iodesc_set_map :: "decomp_env \<Rightarrow> io_desc \<Rightarrow> int \<Rightarrow> int list \<Rightarrow> io_desc" where
  "iodesc_set_map env iodesc maplen' cm =
     (if needs_sort cm then
        (let tmpsort = qsort env compare (tmpsort_init cm) in
         iodesc\<lparr> maplen := maplen',
                 needssort := True,
                 map_d := map (\<lambda>m. cm ! nat (s_remap (tmpsort ! m))) [0..<length cm],
                 remap := Some (map (\<lambda>m. s_remap (tmpsort ! m)) [0..<length cm]) \<rparr>)
      else
        iodesc\<lparr> maplen := maplen', needssort := False, remap := None, map_d := cm \<rparr>)"

text \<open>Lines 646-657: the dimension sizes and the rearranger.\<close>

definition iodesc_set_dims :: "io_desc \<Rightarrow> iosystem_desc \<Rightarrow> int list \<Rightarrow> int \<Rightarrow> int option \<Rightarrow> io_desc" where
  "iodesc_set_dims iodesc ios gd ndims' rearranger' =
     iodesc\<lparr> dimlen := take (nat ndims') gd,
             rearranger := (case rearranger' of None \<Rightarrow> default_rearranger ios | Some r \<Rightarrow> r) \<rparr>"

text \<open>
  Lines 660-683, the subset rearranger. On a computation task the duplicate check
  runs on \<open>tmpmap\<close>, a copy of the caller's array in a buffer of its own. The
  result is \<open>Inl\<close> with what the function returns and the state it leaves when the
  block returns, and \<open>Inr\<close> with the descriptor and the state when the call goes on.
\<close>

definition subset_block ::
  "decomp_env \<Rightarrow> pio_state \<Rightarrow> iosystem_desc \<Rightarrow> int \<Rightarrow> int list \<Rightarrow> int list \<Rightarrow> int \<Rightarrow> io_desc
     \<Rightarrow> (outcome \<times> pio_state) + (io_desc \<times> pio_state)" where
  "subset_block env st ios maplen' cm gd ndims' iodesc =
     (if compproc ios \<and> \<not> malloc_tmpmap env then Inl (Return PIO_ENOMEM, st)
      else
        let (tmpmap, st1) = (if compproc ios then malloc_buf st cm else (0, st));
            (ierr, buf, ro) = (if compproc ios then run_unique_check env cm
                               else (0, cm, readonly iodesc));
            st2 = (if compproc ios then st1\<lparr>heap := (heap st1)(tmpmap := Some buf)\<rparr> else st1);
            iodesc1 = iodesc\<lparr>readonly := ro\<rparr>
        in
        if compproc ios \<and> ierr \<noteq> 0 then Inl (pio_err st2 (Some ios) ierr, st2)
        else
          let st3 = (if compproc ios then free_buf st2 tmpmap else st2);
              iodesc2 = iodesc1\<lparr>num_aiotasks := num_iotasks ios\<rparr>;
              created = subset_rearrange_create env ios maplen' (map_d iodesc2) gd ndims' iodesc2
          in
          if fst created \<noteq> 0 then Inl (pio_err st3 (Some ios) (fst created), st3)
          else Inr (snd created, st3))"

text \<open>Lines 686-715, on an I/O task: the first region and the largest I/O buffer.\<close>

definition box_ioproc ::
  "decomp_env \<Rightarrow> pio_state \<Rightarrow> iosystem_desc \<Rightarrow> int \<Rightarrow> int \<Rightarrow> int list \<Rightarrow> int list option
     \<Rightarrow> int list option \<Rightarrow> io_desc \<Rightarrow> outcome + io_desc" where
  "box_ioproc env st ios pio_type ndims' gd iostart iocount iodesc =
     (let given = (iostart \<noteq> None \<and> iocount \<noteq> None);
          calc = CalcStartandCount env pio_type ndims' gd (num_iotasks ios) (io_rank ios);
          iodesc1 =
            (if given
             then iodesc\<lparr> firstregion := \<lparr> start = take (nat ndims') (the iostart),
                                            count_r = take (nat ndims') (the iocount) \<rparr>,
                          num_aiotasks := num_iotasks ios \<rparr>
             else iodesc\<lparr> firstregion := \<lparr> start = fst (snd calc),
                                            count_r = fst (snd (snd calc)) \<rparr>,
                          num_aiotasks := snd (snd (snd calc)) \<rparr>)
      in
      if \<not> given \<and> fst calc \<noteq> 0 then Inl (pio_err st (Some ios) (fst calc))
      else if fst (compute_maxIObuffersize env iodesc1) \<noteq> 0
      then Inl (pio_err st (Some ios) (fst (compute_maxIObuffersize env iodesc1)))
      else Inr (iodesc1\<lparr>maxiobuflen := snd (compute_maxIObuffersize env iodesc1)\<rparr>))"

text \<open>Lines 684-728, every rearranger but the subset one.\<close>

definition box_block ::
  "decomp_env \<Rightarrow> pio_state \<Rightarrow> iosystem_desc \<Rightarrow> int \<Rightarrow> int \<Rightarrow> int \<Rightarrow> int list \<Rightarrow> int list option
     \<Rightarrow> int list option \<Rightarrow> io_desc \<Rightarrow> (outcome \<times> pio_state) + (io_desc \<times> pio_state)" where
  "box_block env st ios pio_type maplen' ndims' gd iostart iocount iodesc =
     (case (if ioproc ios then box_ioproc env st ios pio_type ndims' gd iostart iocount iodesc
            else Inr iodesc) of
        Inl e \<Rightarrow> Inl (e, st)
      | Inr iodesc1 \<Rightarrow>
          let bc = bcast_num_aiotasks env (num_aiotasks iodesc1);
              iodesc2 = iodesc1\<lparr>num_aiotasks := snd bc\<rparr>;
              created = box_rearrange_create env ios maplen' (map_d iodesc2) gd ndims' iodesc2
          in
          if fst bc \<noteq> MPI_SUCCESS then Inl (check_mpi st (Some ios) (fst bc), st)
          else if rearranger iodesc2 = PIO_REARR_BOX then
            (if fst created \<noteq> 0 then Inl (pio_err st (Some ios) (fst created), st)
             else Inr (snd created, st))
          else Inr (iodesc2, st))"

text \<open>
  Modelled from the spec: \<open>pio_add_to_iodesc_list\<close> (pio\_lists.c) enters the
  descriptor in the registry of decompositions under its \<open>ioid\<close>.
\<close>

definition pio_add_to_iodesc_list :: "pio_state \<Rightarrow> io_desc \<Rightarrow> int \<times> pio_state" where
  "pio_add_to_iodesc_list st iodesc =
     (PIO_NOERR, st\<lparr>pio_iodesc_list := (pio_iodesc_list st)(ioid iodesc := Some iodesc)\<rparr>)"

text \<open>
  Lines 730-768: with async the next id is broadcast from the I/O root; the
  descriptor gets \<open>pio_next_ioid\<close>, which is then incremented (an \<^verbatim>\<open>int\<close>), and is entered in
  the list. (\<open>performance_tune_rearranger\<close> does nothing unless PERFTUNE is set.)
\<close>

definition assign_ioid ::
  "decomp_env \<Rightarrow> pio_state \<Rightarrow> iosystem_desc \<Rightarrow> io_desc \<Rightarrow> outcome \<times> pio_state \<times> int option" where
  "assign_ioid env st ios iodesc =
     (let bc = (if async ios then bcast_next_ioid env (pio_next_ioid st)
                else (MPI_SUCCESS, pio_next_ioid st));
          st1 = st\<lparr>pio_next_ioid := snd bc\<rparr>
      in
      if fst bc \<noteq> MPI_SUCCESS then (check_mpi st1 (Some ios) (fst bc), st1, None)
      else
        let iodesc1 = iodesc\<lparr>ioid := pio_next_ioid st1\<rparr>;
            st2 = st1\<lparr>pio_next_ioid := c_int (pio_next_ioid st1 + 1)\<rparr>;
            added = pio_add_to_iodesc_list st2 iodesc1
        in
        if fst added \<noteq> 0
        then (pio_err (snd added) (Some ios) (fst added), snd added, Some (ioid iodesc1))
        else (Return PIO_NOERR, snd added, Some (ioid iodesc1)))"

text \<open>Lines 659-768: the rearranger is created, then the id is assigned.\<close>

definition InitDecomp_finish ::
  "decomp_env \<Rightarrow> pio_state \<Rightarrow> iosystem_desc \<Rightarrow> int \<Rightarrow> int \<Rightarrow> int \<Rightarrow> int list \<Rightarrow> int list
     \<Rightarrow> int list option \<Rightarrow> int list option \<Rightarrow> io_desc \<Rightarrow> outcome \<times> pio_state \<times> int option" where
  "InitDecomp_finish env st ios pio_type maplen' ndims' cm gd iostart iocount iodesc =
     (case (if rearranger iodesc = PIO_REARR_SUBSET
            then subset_block env st ios maplen' cm gd ndims' iodesc
            else box_block env st ios pio_type maplen' ndims' gd iostart iocount iodesc) of
        Inl (e, st1) \<Rightarrow> (e, st1, None)
      | Inr (iodesc1, st1) \<Rightarrow> assign_ioid env st1 ios iodesc1)"

text \<open>
  The function. \<open>compmap\<close> is the address of the caller's array, \<open>ioidp\<close> tells
  whether that pointer is non-NULL, and the third component of the result is the
  id written through it, if any. The loop of lines 531-533 looks at the first
  \<open>ndims\<close> elements of \<open>gdimlen\<close>.
\<close>

definition PIOc_InitDecomp ::
  "decomp_env \<Rightarrow> pio_state \<Rightarrow> int \<Rightarrow> int \<Rightarrow> int \<Rightarrow> int list option \<Rightarrow> int \<Rightarrow> nat option \<Rightarrow> bool
     \<Rightarrow> int option \<Rightarrow> int list option \<Rightarrow> int list option \<Rightarrow> outcome \<times> pio_state \<times> int option" where
  "PIOc_InitDecomp env st iosysid' pio_type ndims' gdimlen maplen' compmap ioidp rearranger'
       iostart iocount =
     (case pio_get_iosystem_from_id st iosysid' of
        None \<Rightarrow> (pio_err st None PIO_EBADID, st, None)
      | Some ios \<Rightarrow>
          let gd = the gdimlen;
              cm = read_compmap st (the compmap) maplen';
              alloc = malloc_iodesc env ios pio_type ndims';
              iodesc1 = iodesc_set_map env (snd alloc) maplen' cm;
              iodesc2 = iodesc_set_dims iodesc1 ios gd ndims' rearranger'
          in
          if gdimlen = None \<or> compmap = None \<or> \<not> ioidp
          then (pio_err st (Some ios) PIO_EINVAL, st, None)
          else if list_ex (\<lambda>d. d \<le> 0) (take (nat ndims') gd)
          then (pio_err st (Some ios) PIO_EINVAL, st, None)
          else if InitDecomp_async env st ios rearranger' \<noteq> None
          then (the (InitDecomp_async env st ios rearranger'), st, None)
          else if fst alloc \<noteq> 0 then (pio_err st (Some ios) (fst alloc), st, None)
          else if \<not> malloc_map env then (pio_err st (Some ios) PIO_ENOMEM, st, None)
          else if needs_sort cm \<and> \<not> malloc_tmpsort env
          then (pio_err st (Some ios) PIO_ENOMEM, st, None)
          else if needs_sort cm \<and> \<not> malloc_remap env
          then (pio_err st (Some ios) PIO_ENOMEM, st, None)
          else if \<not> malloc_dimlen env then (pio_err st (Some ios) PIO_ENOMEM, st, None)
          else InitDecomp_finish env st ios pio_type maplen' ndims' cm gd iostart iocount iodesc2)"

subsection \<open>PIOc\_init\_decomp (pioc.c lines 798-832)\<close>

text \<open>
  The wrapper for a 0-based map: it allocates \<open>compmap_1_based\<close>, fills it with
  the elements of the caller's array plus one (in \<^verbatim>\<open>PIO_Offset\<close> arithmetic, line
  822), calls PIOc\_InitDecomp on it with the rearranger passed by pointer when it
  is not 0, and frees the buffer. A NULL \<open>compmap\<close> with a positive \<open>maplen\<close> is
  dereferenced by the loop of line 819, which ends the process.
\<close>

definition PIOc_init_decomp ::
  "decomp_env \<Rightarrow> pio_state \<Rightarrow> int \<Rightarrow> int \<Rightarrow> int \<Rightarrow> int list option \<Rightarrow> int \<Rightarrow> nat option \<Rightarrow> bool
     \<Rightarrow> int \<Rightarrow> int list option \<Rightarrow> int list option \<Rightarrow> outcome \<times> pio_state \<times> int option" where
  "PIOc_init_decomp env st iosysid' pio_type ndims' gdimlen maplen' compmap ioidp rearranger'
       iostart iocount =
     (let rearrangerp = (if rearranger' \<noteq> 0 then Some rearranger' else None) in
      if \<not> malloc_compmap_1_based env then (Return PIO_ENOMEM, st, None)
      else if compmap = None \<and> 0 < maplen' then (Abort, st, None)
      else
        let compmap_1_based =
              map (\<lambda>e. c_offset (e + 1))
                (case compmap of None \<Rightarrow> [] | Some p \<Rightarrow> read_compmap st p maplen');
            (a, st1) = malloc_buf st compmap_1_based;
            (ret, st2, ioid_out) =
              PIOc_InitDecomp env st1 iosysid' pio_type ndims' gdimlen maplen' (Some a) ioidp
                rearrangerp iostart iocount
        in (ret, free_buf st2 a, ioid_out))"

subsection \<open>Notions used in the properties of PIOc\_InitDecomp\<close>

text \<open>
  What a call leaves alone until the id is assigned: the globals, both lists and
  every buffer that was allocated before the call.
\<close>

definition heap_frame :: "pio_state \<Rightarrow> pio_state \<Rightarrow> bool" where
  "heap_frame st st' \<longleftrightarrow>
     default_error_handler st' = default_error_handler st
     \<and> pio_next_ioid st' = pio_next_ioid st
     \<and> pio_iosystem_list st' = pio_iosystem_list st
     \<and> pio_iodesc_list st' = pio_iodesc_list st
     \<and> brk st \<le> brk st'
     \<and> (\<forall>p < brk st. heap st' p = heap st p)"

text \<open>
  The state a rearranger block leaves, whether it returns or goes on.
\<close>

fun block_state :: "(outcome \<times> pio_state) + (io_desc \<times> pio_state) \<Rightarrow> pio_state" where
  "block_state (Inl (e, s)) = s"
| "block_state (Inr (d, s)) = s"

text \<open>
  subset\_rearrange\_create and box\_rearrange\_create are not in pioc.c. The
  properties of the stored map are stated for rearrangers that fill in the
  communication plan of the descriptor and leave \<open>map\<close>, \<open>remap\<close> and \<open>needssort\<close>
  as PIOc\_InitDecomp set them.
\<close>

definition keeps_map ::
  "(iosystem_desc \<Rightarrow> int \<Rightarrow> int list \<Rightarrow> int list \<Rightarrow> int \<Rightarrow> io_desc \<Rightarrow> int \<times> io_desc) \<Rightarrow> bool" where
  "keeps_map create \<longleftrightarrow>
     (\<forall>ios n m gd nd d.
        map_d (snd (create ios n m gd nd d)) = map_d d
        \<and> remap (snd (create ios n m gd nd d)) = remap d
        \<and> needssort (snd (create ios n m gd nd d)) = needssort d)"

text \<open>
  The id a successful call assigns: the value the broadcast from the I/O root
  leaves in \<open>pio_next_ioid\<close> with async, and \<open>pio_next_ioid\<close> itself otherwise.
\<close>

definition assigned_ioid :: "decomp_env \<Rightarrow> pio_state \<Rightarrow> iosystem_desc \<Rightarrow> int" where
  "assigned_ioid env st ios =
     (if async ios then snd (bcast_next_ioid env (pio_next_ioid st)) else pio_next_ioid st)"

text \<open>
  The rearranger block of \<open>InitDecomp_finish\<close>, by name.
\<close>

definition rearr_block ::
  "decomp_env \<Rightarrow> pio_state \<Rightarrow> iosystem_desc \<Rightarrow> int \<Rightarrow> int \<Rightarrow> int \<Rightarrow> int list \<Rightarrow> int list
     \<Rightarrow> int list option \<Rightarrow> int list option \<Rightarrow> io_desc
     \<Rightarrow> (outcome \<times> pio_state) + (io_desc \<times> pio_state)" where
  "rearr_block env st ios pio_type maplen' ndims' cm gd iostart iocount iodesc =
     (if rearranger iodesc = PIO_REARR_SUBSET
      then subset_block env st ios maplen' cm gd ndims' iodesc
      else box_block env st ios pio_type maplen' ndims' gd iostart iocount iodesc)"

text \<open>
  PIOc\_InitDecomp read as its checks in order (\<open>initdecomp_checks\<close>, lines
  526-648) and the descriptor it hands to the rearranger when none of them fails
  (\<open>initdecomp_iodesc\<close>); the lemma \<open>PIOc_InitDecomp_checks\<close> proves that this
  reading is the definition above.
\<close>

definition initdecomp_iodesc ::
  "decomp_env \<Rightarrow> iosystem_desc \<Rightarrow> int \<Rightarrow> int \<Rightarrow> int list \<Rightarrow> int \<Rightarrow> int list \<Rightarrow> int option \<Rightarrow> io_desc" where
  "initdecomp_iodesc env ios pio_type ndims' gd maplen' cm rearranger' =
     iodesc_set_dims (iodesc_set_map env (snd (malloc_iodesc env ios pio_type ndims')) maplen' cm)
       ios gd ndims' rearranger'"

definition initdecomp_checks ::
  "decomp_env \<Rightarrow> pio_state \<Rightarrow> iosystem_desc \<Rightarrow> int \<Rightarrow> int \<Rightarrow> int list option \<Rightarrow> int \<Rightarrow> nat option
     \<Rightarrow> bool \<Rightarrow> int option \<Rightarrow> (bool \<times> outcome) list" where
  "initdecomp_checks env st ios pio_type ndims' gdimlen maplen' compmap ioidp rearranger' =
     [(gdimlen = None \<or> compmap = None \<or> \<not> ioidp, pio_err st (Some ios) PIO_EINVAL),
      (list_ex (\<lambda>d. d \<le> 0) (take (nat ndims') (the gdimlen)), pio_err st (Some ios) PIO_EINVAL),
      (InitDecomp_async env st ios rearranger' \<noteq> None,
       the (InitDecomp_async env st ios rearranger')),
      (fst (malloc_iodesc env ios pio_type ndims') \<noteq> 0,
       pio_err st (Some ios) (fst (malloc_iodesc env ios pio_type ndims'))),
      (\<not> malloc_map env, pio_err st (Some ios) PIO_ENOMEM),
      (needs_sort (read_compmap st (the compmap) maplen') \<and> \<not> malloc_tmpsort env,
       pio_err st (Some ios) PIO_ENOMEM),
      (needs_sort (read_compmap st (the compmap) maplen') \<and> \<not> malloc_remap env,
       pio_err st (Some ios) PIO_ENOMEM),
      (\<not> malloc_dimlen env, pio_err st (Some ios) PIO_ENOMEM)]"

text \<open>
  What the C standard promises of qsort, for the comparison function \<open>compare\<close>:
  the result is a rearrangement of the array, in ascending order under the
  comparison. The order of elements that compare equal is left open.
\<close>

definition qsort_sorts ::
  "((sort_map \<Rightarrow> sort_map \<Rightarrow> int) \<Rightarrow> sort_map list \<Rightarrow> sort_map list) \<Rightarrow> bool" where
  "qsort_sorts q \<longleftrightarrow>
     (\<forall>xs. mset (q compare xs) = mset xs
           \<and> sorted_wrt (\<lambda>a b. compare a b \<le> 0) (q compare xs))"

text \<open>
  A sort that produced the map \<open>m\<close> with the original positions \<open>rm\<close> is stable
  when equal elements keep their original order.
\<close>

definition sort_is_stable :: "int list \<Rightarrow> int list \<Rightarrow> bool" where
  "sort_is_stable m rm \<longleftrightarrow> (\<forall>j < length m. \<forall>i < j. m ! i = m ! j \<longrightarrow> rm ! i < rm ! j)"

text \<open>
  The arguments pass the checks of lines 523-533: the three pointers are not
  NULL and the first \<open>ndims\<close> global dimensions are positive.
\<close>

definition args_valid :: "int list option \<Rightarrow> nat option \<Rightarrow> bool \<Rightarrow> int \<Rightarrow> bool" where
  "args_valid gdimlen compmap ioidp ndims' \<longleftrightarrow>
     gdimlen \<noteq> None \<and> compmap \<noteq> None \<and> ioidp
     \<and> (\<forall>i < nat ndims'. i < length (the gdimlen) \<longrightarrow> 0 < the gdimlen ! i)"

text \<open>
  With async, the MPI calls of lines 536-583 that send the parameters to the
  I/O tasks all succeed.
\<close>

definition params_sent :: "decomp_env \<Rightarrow> iosystem_desc \<Rightarrow> bool" where
  "params_sent env ios \<longleftrightarrow>
     bcast_mpierr (params_mpi env)
       (if ioproc ios then MPI_SUCCESS else msg_mpierr (params_mpi env))
     = (MPI_SUCCESS, MPI_SUCCESS)"

text \<open>
  The arguments of one call of PIOc\_InitDecomp together with what the
  environment does during it, \<open>run_call\<close> to make the call, and \<open>assigned_ids\<close>
  for the ids that a sequence of calls made one after the other on one task
  assigns: a call that returns an error assigns none, and nothing follows a call
  in which the process is aborted.
\<close>

record decomp_call =
  call_env :: decomp_env
  call_iosysid :: int
  call_pio_type :: int
  call_ndims :: int
  call_gdimlen :: "int list option"
  call_maplen :: int
  call_compmap :: "nat option"
  call_ioidp :: bool
  call_rearranger :: "int option"
  call_iostart :: "int list option"
  call_iocount :: "int list option"

definition run_call :: "pio_state \<Rightarrow> decomp_call \<Rightarrow> outcome \<times> pio_state \<times> int option" where
  "run_call st c =
     PIOc_InitDecomp (call_env c) st (call_iosysid c) (call_pio_type c) (call_ndims c)
       (call_gdimlen c) (call_maplen c) (call_compmap c) (call_ioidp c) (call_rearranger c)
       (call_iostart c) (call_iocount c)"

fun assigned_ids :: "pio_state \<Rightarrow> decomp_call list \<Rightarrow> int list" where
  "assigned_ids st [] = []"
| "assigned_ids st (c # cs) =
     (if fst (run_call st c) = Abort then []
      else (if fst (run_call st c) = Return PIO_NOERR then [the (snd (snd (run_call st c)))]
            else [])
           @ assigned_ids (fst (snd (run_call st c))) cs)"

text \<open>
  At a call, the id to assign (the counter, or with async the value that the
  broadcast from the I/O root delivers) is not below the counter the task holds
  at that call and is below INT\_MAX, so that the increment does not overflow
  (\<open>counter_advances\<close>); and the same at every call of a sequence, each in the
  state the calls before it left (\<open>counters_advance\<close>).
\<close>

definition counter_advances :: "pio_state \<Rightarrow> decomp_env \<Rightarrow> int \<Rightarrow> bool" where
  "counter_advances st env i \<longleftrightarrow>
     (case pio_get_iosystem_from_id st i of
        None \<Rightarrow> True
      | Some ios \<Rightarrow>
          pio_next_ioid st \<le> assigned_ioid env st ios
          \<and> INT_MIN \<le> assigned_ioid env st ios \<and> assigned_ioid env st ios < INT_MAX)"

fun counters_advance :: "pio_state \<Rightarrow> decomp_call list \<Rightarrow> bool" where
  "counters_advance st [] = True"
| "counters_advance st (c # cs) =
     (counter_advances st (call_env c) (call_iosysid c)
      \<and> counters_advance (fst (snd (run_call st c))) cs)"

text \<open>
  What a caller can observe of a call apart from the heap: the value returned,
  the four globals of the library afterwards (the default error handler, the id
  counter and the two lists) and the id written through \<open>ioidp\<close>.
\<close>

definition globals ::
  "pio_state \<Rightarrow> int \<times> int \<times> (int \<Rightarrow> iosystem_desc option) \<times> (int \<Rightarrow> io_desc option)" where
  "globals st =
     (default_error_handler st, pio_next_ioid st, pio_iosystem_list st, pio_iodesc_list st)"

definition call_result ::
  "outcome \<times> pio_state \<times> int option
     \<Rightarrow> outcome \<times> (int \<times> int \<times> (int \<Rightarrow> iosystem_desc option) \<times> (int \<Rightarrow> io_desc option))
        \<times> int option" where
  "call_result r = (fst r, globals (fst (snd r)), snd (snd r))"

text \<open>
  What a rearranger block yields, without the state.
\<close>

fun block_result ::
  "(outcome \<times> pio_state) + (io_desc \<times> pio_state) \<Rightarrow> outcome + io_desc" where
  "block_result (Inl (e, s)) = Inl e"
| "block_result (Inr (d, s)) = Inr d"

subsection \<open>Example values\<close>

text \<open>A decomposition with three local elements, registered under the id 512.\<close>

definition example_iodesc :: io_desc where
  "example_iodesc =
     \<lparr> ioid = 512, maplen = 3, map_d = [1, 2, 3], remap = None, nrecvs = 0, ndof = 3,
       ndims = 1, dimlen = [3], num_aiotasks = 1, rearranger = PIO_REARR_BOX,
       maxregions = 1, needsfill = False, needssort = False, readonly = False,
       piotype = 4, llen = 3, maxiobuflen = 3, rfrom = [], rcount = [], scount = [],
       sindex = [], rindex = [], firstregion = \<lparr> start = [0], count_r = [3] \<rparr> \<rparr>"

text \<open>An MPI in which every call succeeds and this process is the broadcast root.\<close>

definition quiet_mpi :: mpi_msg_env where
  "quiet_mpi = \<lparr> msg_mpierr = MPI_SUCCESS, bcast_mpierr = (\<lambda>m. (MPI_SUCCESS, m)) \<rparr>"

text \<open>
  The I/O system of rank 0 of four computation tasks with one I/O task (rank 0),
  as PIOc\_Init\_Intracomm leaves it, with the handler set to PIO\_RETURN\_ERROR.
\<close>

definition example_ios :: iosystem_desc where
  "example_ios =
     \<lparr> iosysid = 2048, union_comm = Comm 1, io_comm = Comm 3, comp_comm = Comm 2,
       intercomm = MPI_COMM_NULL, my_comm = Comm 2, num_iotasks = 1, num_comptasks = 4,
       num_uniontasks = 4, union_rank = 0, comp_rank = 0, io_rank = 0,
       iomaster = MPI_ROOT, compmaster = MPI_ROOT, ioroot = 0, comproot = 0,
       ioranks = [0], compranks = [0, 1, 2, 3], error_handler = PIO_RETURN_ERROR,
       default_rearranger = PIO_REARR_BOX, async = False, ioproc = True, compproc = True,
       rearr_opts = \<lparr> comm_type = PIO_REARR_COMM_COLL, fcd = PIO_REARR_COMM_FC_2D_DISABLE \<rparr> \<rparr>"

text \<open>
  A computation task of an async I/O system: it is not an I/O task, and its
  parameters travel over the intercommunicator.
\<close>

definition async_ios :: iosystem_desc where
  "async_ios =
     example_ios\<lparr> iosysid := 2049, intercomm := Comm 4, my_comm := Comm 1, num_uniontasks := 5,
                  union_rank := 1, io_rank := -1, iomaster := Rank 0, async := True,
                  ioproc := False \<rparr>"

definition example_state :: pio_state where
  "example_state =
     initial_state\<lparr>pio_iosystem_list :=
       (\<lambda>_. None)(2048 := Some example_ios, 2049 := Some async_ios)\<rparr>"

text \<open>
  Four computation tasks seen from rank 0; every call succeeds, and the new I/O
  system gets the id 2048.
\<close>

definition four_tasks :: intracomm_env where
  "four_tasks =
     \<lparr> pio_init_logging = 0, MPI_Comm_size = (MPI_SUCCESS, 4), calloc_ios = True,
       MPI_Comm_dup_union = (MPI_SUCCESS, Comm 1), MPI_Comm_dup_comp = (MPI_SUCCESS, Comm 2),
       MPI_Comm_rank_comp = (MPI_SUCCESS, 0), calloc_compranks = True, calloc_ioranks = True,
       MPI_Comm_group = MPI_SUCCESS, MPI_Group_incl = MPI_SUCCESS,
       MPI_Comm_create = (MPI_SUCCESS, Comm 3), MPI_Comm_rank_io = (MPI_SUCCESS, 0),
       pio_add_to_iosystem_list = 2048 \<rparr>"

text \<open>The state after the application chose PIO\_RETURN\_ERROR as the library default.\<close>

definition returning_state :: pio_state where
  "returning_state = initial_state\<lparr>default_error_handler := PIO_RETURN_ERROR\<rparr>"

text \<open>
  Two sorts that qsort may be: insertion sort under a comparison function, taking
  the elements from the last to the first (\<open>insertion_qsort\<close>, which keeps equal
  elements in their order) or from the first to the last (\<open>reverse_qsort\<close>, which
  reverses them).
\<close>

fun insort_cmp :: "('a \<Rightarrow> 'a \<Rightarrow> int) \<Rightarrow> 'a \<Rightarrow> 'a list \<Rightarrow> 'a list" where
  "insort_cmp cmp x [] = [x]"
| "insort_cmp cmp x (y # ys) = (if cmp x y \<le> 0 then x # y # ys else y # insort_cmp cmp x ys)"

definition insertion_qsort :: "('a \<Rightarrow> 'a \<Rightarrow> int) \<Rightarrow> 'a list \<Rightarrow> 'a list" where
  "insertion_qsort cmp xs = foldr (insort_cmp cmp) xs []"

definition reverse_qsort :: "('a \<Rightarrow> 'a \<Rightarrow> int) \<Rightarrow> 'a list \<Rightarrow> 'a list" where
  "reverse_qsort cmp xs = foldr (insort_cmp cmp) (rev xs) []"

text \<open>
  A descriptor as \<^verbatim>\<open>calloc\<close> leaves it, with one region.
\<close>

definition blank_iodesc :: io_desc where
  "blank_iodesc =
     \<lparr> ioid = 0, maplen = 0, map_d = [], remap = None, nrecvs = 0, ndof = 0, ndims = 0,
       dimlen = [], num_aiotasks = 0, rearranger = 0, maxregions = 1, needsfill = False,
       needssort = False, readonly = False, piotype = 0, llen = 0, maxiobuflen = 0,
       rfrom = [], rcount = [], scount = [], sindex = [], rindex = [],
       firstregion = \<lparr> start = [], count_r = [] \<rparr> \<rparr>"

text \<open>
  An environment in which every allocation and every MPI call succeeds and this
  task is the root of every broadcast. The duplicate check sorts the buffer it is
  given and reports whether a nonzero offset is repeated; the rearrangers record
  the local size; the first region is the whole array.
\<close>

definition plain_env ::
  "((sort_map \<Rightarrow> sort_map \<Rightarrow> int) \<Rightarrow> sort_map list \<Rightarrow> sort_map list) \<Rightarrow> decomp_env" where
  "plain_env q =
     \<lparr> params_mpi = quiet_mpi,
       malloc_iodesc = (\<lambda>ios pt nd. (0, blank_iodesc\<lparr>piotype := pt, ndims := nd\<rparr>)),
       malloc_map = True, malloc_tmpsort = True, malloc_remap = True, malloc_dimlen = True,
       malloc_tmpmap = True, malloc_compmap_1_based = True,
       qsort = q,
       run_unique_check = (\<lambda>buf. (0, sort buf, \<not> distinct (filter (\<lambda>x. x \<noteq> 0) buf))),
       subset_rearrange_create = (\<lambda>ios n m gd nd d. (0, d\<lparr>ndof := n\<rparr>)),
       box_rearrange_create = (\<lambda>ios n m gd nd d. (0, d\<lparr>ndof := n\<rparr>)),
       CalcStartandCount = (\<lambda>pt nd gd nio rank. (0, map (\<lambda>_. 0) gd, gd, nio)),
       compute_maxIObuffersize = (\<lambda>d. (0, prod_list (count_r (firstregion d)))),
       bcast_num_aiotasks = (\<lambda>v. (MPI_SUCCESS, v)),
       bcast_next_ioid = (\<lambda>v. (MPI_SUCCESS, v)) \<rparr>"

text \<open>
  The library with the I/O system 2048 open and the caller's array at address 0.
\<close>

definition state_with_map :: "int list \<Rightarrow> pio_state" where
  "state_with_map cm = example_state\<lparr>heap := (\<lambda>_. None)(0 := Some cm), brk := 1\<rparr>"

text \<open>
  The descriptor that the box rearranger of \<open>plain_env\<close> registers for a
  one-dimensional array of \<open>g\<close> elements.
\<close>

definition plain_box_iodesc ::
  "((sort_map \<Rightarrow> sort_map \<Rightarrow> int) \<Rightarrow> sort_map list \<Rightarrow> sort_map list) \<Rightarrow> int list \<Rightarrow> int \<Rightarrow> io_desc" where
  "plain_box_iodesc q cm g =
     (iodesc_set_map (plain_env q) (blank_iodesc\<lparr>piotype := 4, ndims := 1\<rparr>)
        (int (length cm)) cm)
     \<lparr> dimlen := [g], rearranger := PIO_REARR_BOX,
       firstregion := \<lparr> start = [0], count_r = [g] \<rparr>, maxiobuflen := g,
       num_aiotasks := 1, ndof := int (length cm), ioid := 512 \<rparr>"

text \<open>
  The library after PIOc\_Init\_Intracomm on a fresh process: the I/O system 2048
  has the default error handler.
\<close>

definition default_started_state :: pio_state where
  "default_started_state =
     (fst (snd (PIOc_Init_Intracomm four_tasks initial_state (Comm 0) 1 1 0 PIO_REARR_BOX True)))
     \<lparr>heap := (\<lambda>_. None)(0 := Some [1, 2]), brk := 1\<rparr>"

text \<open>
  A call for a one-dimensional array of two elements whose map is at address 0,
  and the environment \<open>plain_env\<close> in which the I/O root broadcasts the counter
  \<open>v\<close>.
\<close>

definition two_element_call :: "decomp_env \<Rightarrow> int \<Rightarrow> decomp_call" where
  "two_element_call env i =
     \<lparr> call_env = env, call_iosysid = i, call_pio_type = 4, call_ndims = 1,
       call_gdimlen = Some [2], call_maplen = 2, call_compmap = Some 0, call_ioidp = True,
       call_rearranger = None, call_iostart = None, call_iocount = None \<rparr>"

definition root_env :: "int \<Rightarrow> decomp_env" where
  "root_env v = (plain_env insertion_qsort)\<lparr>bcast_next_ioid := (\<lambda>_. (MPI_SUCCESS, v))\<rparr>"

section \<open>Properties\<close>

subsection \<open>Error reporting\<close>

lemma pio_err_returns:
  "err_num \<noteq> PIO_NOERR \<Longrightarrow>
   pio_err st ios err_num =
     (if (case ios of None \<Rightarrow> default_error_handler st | Some i \<Rightarrow> error_handler i)
         = PIO_INTERNAL_ERROR
      then Abort else Return err_num)"
  by (simp add: pio_err_def)

lemma pio_err_not_NOERR:
  "err_num \<noteq> PIO_NOERR \<Longrightarrow> pio_err st ios err_num \<noteq> Return PIO_NOERR"
  by (simp add: pio_err_def)

lemma check_mpi_not_NOERR:
  "mpierr \<noteq> MPI_SUCCESS \<Longrightarrow> check_mpi st ios mpierr \<noteq> Return PIO_NOERR"
  by (simp add: check_mpi_def PIO_EIO_def PIO_NOERR_def)

subsection \<open>PIOc\_iosystem\_is\_active\<close>

text \<open>
  C10. PIOc\_iosystem\_is\_active returns PIO\_NOERR for every iosysid and leaves the
  library state as it was. An id that names no I/O system is reported by writing
  false through \<open>active\<close>; a NULL \<open>active\<close> pointer is ignored (nothing is written).
\<close>

theorem PIOc_iosystem_is_active_always_noerr:
  "fst (PIOc_iosystem_is_active st iosysid' active) = Return PIO_NOERR
   \<and> fst (snd (PIOc_iosystem_is_active st iosysid' active)) = st
   \<and> (pio_get_iosystem_from_id st iosysid' = None \<and> active
        \<longrightarrow> snd (snd (PIOc_iosystem_is_active st iosysid' active)) = Some False)
   \<and> (\<not> active \<longrightarrow> snd (snd (PIOc_iosystem_is_active st iosysid' active)) = None)"
  by (simp add: PIOc_iosystem_is_active_def Let_def)

theorem PIOc_iosystem_is_active_witness:
  "pio_get_iosystem_from_id initial_state 2048 = None
   \<and> PIOc_iosystem_is_active initial_state 2048 True = (Return PIO_NOERR, initial_state, Some False)
   \<and> PIOc_iosystem_is_active initial_state 2048 False = (Return PIO_NOERR, initial_state, None)"
proof -
  have unknown: "pio_get_iosystem_from_id initial_state 2048 = None"
    by (simp add: pio_get_iosystem_from_id_def initial_state_def)
  show ?thesis
    using unknown
      PIOc_iosystem_is_active_always_noerr [of initial_state 2048 True]
      PIOc_iosystem_is_active_always_noerr [of initial_state 2048 False]
    by (simp add: prod_eq_iff)
qed

subsection \<open>PIOc\_get\_local\_array\_size\<close>

text \<open>
  C7, as the code has it. For a registered decomposition id the call returns the
  \<open>ndof\<close> of that decomposition. For an id that names no decomposition the call
  does not fail with an error code: the function has no error return, and it
  aborts the process through piodie.
\<close>

theorem PIOc_get_local_array_size_ndof_or_abort:
  "(pio_get_iodesc_from_id st i = Some iodesc
      \<longrightarrow> PIOc_get_local_array_size st i = Return (ndof iodesc))
   \<and> (pio_get_iodesc_from_id st i = None \<longrightarrow> PIOc_get_local_array_size st i = Abort)"
  by (simp add: PIOc_get_local_array_size_def piodie_def)

theorem PIOc_get_local_array_size_witness:
  "PIOc_get_local_array_size
     (initial_state\<lparr>pio_iodesc_list := (\<lambda>_. None)(512 := Some example_iodesc)\<rparr>) 512 = Return 3
   \<and> PIOc_get_local_array_size
     (initial_state\<lparr>pio_iodesc_list := (\<lambda>_. None)(512 := Some example_iodesc)\<rparr>) 513 = Abort"
  using PIOc_get_local_array_size_ndof_or_abort
      [of "initial_state\<lparr>pio_iodesc_list := (\<lambda>_. None)(512 := Some example_iodesc)\<rparr>"
          512 example_iodesc]
    PIOc_get_local_array_size_ndof_or_abort
      [of "initial_state\<lparr>pio_iodesc_list := (\<lambda>_. None)(512 := Some example_iodesc)\<rparr>"
          513 example_iodesc]
  by (simp add: pio_get_iodesc_from_id_def example_iodesc_def)

text \<open>
  The claim as the specification words it (an unknown id fails with BadId) does not
  hold: with no decomposition open, the call for id 512 aborts and returns nothing.
\<close>

theorem PIOc_get_local_array_size_unknown_id_aborts:
  "pio_get_iodesc_from_id initial_state 512 = None
   \<and> PIOc_get_local_array_size initial_state 512 = Abort
   \<and> PIOc_get_local_array_size initial_state 512 \<noteq> Return PIO_EBADID"
  by (simp add: PIOc_get_local_array_size_def pio_get_iodesc_from_id_def
      initial_state_def piodie_def)

subsection \<open>PIOc\_set\_iosystem\_error\_handling\<close>

lemma async_send_params_sync:
  "\<not> async ios \<Longrightarrow> async_send_params env st ios = None"
  by (simp add: async_send_params_def)

lemma async_send_params_ok:
  "bcast_mpierr env (if ioproc ios then MPI_SUCCESS else msg_mpierr env) = (MPI_SUCCESS, MPI_SUCCESS)
   \<Longrightarrow> async_send_params env st ios = None"
  by (cases "ioproc ios") (simp_all add: async_send_params_def Let_def)

lemma seh_default_reject:
  "\<not> valid_error_handler method \<Longrightarrow>
   PIOc_set_iosystem_error_handling env st PIO_DEFAULT method old_method =
     (if default_error_handler st = PIO_INTERNAL_ERROR then Abort else Return PIO_EINVAL, st, None)"
  by (simp add: PIOc_set_iosystem_error_handling_def pio_err_def PIO_EINVAL_def PIO_NOERR_def)

lemma seh_default_accept:
  "valid_error_handler method \<Longrightarrow>
   PIOc_set_iosystem_error_handling env st PIO_DEFAULT method old_method =
     (Return PIO_NOERR, st\<lparr>default_error_handler := method\<rparr>,
      if old_method then Some (default_error_handler st) else None)"
  by (simp add: PIOc_set_iosystem_error_handling_def)

lemma seh_ios_reject:
  "iosysid' \<noteq> PIO_DEFAULT \<Longrightarrow> pio_get_iosystem_from_id st iosysid' = Some ios \<Longrightarrow>
   \<not> valid_error_handler method \<Longrightarrow>
   PIOc_set_iosystem_error_handling env st iosysid' method old_method =
     (if error_handler ios = PIO_INTERNAL_ERROR then Abort else Return PIO_EINVAL, st, None)"
  by (simp add: PIOc_set_iosystem_error_handling_def pio_err_def PIO_EINVAL_def PIO_NOERR_def)

lemma seh_ios_accept:
  "iosysid' \<noteq> PIO_DEFAULT \<Longrightarrow> pio_get_iosystem_from_id st iosysid' = Some ios \<Longrightarrow>
   valid_error_handler method \<Longrightarrow> async_send_params env st ios = None \<Longrightarrow>
   PIOc_set_iosystem_error_handling env st iosysid' method old_method =
     (Return PIO_NOERR,
      st\<lparr>pio_iosystem_list :=
           (pio_iosystem_list st)(iosysid' := Some (ios\<lparr>error_handler := method\<rparr>))\<rparr>,
      if old_method then Some (error_handler ios) else None)"
  by (simp add: PIOc_set_iosystem_error_handling_def)

text \<open>
  C9, as the code has it. The library default handler is initially
  PIO\_INTERNAL\_ERROR, and the valid methods are exactly PIO\_INTERNAL\_ERROR,
  PIO\_BCAST\_ERROR and PIO\_RETURN\_ERROR. For iosysid PIO\_DEFAULT, and for the id
  of an open I/O system:
  \<^item> any other method is rejected with PIO\_EINVAL through pio\_err and nothing
    changes: the code is returned when the handler in effect (the library default,
    or the I/O system's) is not PIO\_INTERNAL\_ERROR, and the process is aborted
    when it is;
  \<^item> a valid method is accepted (for an async I/O system: when the MPI calls that
    ship the parameters succeed): the call returns PIO\_NOERR, writes the previous
    handler through \<open>old_method\<close> when that pointer is not NULL, and installs the
    method as the library default (PIO\_DEFAULT) or as the I/O system's handler.
\<close>

theorem PIOc_set_iosystem_error_handling_selects:
  "default_error_handler initial_state = PIO_INTERNAL_ERROR
   \<and> (valid_error_handler method \<longleftrightarrow>
        method \<in> {PIO_INTERNAL_ERROR, PIO_BCAST_ERROR, PIO_RETURN_ERROR})
   \<and> (\<not> valid_error_handler method \<longrightarrow>
        PIOc_set_iosystem_error_handling env st PIO_DEFAULT method old_method =
          (if default_error_handler st = PIO_INTERNAL_ERROR then Abort else Return PIO_EINVAL,
           st, None))
   \<and> (valid_error_handler method \<longrightarrow>
        PIOc_set_iosystem_error_handling env st PIO_DEFAULT method old_method =
          (Return PIO_NOERR, st\<lparr>default_error_handler := method\<rparr>,
           if old_method then Some (default_error_handler st) else None))
   \<and> (iosysid' \<noteq> PIO_DEFAULT \<and> pio_get_iosystem_from_id st iosysid' = Some ios
        \<and> \<not> valid_error_handler method \<longrightarrow>
        PIOc_set_iosystem_error_handling env st iosysid' method old_method =
          (if error_handler ios = PIO_INTERNAL_ERROR then Abort else Return PIO_EINVAL,
           st, None))
   \<and> (iosysid' \<noteq> PIO_DEFAULT \<and> pio_get_iosystem_from_id st iosysid' = Some ios
        \<and> valid_error_handler method
        \<and> (\<not> async ios \<or>
             bcast_mpierr env (if ioproc ios then MPI_SUCCESS else msg_mpierr env)
               = (MPI_SUCCESS, MPI_SUCCESS)) \<longrightarrow>
        PIOc_set_iosystem_error_handling env st iosysid' method old_method =
          (Return PIO_NOERR,
           st\<lparr>pio_iosystem_list :=
                (pio_iosystem_list st)(iosysid' := Some (ios\<lparr>error_handler := method\<rparr>))\<rparr>,
           if old_method then Some (error_handler ios) else None))"
proof (intro conjI impI)
  show "default_error_handler initial_state = PIO_INTERNAL_ERROR"
    by (simp add: initial_state_def)
next
  show "valid_error_handler method \<longleftrightarrow>
      method \<in> {PIO_INTERNAL_ERROR, PIO_BCAST_ERROR, PIO_RETURN_ERROR}"
    by (auto simp add: valid_error_handler_def)
next
  assume "\<not> valid_error_handler method"
  then show "PIOc_set_iosystem_error_handling env st PIO_DEFAULT method old_method =
      (if default_error_handler st = PIO_INTERNAL_ERROR then Abort else Return PIO_EINVAL,
       st, None)"
    by (rule seh_default_reject)
next
  assume "valid_error_handler method"
  then show "PIOc_set_iosystem_error_handling env st PIO_DEFAULT method old_method =
      (Return PIO_NOERR, st\<lparr>default_error_handler := method\<rparr>,
       if old_method then Some (default_error_handler st) else None)"
    by (rule seh_default_accept)
next
  assume h: "iosysid' \<noteq> PIO_DEFAULT \<and> pio_get_iosystem_from_id st iosysid' = Some ios
      \<and> \<not> valid_error_handler method"
  then show "PIOc_set_iosystem_error_handling env st iosysid' method old_method =
      (if error_handler ios = PIO_INTERNAL_ERROR then Abort else Return PIO_EINVAL, st, None)"
    by (simp add: seh_ios_reject)
next
  assume h: "iosysid' \<noteq> PIO_DEFAULT \<and> pio_get_iosystem_from_id st iosysid' = Some ios
      \<and> valid_error_handler method
      \<and> (\<not> async ios \<or>
           bcast_mpierr env (if ioproc ios then MPI_SUCCESS else msg_mpierr env)
             = (MPI_SUCCESS, MPI_SUCCESS))"
  then have sent: "async_send_params env st ios = None"
    using async_send_params_sync [of ios env st] async_send_params_ok [of env ios st] by blast
  from h sent show "PIOc_set_iosystem_error_handling env st iosysid' method old_method =
      (Return PIO_NOERR,
       st\<lparr>pio_iosystem_list :=
            (pio_iosystem_list st)(iosysid' := Some (ios\<lparr>error_handler := method\<rparr>))\<rparr>,
       if old_method then Some (error_handler ios) else None)"
    by (simp add: seh_ios_accept)
qed

theorem PIOc_set_iosystem_error_handling_witness:
  "PIOc_set_iosystem_error_handling quiet_mpi example_state PIO_DEFAULT 42 True =
     (Abort, example_state, None)
   \<and> PIOc_set_iosystem_error_handling quiet_mpi example_state PIO_DEFAULT PIO_RETURN_ERROR True =
     (Return PIO_NOERR, example_state\<lparr>default_error_handler := PIO_RETURN_ERROR\<rparr>,
      Some PIO_INTERNAL_ERROR)
   \<and> PIOc_set_iosystem_error_handling quiet_mpi example_state 2048 42 True =
     (Return PIO_EINVAL, example_state, None)
   \<and> PIOc_set_iosystem_error_handling quiet_mpi example_state 2048 PIO_BCAST_ERROR True =
     (Return PIO_NOERR,
      example_state\<lparr>pio_iosystem_list :=
        (pio_iosystem_list example_state)
          (2048 := Some (example_ios\<lparr>error_handler := PIO_BCAST_ERROR\<rparr>))\<rparr>,
      Some PIO_RETURN_ERROR)"
proof -
  have known: "pio_get_iosystem_from_id example_state 2048 = Some example_ios"
    by (simp add: pio_get_iosystem_from_id_def example_state_def)
  have facts: "\<not> valid_error_handler 42" "valid_error_handler PIO_RETURN_ERROR"
    "valid_error_handler PIO_BCAST_ERROR" "(2048::int) \<noteq> PIO_DEFAULT"
    "\<not> async example_ios" "error_handler example_ios = PIO_RETURN_ERROR"
    "default_error_handler example_state = PIO_INTERNAL_ERROR"
    by (simp_all add: valid_error_handler_def pio_consts example_ios_def example_state_def
        initial_state_def)
  show ?thesis
    using known facts
      PIOc_set_iosystem_error_handling_selects
        [of 42 quiet_mpi example_state True 2048 example_ios]
      PIOc_set_iosystem_error_handling_selects
        [of PIO_RETURN_ERROR quiet_mpi example_state True 2048 example_ios]
      PIOc_set_iosystem_error_handling_selects
        [of PIO_BCAST_ERROR quiet_mpi example_state True 2048 example_ios]
    by (simp add: pio_consts)
qed

text \<open>
  In the state the library starts in, asking for the invalid method 42 as the
  library default does not return PIO\_EINVAL: the default handler is
  PIO\_INTERNAL\_ERROR, so the process is aborted.
\<close>

theorem PIOc_set_iosystem_error_handling_invalid_aborts:
  "\<not> valid_error_handler 42
   \<and> fst (PIOc_set_iosystem_error_handling quiet_mpi initial_state PIO_DEFAULT 42 False) = Abort
   \<and> fst (PIOc_set_iosystem_error_handling quiet_mpi initial_state PIO_DEFAULT 42 False)
       \<noteq> Return PIO_EINVAL"
  by (simp add: PIOc_set_iosystem_error_handling_def valid_error_handler_def pio_err_def
      initial_state_def pio_consts)

subsection \<open>PIOc\_Init\_Intracomm\<close>

lemma first_failure_None: "first_failure cs = None \<longleftrightarrow> (\<forall>x \<in> set cs. \<not> fst x)"
  by (induction cs rule: first_failure.induct) simp_all

lemma first_failure_Some: "first_failure cs = Some r \<Longrightarrow> (True, r) \<in> set cs"
  by (induction cs rule: first_failure.induct) (auto split: if_split_asm)

lemma pio_err_Return_0:
  "pio_err st ios e = Return 0 \<longleftrightarrow> e = 0"
  "Return 0 = pio_err st ios e \<longleftrightarrow> e = 0"
  by (auto simp add: pio_err_def PIO_NOERR_def)

lemma check_mpi_Return_0:
  "check_mpi st ios e = Return 0 \<longleftrightarrow> e = 0"
  "Return 0 = check_mpi st ios e \<longleftrightarrow> e = 0"
  by (auto simp add: check_mpi_def PIO_EIO_def PIO_NOERR_def MPI_SUCCESS_def)

lemma smod_nonneg_eq_mod: "0 \<le> a \<Longrightarrow> 0 < b \<Longrightarrow> (a::int) smod b = a mod b"
  by (simp add: smod_int_alt_def sgn_if)

lemma c_int_id: "INT_MIN \<le> x \<Longrightarrow> x \<le> INT_MAX \<Longrightarrow> c_int x = x"
  by (simp add: c_int_def INT_MIN_def INT_MAX_def)

lemma c_offset_id: "LLONG_MIN \<le> x \<Longrightarrow> x \<le> LLONG_MAX \<Longrightarrow> c_offset x = x"
  by (simp add: c_offset_def LLONG_MIN_def LLONG_MAX_def)

lemma c_rem_Some: "y \<noteq> 0 \<Longrightarrow> y \<noteq> - 1 \<Longrightarrow> c_rem x y = Some (x smod y)"
  by (simp add: c_rem_def)

lemma c_rem_Some_eq: "c_rem x y = Some r \<Longrightarrow> r = x smod y"
  by (simp add: c_rem_def split: if_split_asm)

lemma compute_ioranks_Some:
  "m \<noteq> 0 \<Longrightarrow> m \<noteq> - 1 \<Longrightarrow>
   compute_ioranks b s n m
     = Some (map (\<lambda>i. c_int (b + c_int (int i * s)) smod m) [0..<nat n])"
  by (simp add: compute_ioranks_def Let_def c_rem_Some image_iff)

lemma compute_ioranks_nth:
  assumes "compute_ioranks b s n m = Some rs"
  shows "length rs = nat n"
    and "i < nat n \<Longrightarrow> rs ! i = c_int (b + c_int (int i * s)) smod m"
proof -
  let ?rs = "map (\<lambda>i. c_rem (c_int (b + c_int (int i * s))) m) [0..<nat n]"
  from assms have none: "None \<notin> set ?rs" and rs: "rs = map the ?rs"
    by (auto simp add: compute_ioranks_def Let_def split: if_split_asm)
  show "length rs = nat n" by (simp add: rs)
  assume i: "i < nat n"
  then have "?rs ! i \<in> set ?rs" by (intro nth_mem) simp
  with none have "?rs ! i \<noteq> None" by metis
  then obtain r where r: "c_rem (c_int (b + c_int (int i * s))) m = Some r"
    using i by auto
  then have "r = c_int (b + c_int (int i * s)) smod m" by (rule c_rem_Some_eq)
  with r i show "rs ! i = c_int (b + c_int (int i * s)) smod m"
    by (simp add: rs)
qed

lemma compute_ioranks_0: "1 \<le> n \<Longrightarrow> compute_ioranks b s n 0 = None"
proof -
  assume "1 \<le> n"
  then have "0 \<in> set [0..<nat n]" by simp
  then have "c_rem (c_int (b + c_int (int 0 * s))) 0
      \<in> set (map (\<lambda>i. c_rem (c_int (b + c_int (int i * s))) 0) [0..<nat n])"
    by (intro imageI [of 0 "set [0..<nat n]" "\<lambda>i. c_rem (c_int (b + c_int (int i * s))) 0",
          unfolded set_map [symmetric]])
  then show ?thesis
    by (simp add: compute_ioranks_def Let_def c_rem_def del: set_map)
qed

lemma PIOc_Init_Intracomm_checks:
  "PIOc_Init_Intracomm env st c n s b r p =
     (case first_failure (intracomm_checks env st n s b r p) of
        Some e \<Rightarrow> (e, st, None)
      | None \<Rightarrow>
          (Return PIO_NOERR,
           st\<lparr>pio_iosystem_list :=
                (pio_iosystem_list st)
                  (pio_add_to_iosystem_list env := Some (intracomm_ios env st n s b r))\<rparr>,
           Some (pio_add_to_iosystem_list env)))"
  unfolding PIOc_Init_Intracomm_def intracomm_checks_def intracomm_ios_def Let_def
    first_failure.simps
  by (simp only: if_distrib [of "case_option _ _"] option.case split: if_split)

lemma intracomm_ios2:
  "num_iotasks (ios_set_compranks (ios_set_comms env (calloc_iosystem st n m r))) = n"
  "num_comptasks (ios_set_compranks (ios_set_comms env (calloc_iosystem st n m r))) = m"
  by (simp_all add: ios_set_compranks_def ios_set_comms_def calloc_iosystem_def)


lemma PIOc_Init_Intracomm_success:
  assumes "fst (PIOc_Init_Intracomm env st c n s b r p) = Return PIO_NOERR"
  shows "p \<and> 1 \<le> n \<and> c_int (n * s) \<le> snd (MPI_Comm_size env)
     \<and> compute_ioranks b s n (snd (MPI_Comm_size env)) \<noteq> None
     \<and> PIOc_Init_Intracomm env st c n s b r p =
          (Return PIO_NOERR,
           st\<lparr>pio_iosystem_list :=
                (pio_iosystem_list st)
                  (pio_add_to_iosystem_list env := Some (intracomm_ios env st n s b r))\<rparr>,
           Some (pio_add_to_iosystem_list env))"
proof (cases "first_failure (intracomm_checks env st n s b r p)")
  case None
  then have "\<forall>x \<in> set (intracomm_checks env st n s b r p). \<not> fst x"
    by (simp only: first_failure_None)
  then have "p \<and> 1 \<le> n \<and> c_int (n * s) \<le> snd (MPI_Comm_size env)
      \<and> compute_ioranks b s n (snd (MPI_Comm_size env)) \<noteq> None"
    by (simp add: intracomm_checks_def Let_def intracomm_ios2)
  with None show ?thesis
    by (simp add: PIOc_Init_Intracomm_checks)
next
  case (Some e)
  then have "(True, e) \<in> set (intracomm_checks env st n s b r p)"
    by (rule first_failure_Some)
  then have "e \<noteq> Return PIO_NOERR"
    by (auto simp add: intracomm_checks_def Let_def pio_err_Return_0 check_mpi_Return_0
        pio_consts)
  with Some assms show ?thesis
    by (simp add: PIOc_Init_Intracomm_checks)
qed

lemma PIOc_Init_Intracomm_rejects:
  assumes "pio_init_logging env = 0" and "fst (MPI_Comm_size env) = MPI_SUCCESS"
    and "\<not> p \<or> n < 1 \<or> c_int (n * s) > snd (MPI_Comm_size env)"
  shows "PIOc_Init_Intracomm env st c n s b r p =
     (if default_error_handler st = PIO_INTERNAL_ERROR then Abort else Return PIO_EINVAL,
      st, None)"
  using assms
  by (simp add: PIOc_Init_Intracomm_def Let_def pio_err_def PIO_EINVAL_def PIO_NOERR_def)

lemma PIOc_Init_Intracomm_accepts:
  assumes env: "intracomm_env_ok env" and p: "p" and n: "1 \<le> n"
    and prod: "c_int (n * s) \<le> snd (MPI_Comm_size env)"
    and ranks: "compute_ioranks b s n (snd (MPI_Comm_size env)) \<noteq> None"
  shows "PIOc_Init_Intracomm env st c n s b r p =
          (Return PIO_NOERR,
           st\<lparr>pio_iosystem_list :=
                (pio_iosystem_list st)
                  (pio_add_to_iosystem_list env := Some (intracomm_ios env st n s b r))\<rparr>,
           Some (pio_add_to_iosystem_list env))"
proof -
  have "\<forall>x \<in> set (intracomm_checks env st n s b r p). \<not> fst x"
    using env p n prod ranks
    by (simp add: intracomm_checks_def Let_def intracomm_ios2 intracomm_env_ok_def)
  then have "first_failure (intracomm_checks env st n s b r p) = None"
    by (simp only: first_failure_None)
  then show ?thesis
    by (simp add: PIOc_Init_Intracomm_checks)
qed

lemma PIOc_Init_Intracomm_traps:
  assumes env: "intracomm_env_ok env" and p: "p" and n: "1 \<le> n"
    and prod: "c_int (n * s) \<le> snd (MPI_Comm_size env)"
    and ranks: "compute_ioranks b s n (snd (MPI_Comm_size env)) = None"
  shows "PIOc_Init_Intracomm env st c n s b r p = (Abort, st, None)"
  using assms
  by (simp add: PIOc_Init_Intracomm_def Let_def intracomm_ios2 intracomm_env_ok_def)

lemma intracomm_ios_ioranks:
  "ioranks (intracomm_ios env st n s b r) = the (compute_ioranks b s n (snd (MPI_Comm_size env)))"
  "num_comptasks (intracomm_ios env st n s b r) = snd (MPI_Comm_size env)"
  "num_iotasks (intracomm_ios env st n s b r) = n"
  by (simp_all add: intracomm_ios_def ios_set_io_rank_def ios_set_ioranks_def Let_def
      ios_set_compranks_def ios_set_comms_def calloc_iosystem_def)


text \<open>
  C5, as the code has it. Once logging is initialized and the size of the
  computation communicator is known, PIOc\_Init\_Intracomm rejects a NULL
  \<open>iosysidp\<close>, \<open>num_iotasks < 1\<close> and \<open>num_iotasks * stride > num_comptasks\<close> with
  PIO\_EINVAL through pio\_err and registers nothing (the code is returned unless
  the library default handler is PIO\_INTERNAL\_ERROR, under which the process is
  aborted). The product is the \<^verbatim>\<open>int\<close> product, which is the product of the two
  numbers whenever that fits in an \<^verbatim>\<open>int\<close>. There is no check of \<open>stride \<le> 0\<close>:
  when every call the function makes succeeds and there is at least one
  computation task, every call that passes these checks returns PIO\_NOERR,
  whatever the stride. A call that returns PIO\_NOERR has passed the checks and has
  registered an I/O system whose i-th I/O rank, for every i below \<open>num_iotasks\<close>,
  is \<open>(base + i * stride) % num_comptasks\<close> in \<^verbatim>\<open>int\<close> arithmetic with the
  truncating remainder of C; that is the mathematical \<open>mod\<close> whenever
  \<open>i * stride\<close> and \<open>base + i * stride\<close> fit in an \<^verbatim>\<open>int\<close> and the sum is not
  negative.
\<close>

theorem PIOc_Init_Intracomm_validates_and_assigns:
  "(pio_init_logging env = 0 \<and> fst (MPI_Comm_size env) = MPI_SUCCESS
      \<and> (\<not> iosysidp \<or> num_iotasks' < 1
          \<or> c_int (num_iotasks' * stride) > snd (MPI_Comm_size env))
     \<longrightarrow> PIOc_Init_Intracomm env st c num_iotasks' stride base rearr iosysidp =
          (if default_error_handler st = PIO_INTERNAL_ERROR then Abort else Return PIO_EINVAL,
           st, None))
   \<and> (intracomm_env_ok env \<and> iosysidp \<and> 1 \<le> num_iotasks'
        \<and> c_int (num_iotasks' * stride) \<le> snd (MPI_Comm_size env)
        \<and> 0 < snd (MPI_Comm_size env)
     \<longrightarrow> fst (PIOc_Init_Intracomm env st c num_iotasks' stride base rearr iosysidp)
          = Return PIO_NOERR)
   \<and> (INT_MIN \<le> num_iotasks' * stride \<and> num_iotasks' * stride \<le> INT_MAX
     \<longrightarrow> c_int (num_iotasks' * stride) = num_iotasks' * stride)
   \<and> (fst (PIOc_Init_Intracomm env st c num_iotasks' stride base rearr iosysidp)
        = Return PIO_NOERR
     \<longrightarrow> 1 \<le> num_iotasks' \<and> c_int (num_iotasks' * stride) \<le> snd (MPI_Comm_size env)
        \<and> snd (snd (PIOc_Init_Intracomm env st c num_iotasks' stride base rearr iosysidp))
            = Some (pio_add_to_iosystem_list env)
        \<and> (\<exists>ios.
              pio_get_iosystem_from_id
                (fst (snd (PIOc_Init_Intracomm env st c num_iotasks' stride base rearr iosysidp)))
                (pio_add_to_iosystem_list env) = Some ios
              \<and> num_comptasks ios = snd (MPI_Comm_size env)
              \<and> length (ioranks ios) = nat num_iotasks'
              \<and> (\<forall>i < nat num_iotasks'.
                    ioranks ios ! i
                      = c_int (base + c_int (int i * stride)) smod num_comptasks ios)
              \<and> (\<forall>i < nat num_iotasks'.
                    INT_MIN \<le> int i * stride \<and> int i * stride \<le> INT_MAX
                    \<and> 0 \<le> base + int i * stride \<and> base + int i * stride \<le> INT_MAX
                    \<and> 0 < num_comptasks ios
                    \<longrightarrow> ioranks ios ! i = (base + int i * stride) mod num_comptasks ios)))"
proof (intro conjI impI)
  assume "pio_init_logging env = 0 \<and> fst (MPI_Comm_size env) = MPI_SUCCESS
      \<and> (\<not> iosysidp \<or> num_iotasks' < 1
          \<or> c_int (num_iotasks' * stride) > snd (MPI_Comm_size env))"
  then show "PIOc_Init_Intracomm env st c num_iotasks' stride base rearr iosysidp =
      (if default_error_handler st = PIO_INTERNAL_ERROR then Abort else Return PIO_EINVAL,
       st, None)"
    by (simp add: PIOc_Init_Intracomm_rejects)
next
  assume h: "intracomm_env_ok env \<and> iosysidp \<and> 1 \<le> num_iotasks'
        \<and> c_int (num_iotasks' * stride) \<le> snd (MPI_Comm_size env)
        \<and> 0 < snd (MPI_Comm_size env)"
  then have "compute_ioranks base stride num_iotasks' (snd (MPI_Comm_size env)) \<noteq> None"
    by (simp add: compute_ioranks_Some)
  with h show "fst (PIOc_Init_Intracomm env st c num_iotasks' stride base rearr iosysidp)
      = Return PIO_NOERR"
    by (simp add: PIOc_Init_Intracomm_accepts)
next
  assume "INT_MIN \<le> num_iotasks' * stride \<and> num_iotasks' * stride \<le> INT_MAX"
  then show "c_int (num_iotasks' * stride) = num_iotasks' * stride"
    by (simp add: c_int_id)
next
  assume ok: "fst (PIOc_Init_Intracomm env st c num_iotasks' stride base rearr iosysidp)
      = Return PIO_NOERR"
  note s = PIOc_Init_Intracomm_success [OF ok]
  let ?ios = "intracomm_ios env st num_iotasks' stride base rearr"
  let ?m = "snd (MPI_Comm_size env)"
  from s show "1 \<le> num_iotasks'" by (elim conjE)
  from s show "c_int (num_iotasks' * stride) \<le> snd (MPI_Comm_size env)" by (elim conjE)
  from s obtain rs where rs: "compute_ioranks base stride num_iotasks' ?m = Some rs"
    by auto
  note nth = compute_ioranks_nth [OF rs]
  from s have eq: "PIOc_Init_Intracomm env st c num_iotasks' stride base rearr iosysidp =
      (Return PIO_NOERR,
       st\<lparr>pio_iosystem_list :=
            (pio_iosystem_list st)(pio_add_to_iosystem_list env := Some ?ios)\<rparr>,
       Some (pio_add_to_iosystem_list env))"
    by (elim conjE)
  show "snd (snd (PIOc_Init_Intracomm env st c num_iotasks' stride base rearr iosysidp))
      = Some (pio_add_to_iosystem_list env)"
    by (simp add: eq)
  have reg: "pio_get_iosystem_from_id
      (fst (snd (PIOc_Init_Intracomm env st c num_iotasks' stride base rearr iosysidp)))
      (pio_add_to_iosystem_list env) = Some ?ios"
    by (simp add: eq pio_get_iosystem_from_id_def)
  have ranks: "ioranks ?ios = rs" by (simp add: intracomm_ios_ioranks rs)
  show "\<exists>ios.
      pio_get_iosystem_from_id
        (fst (snd (PIOc_Init_Intracomm env st c num_iotasks' stride base rearr iosysidp)))
        (pio_add_to_iosystem_list env) = Some ios
      \<and> num_comptasks ios = snd (MPI_Comm_size env)
      \<and> length (ioranks ios) = nat num_iotasks'
      \<and> (\<forall>i < nat num_iotasks'.
            ioranks ios ! i = c_int (base + c_int (int i * stride)) smod num_comptasks ios)
      \<and> (\<forall>i < nat num_iotasks'.
            INT_MIN \<le> int i * stride \<and> int i * stride \<le> INT_MAX
            \<and> 0 \<le> base + int i * stride \<and> base + int i * stride \<le> INT_MAX
            \<and> 0 < num_comptasks ios
            \<longrightarrow> ioranks ios ! i = (base + int i * stride) mod num_comptasks ios)"
  proof (intro exI conjI)
    show "pio_get_iosystem_from_id
        (fst (snd (PIOc_Init_Intracomm env st c num_iotasks' stride base rearr iosysidp)))
        (pio_add_to_iosystem_list env) = Some ?ios"
      by (fact reg)
    show "num_comptasks ?ios = snd (MPI_Comm_size env)"
      by (simp add: intracomm_ios_ioranks)
    show "length (ioranks ?ios) = nat num_iotasks'"
      by (simp add: ranks nth)
    show "\<forall>i < nat num_iotasks'.
        ioranks ?ios ! i = c_int (base + c_int (int i * stride)) smod num_comptasks ?ios"
      by (simp add: ranks nth intracomm_ios_ioranks(2))
    show "\<forall>i < nat num_iotasks'.
        INT_MIN \<le> int i * stride \<and> int i * stride \<le> INT_MAX
        \<and> 0 \<le> base + int i * stride \<and> base + int i * stride \<le> INT_MAX
        \<and> 0 < num_comptasks ?ios
        \<longrightarrow> ioranks ?ios ! i = (base + int i * stride) mod num_comptasks ?ios"
    proof (intro allI impI)
      fix i
      assume i: "i < nat num_iotasks'"
        and h: "INT_MIN \<le> int i * stride \<and> int i * stride \<le> INT_MAX
          \<and> 0 \<le> base + int i * stride \<and> base + int i * stride \<le> INT_MAX
          \<and> 0 < num_comptasks ?ios"
      from h have "c_int (int i * stride) = int i * stride" by (simp add: c_int_id)
      moreover from h have "c_int (base + int i * stride) = base + int i * stride"
        by (intro c_int_id) (simp_all add: INT_MIN_def)
      ultimately show "ioranks ?ios ! i = (base + int i * stride) mod num_comptasks ?ios"
        using i h by (simp add: ranks nth intracomm_ios_ioranks(2) smod_nonneg_eq_mod)
    qed
  qed
qed

lemma four_tasks_ok: "intracomm_env_ok four_tasks"
  by (simp add: intracomm_env_ok_def four_tasks_def)

theorem PIOc_Init_Intracomm_witness:
  "PIOc_Init_Intracomm four_tasks returning_state (Comm 0) 0 1 0 PIO_REARR_BOX True =
     (Return PIO_EINVAL, returning_state, None)
   \<and> PIOc_Init_Intracomm four_tasks returning_state (Comm 0) 3 2 0 PIO_REARR_BOX True =
     (Return PIO_EINVAL, returning_state, None)
   \<and> fst (PIOc_Init_Intracomm four_tasks returning_state (Comm 0) 2 (- 3) 1 PIO_REARR_BOX True)
       = Return PIO_NOERR
   \<and> c_int (2 * 2147483647) = - 2
   \<and> fst (PIOc_Init_Intracomm four_tasks returning_state (Comm 0) 2 2147483647 0
            PIO_REARR_BOX True) = Return PIO_NOERR
   \<and> fst (PIOc_Init_Intracomm four_tasks returning_state (Comm 0) 2 2 1 PIO_REARR_BOX True)
       = Return PIO_NOERR
   \<and> (\<exists>ios.
         pio_get_iosystem_from_id
           (fst (snd (PIOc_Init_Intracomm four_tasks returning_state (Comm 0) 2 2 1
                        PIO_REARR_BOX True))) 2048 = Some ios
         \<and> ioranks ios = [1, 3])"
proof -
  have env: "pio_init_logging four_tasks = 0" "MPI_Comm_size four_tasks = (MPI_SUCCESS, 4)"
    "pio_add_to_iosystem_list four_tasks = 2048"
    by (simp_all add: four_tasks_def)
  have handler: "default_error_handler returning_state \<noteq> PIO_INTERNAL_ERROR"
    by (simp add: returning_state_def pio_consts)
  have wrap: "c_int (2 * 2147483647) = - 2" "c_int (2 * - 3) = - 6" "c_int (2 * 2) = 4"
    "c_int (0 * 1) = 0" "c_int (3 * 2) = 6"
    by (simp_all add: c_int_def)
  have rng: "INT_MIN \<le> 0" "0 \<le> INT_MAX" "INT_MIN \<le> 2" "2 \<le> INT_MAX" "3 \<le> INT_MAX"
    "1 \<le> INT_MAX"
    by (simp_all add: INT_MIN_def INT_MAX_def)
  have nths: "\<And>xs :: int list. length xs = nat 2 \<Longrightarrow> (\<forall>i < nat 2. xs ! i = (1 + int i * 2) mod 4)
      \<Longrightarrow> xs = [1, 3]"
    by (auto simp add: list_eq_iff_nth_eq less_Suc_eq numeral_2_eq_2)
  note T1 = PIOc_Init_Intracomm_validates_and_assigns
      [of four_tasks True 0 1 returning_state "Comm 0" 0 PIO_REARR_BOX]
  note T2 = PIOc_Init_Intracomm_validates_and_assigns
      [of four_tasks True 3 2 returning_state "Comm 0" 0 PIO_REARR_BOX]
  note T3 = PIOc_Init_Intracomm_validates_and_assigns
      [of four_tasks True 2 "- 3" returning_state "Comm 0" 1 PIO_REARR_BOX]
  note T4 = PIOc_Init_Intracomm_validates_and_assigns
      [of four_tasks True 2 2147483647 returning_state "Comm 0" 0 PIO_REARR_BOX]
  note T5 = PIOc_Init_Intracomm_validates_and_assigns
      [of four_tasks True 2 2 returning_state "Comm 0" 1 PIO_REARR_BOX]
  have a: "PIOc_Init_Intracomm four_tasks returning_state (Comm 0) 0 1 0 PIO_REARR_BOX True =
      (Return PIO_EINVAL, returning_state, None)"
    using T1 [THEN conjunct1] env handler by simp
  have b: "PIOc_Init_Intracomm four_tasks returning_state (Comm 0) 3 2 0 PIO_REARR_BOX True =
      (Return PIO_EINVAL, returning_state, None)"
    using T2 [THEN conjunct1] env handler wrap by simp
  have c: "fst (PIOc_Init_Intracomm four_tasks returning_state (Comm 0) 2 (- 3) 1
      PIO_REARR_BOX True) = Return PIO_NOERR"
    using T3 [THEN conjunct2, THEN conjunct1] env four_tasks_ok wrap by simp
  have d: "fst (PIOc_Init_Intracomm four_tasks returning_state (Comm 0) 2 2147483647 0
      PIO_REARR_BOX True) = Return PIO_NOERR"
    using T4 [THEN conjunct2, THEN conjunct1] env four_tasks_ok wrap by simp
  have e: "fst (PIOc_Init_Intracomm four_tasks returning_state (Comm 0) 2 2 1
      PIO_REARR_BOX True) = Return PIO_NOERR"
    using T5 [THEN conjunct2, THEN conjunct1] env four_tasks_ok wrap by simp
  from T5 [THEN conjunct2, THEN conjunct2, THEN conjunct2, THEN mp, OF e]
  obtain ios where ios: "pio_get_iosystem_from_id
        (fst (snd (PIOc_Init_Intracomm four_tasks returning_state (Comm 0) 2 2 1
           PIO_REARR_BOX True))) 2048 = Some ios"
    and m: "num_comptasks ios = 4"
    and len: "length (ioranks ios) = nat 2"
    and el: "\<forall>i < nat 2.
        INT_MIN \<le> int i * 2 \<and> int i * 2 \<le> INT_MAX
        \<and> 0 \<le> 1 + int i * 2 \<and> 1 + int i * 2 \<le> INT_MAX \<and> 0 < num_comptasks ios
        \<longrightarrow> ioranks ios ! i = (1 + int i * 2) mod num_comptasks ios"
    using env by auto
  have "\<forall>i < nat 2. ioranks ios ! i = (1 + int i * 2) mod 4"
  proof (intro allI impI)
    fix i :: nat assume "i < nat 2"
    then have i: "i = 0 \<or> i = 1" by auto
    then have "INT_MIN \<le> int i * 2 \<and> int i * 2 \<le> INT_MAX
        \<and> 0 \<le> 1 + int i * 2 \<and> 1 + int i * 2 \<le> INT_MAX \<and> 0 < num_comptasks ios"
      by (auto simp add: INT_MIN_def INT_MAX_def m)
    with el \<open>i < nat 2\<close> show "ioranks ios ! i = (1 + int i * 2) mod 4"
      by (simp add: m)
  qed
  with len have "ioranks ios = [1, 3]" by (rule nths)
  with ios have f: "\<exists>ios.
         pio_get_iosystem_from_id
           (fst (snd (PIOc_Init_Intracomm four_tasks returning_state (Comm 0) 2 2 1
                        PIO_REARR_BOX True))) 2048 = Some ios
         \<and> ioranks ios = [1, 3]" by blast
  show ?thesis
    using a b c d e f wrap(1) by (intro conjI)
qed

text \<open>
  A stride that is not positive is not rejected: with one I/O task among four
  computation tasks, the strides 0 and -1 pass the checks and the call returns
  PIO\_NOERR.
\<close>

theorem PIOc_Init_Intracomm_accepts_stride_0:
  "(0::int) \<le> 0
   \<and> fst (PIOc_Init_Intracomm four_tasks returning_state (Comm 0) 1 0 0 PIO_REARR_BOX True)
       = Return PIO_NOERR
   \<and> fst (PIOc_Init_Intracomm four_tasks returning_state (Comm 0) 1 0 0 PIO_REARR_BOX True)
       \<noteq> Return PIO_EINVAL
   \<and> (- 1::int) \<le> 0
   \<and> fst (PIOc_Init_Intracomm four_tasks returning_state (Comm 0) 1 (- 1) 0 PIO_REARR_BOX True)
       = Return PIO_NOERR
   \<and> fst (PIOc_Init_Intracomm four_tasks returning_state (Comm 0) 1 (- 1) 0 PIO_REARR_BOX True)
       \<noteq> Return PIO_EINVAL"
proof -
  have m: "snd (MPI_Comm_size four_tasks) = 4" by (simp add: four_tasks_def)
  have r: "compute_ioranks 0 s 1 4 \<noteq> None" for s
    by (simp add: compute_ioranks_Some)
  have "fst (PIOc_Init_Intracomm four_tasks returning_state (Comm 0) 1 0 0 PIO_REARR_BOX True)
       = Return PIO_NOERR"
    using r [of 0]
    by (simp add: PIOc_Init_Intracomm_accepts [OF four_tasks_ok] m c_int_def)
  moreover have "fst (PIOc_Init_Intracomm four_tasks returning_state (Comm 0) 1 (- 1) 0
      PIO_REARR_BOX True) = Return PIO_NOERR"
    using r [of "- 1"]
    by (simp add: PIOc_Init_Intracomm_accepts [OF four_tasks_ok] m c_int_def)
  ultimately show ?thesis by (simp add: pio_consts)
qed

subsection \<open>PIOc\_InitDecomp\<close>

lemma heap_frame_refl: "heap_frame st st"
  by (simp add: heap_frame_def)

lemma subset_block_frame:
  "heap_frame st (block_state (subset_block env st ios n cm gd nd d))"
  by (simp add: subset_block_def Let_def malloc_buf_def free_buf_def heap_frame_def
      split: prod.split)

lemma box_block_frame:
  "heap_frame st (block_state (box_block env st ios pt n nd gd is ic d))"
  by (simp add: box_block_def Let_def heap_frame_def split: sum.split)

lemma subset_block_Inl_not_ok:
  "subset_block env st ios n cm gd nd d = Inl (e, s) \<Longrightarrow> e \<noteq> Return PIO_NOERR"
  by (auto simp add: subset_block_def Let_def pio_err_Return_0 pio_consts
      split: prod.splits if_split_asm)

lemma box_block_Inl_not_ok:
  "box_block env st ios pt n nd gd is ic d = Inl (e, s) \<Longrightarrow> e \<noteq> Return PIO_NOERR"
  by (auto simp add: box_block_def box_ioproc_def Let_def pio_err_Return_0 check_mpi_Return_0
      pio_consts split: sum.splits if_split_asm)

lemma subset_block_keeps:
  "keeps_map (subset_rearrange_create env) \<Longrightarrow>
   subset_block env st ios n cm gd nd d = Inr (d', s) \<Longrightarrow>
   map_d d' = map_d d \<and> remap d' = remap d \<and> needssort d' = needssort d"
  by (auto simp add: subset_block_def Let_def keeps_map_def split: prod.splits if_split_asm)

lemma box_block_keeps:
  "keeps_map (box_rearrange_create env) \<Longrightarrow>
   box_block env st ios pt n nd gd is ic d = Inr (d', s) \<Longrightarrow>
   map_d d' = map_d d \<and> remap d' = remap d \<and> needssort d' = needssort d"
  by (auto simp add: box_block_def box_ioproc_def Let_def keeps_map_def
      split: sum.splits if_split_asm)

lemma assign_ioid_success:
  assumes "fst (assign_ioid env st ios d) = Return PIO_NOERR"
  shows "assign_ioid env st ios d =
     (Return PIO_NOERR,
      st\<lparr>pio_next_ioid := c_int (assigned_ioid env st ios + 1),
          pio_iodesc_list :=
            (pio_iodesc_list st)
              (assigned_ioid env st ios := Some (d\<lparr>ioid := assigned_ioid env st ios\<rparr>))\<rparr>,
      Some (assigned_ioid env st ios))"
  using assms
  by (auto simp add: assign_ioid_def assigned_ioid_def Let_def pio_add_to_iodesc_list_def
      check_mpi_Return_0 pio_consts split: if_split_asm)

lemma assign_ioid_heap:
  "heap (fst (snd (assign_ioid env st ios d))) = heap st"
  "brk (fst (snd (assign_ioid env st ios d))) = brk st"
  by (simp_all add: assign_ioid_def Let_def pio_add_to_iodesc_list_def)

lemma assign_ioid_failure_list:
  "fst (assign_ioid env st ios d) \<noteq> Return PIO_NOERR \<Longrightarrow>
   pio_iodesc_list (fst (snd (assign_ioid env st ios d))) = pio_iodesc_list st"
  by (simp add: assign_ioid_def Let_def pio_add_to_iodesc_list_def pio_consts
      split: if_split_asm)

lemma PIOc_InitDecomp_checks:
  "pio_get_iosystem_from_id st i = Some ios \<Longrightarrow>
   PIOc_InitDecomp env st i pt nd gdimlen n compmap ioidp r is ic =
     (case first_failure (initdecomp_checks env st ios pt nd gdimlen n compmap ioidp r) of
        Some e \<Rightarrow> (e, st, None)
      | None \<Rightarrow>
          InitDecomp_finish env st ios pt n nd (read_compmap st (the compmap) n) (the gdimlen)
            is ic
            (initdecomp_iodesc env ios pt nd (the gdimlen) n (read_compmap st (the compmap) n) r))"
  unfolding PIOc_InitDecomp_def initdecomp_checks_def initdecomp_iodesc_def Let_def
    first_failure.simps
  by (simp only: if_distrib [of "case_option _ _"] option.case split: if_split)

lemma InitDecomp_async_not_ok:
  "InitDecomp_async env st ios r = Some e \<Longrightarrow> e \<noteq> Return PIO_NOERR"
  by (auto simp add: InitDecomp_async_def Let_def pio_err_Return_0 check_mpi_Return_0 pio_consts
      split: prod.splits if_split_asm)

lemma initdecomp_checks_not_ok:
  "(True, e) \<in> set (initdecomp_checks env st ios pt nd gdimlen n compmap ioidp r)
   \<Longrightarrow> e \<noteq> Return PIO_NOERR"
  using InitDecomp_async_not_ok [of env st ios r]
  by (auto simp add: initdecomp_checks_def pio_err_Return_0 pio_consts)

lemma InitDecomp_finish_rearr_block:
  "InitDecomp_finish env st ios pt n nd cm gd is ic d =
     (case rearr_block env st ios pt n nd cm gd is ic d of
        Inl (e, st1) \<Rightarrow> (e, st1, None)
      | Inr (d1, st1) \<Rightarrow> assign_ioid env st1 ios d1)"
  by (simp add: InitDecomp_finish_def rearr_block_def)

lemma rearr_block_frame:
  "heap_frame st (block_state (rearr_block env st ios pt n nd cm gd is ic d))"
  by (simp add: rearr_block_def subset_block_frame box_block_frame)

lemma rearr_block_Inl_not_ok:
  "rearr_block env st ios pt n nd cm gd is ic d = Inl (e, s) \<Longrightarrow> e \<noteq> Return PIO_NOERR"
  using subset_block_Inl_not_ok box_block_Inl_not_ok
  by (auto simp add: rearr_block_def split: if_split_asm)

lemma rearr_block_keeps:
  "keeps_map (subset_rearrange_create env) \<Longrightarrow> keeps_map (box_rearrange_create env) \<Longrightarrow>
   rearr_block env st ios pt n nd cm gd is ic d = Inr (d', s) \<Longrightarrow>
   map_d d' = map_d d \<and> remap d' = remap d \<and> needssort d' = needssort d"
  using subset_block_keeps box_block_keeps
  by (auto simp add: rearr_block_def split: if_split_asm)

lemma InitDecomp_finish_success:
  assumes "fst (InitDecomp_finish env st ios pt n nd cm gd is ic d) = Return PIO_NOERR"
  obtains d1 st1 where
    "rearr_block env st ios pt n nd cm gd is ic d = Inr (d1, st1)"
    "heap_frame st st1"
    "InitDecomp_finish env st ios pt n nd cm gd is ic d =
       (Return PIO_NOERR,
        st1\<lparr>pio_next_ioid := c_int (assigned_ioid env st ios + 1),
            pio_iodesc_list :=
              (pio_iodesc_list st)
                (assigned_ioid env st ios := Some (d1\<lparr>ioid := assigned_ioid env st ios\<rparr>))\<rparr>,
        Some (assigned_ioid env st ios))"
proof (cases "rearr_block env st ios pt n nd cm gd is ic d")
  case (Inl a)
  obtain e s where a: "a = (e, s)" by (cases a)
  with Inl have "e \<noteq> Return PIO_NOERR" by (simp add: rearr_block_Inl_not_ok)
  with Inl a assms show ?thesis by (simp add: InitDecomp_finish_rearr_block)
next
  case (Inr b)
  obtain d1 st1 where b: "b = (d1, st1)" by (cases b)
  have fr: "heap_frame st st1"
    using rearr_block_frame [of st env ios pt n nd cm gd "is" ic d] Inr b by simp
  then have same: "pio_next_ioid st1 = pio_next_ioid st" "pio_iodesc_list st1 = pio_iodesc_list st"
    by (simp_all add: heap_frame_def)
  have fin: "InitDecomp_finish env st ios pt n nd cm gd is ic d = assign_ioid env st1 ios d1"
    using Inr b by (simp add: InitDecomp_finish_rearr_block)
  with assms have "fst (assign_ioid env st1 ios d1) = Return PIO_NOERR" by simp
  from assign_ioid_success [OF this] same
  have "InitDecomp_finish env st ios pt n nd cm gd is ic d =
       (Return PIO_NOERR,
        st1\<lparr>pio_next_ioid := c_int (assigned_ioid env st ios + 1),
            pio_iodesc_list :=
              (pio_iodesc_list st)
                (assigned_ioid env st ios := Some (d1\<lparr>ioid := assigned_ioid env st ios\<rparr>))\<rparr>,
        Some (assigned_ioid env st ios))"
    by (simp add: fin assigned_ioid_def)
  with Inr b fr show ?thesis by (intro that) simp_all
qed

lemma PIOc_InitDecomp_success:
  assumes ok: "fst (PIOc_InitDecomp env st i pt nd gdimlen n compmap ioidp r is ic)
      = Return PIO_NOERR"
  obtains ios gd p d1 st1 where
    "pio_get_iosystem_from_id st i = Some ios" "gdimlen = Some gd" "compmap = Some p" "ioidp"
    "rearr_block env st ios pt n nd (read_compmap st p n) gd is ic
       (initdecomp_iodesc env ios pt nd gd n (read_compmap st p n) r) = Inr (d1, st1)"
    "heap_frame st st1"
    "PIOc_InitDecomp env st i pt nd gdimlen n compmap ioidp r is ic =
       (Return PIO_NOERR,
        st1\<lparr>pio_next_ioid := c_int (assigned_ioid env st ios + 1),
            pio_iodesc_list :=
              (pio_iodesc_list st)
                (assigned_ioid env st ios := Some (d1\<lparr>ioid := assigned_ioid env st ios\<rparr>))\<rparr>,
        Some (assigned_ioid env st ios))"
proof (cases "pio_get_iosystem_from_id st i")
  case None
  with ok show ?thesis
    by (simp add: PIOc_InitDecomp_def pio_err_Return_0 pio_consts)
next
  case (Some ios)
  note chk = PIOc_InitDecomp_checks [OF Some, of env pt nd gdimlen n compmap ioidp r "is" ic]
  show ?thesis
  proof (cases "first_failure (initdecomp_checks env st ios pt nd gdimlen n compmap ioidp r)")
    case (Some e)
    then have "(True, e) \<in> set (initdecomp_checks env st ios pt nd gdimlen n compmap ioidp r)"
      by (rule first_failure_Some)
    then have "e \<noteq> Return PIO_NOERR"
      by (rule initdecomp_checks_not_ok)
    with Some ok chk show ?thesis by simp
  next
    case None
    then have "\<forall>x \<in> set (initdecomp_checks env st ios pt nd gdimlen n compmap ioidp r). \<not> fst x"
      by (simp only: first_failure_None)
    then have args: "gdimlen \<noteq> None" "compmap \<noteq> None" "ioidp"
      by (simp_all add: initdecomp_checks_def)
    then obtain gd p where gp: "gdimlen = Some gd" "compmap = Some p" by auto
    from None chk gp
    have fin: "PIOc_InitDecomp env st i pt nd gdimlen n compmap ioidp r is ic =
        InitDecomp_finish env st ios pt n nd (read_compmap st p n) gd is ic
          (initdecomp_iodesc env ios pt nd gd n (read_compmap st p n) r)"
      by simp
    with ok have "fst (InitDecomp_finish env st ios pt n nd (read_compmap st p n) gd is ic
          (initdecomp_iodesc env ios pt nd gd n (read_compmap st p n) r)) = Return PIO_NOERR"
      by simp
    then obtain d1 st1 where
      rb: "rearr_block env st ios pt n nd (read_compmap st p n) gd is ic
          (initdecomp_iodesc env ios pt nd gd n (read_compmap st p n) r) = Inr (d1, st1)"
      and fr: "heap_frame st st1"
      and res: "InitDecomp_finish env st ios pt n nd (read_compmap st p n) gd is ic
          (initdecomp_iodesc env ios pt nd gd n (read_compmap st p n) r) =
        (Return PIO_NOERR,
         st1\<lparr>pio_next_ioid := c_int (assigned_ioid env st ios + 1),
             pio_iodesc_list :=
               (pio_iodesc_list st)
                 (assigned_ioid env st ios := Some (d1\<lparr>ioid := assigned_ioid env st ios\<rparr>))\<rparr>,
         Some (assigned_ioid env st ios))"
      by (rule InitDecomp_finish_success)
    show ?thesis
      by (rule that [OF \<open>pio_get_iosystem_from_id st i = Some ios\<close> gp(1) gp(2) args(3) rb fr])
        (simp add: fin res)
  qed
qed

lemma needs_sort_iff:
  "needs_sort cm \<longleftrightarrow> (\<exists>k. 0 < k \<and> k < length cm \<and> cm ! k > 0 \<and> cm ! k < cm ! (k - 1))"
proof (induction cm rule: needs_sort.induct)
  case (1 x y ys)
  have "(\<exists>k. 0 < k \<and> k < length (x # y # ys) \<and> (x # y # ys) ! k > 0
          \<and> (x # y # ys) ! k < (x # y # ys) ! (k - 1))
      \<longleftrightarrow> (y > 0 \<and> y < x)
          \<or> (\<exists>k. 0 < k \<and> k < length (y # ys) \<and> (y # ys) ! k > 0
                \<and> (y # ys) ! k < (y # ys) ! (k - 1))"
    (is "?L \<longleftrightarrow> ?A \<or> ?R")
  proof
    assume ?L
    then obtain k where k: "0 < k" "k < length (x # y # ys)" "(x # y # ys) ! k > 0"
      "(x # y # ys) ! k < (x # y # ys) ! (k - 1)" by blast
    show "?A \<or> ?R"
    proof (cases "k = 1")
      case True
      with k show ?thesis by simp
    next
      case False
      with k obtain j where j: "k = Suc j" "0 < j" by (cases k) auto
      with k have "j < length (y # ys)" "(y # ys) ! j > 0" "(y # ys) ! j < (y # ys) ! (j - 1)"
        by (simp_all add: nth_Cons')
      with j show ?thesis by blast
    qed
  next
    assume "?A \<or> ?R"
    then show ?L
    proof
      assume ?A
      then have "0 < (1::nat) \<and> 1 < length (x # y # ys) \<and> (x # y # ys) ! 1 > 0
          \<and> (x # y # ys) ! 1 < (x # y # ys) ! (1 - 1)" by simp
      then show ?L by (intro exI)
    next
      assume ?R
      then obtain j where j: "0 < j" "j < length (y # ys)" "(y # ys) ! j > 0"
        "(y # ys) ! j < (y # ys) ! (j - 1)" by blast
      then have "0 < Suc j \<and> Suc j < length (x # y # ys) \<and> (x # y # ys) ! Suc j > 0
          \<and> (x # y # ys) ! Suc j < (x # y # ys) ! (Suc j - 1)"
        by (simp add: nth_Cons')
      then show ?L by (intro exI)
    qed
  qed
  with 1 show ?case by simp
qed simp_all

lemma compare_le_0: "compare a b \<le> 0 \<longleftrightarrow> s_map a \<le> s_map b"
  by (simp add: compare_def)

lemma sorted_wrt_compare: "sorted_wrt (\<lambda>a b. compare a b \<le> 0) ts \<longleftrightarrow> sorted (map s_map ts)"
  by (simp add: compare_le_0 sorted_map)

lemma mset_insort_cmp: "mset (insort_cmp cmp x ys) = add_mset x (mset ys)"
  by (induction ys) simp_all

lemma set_insort_cmp: "set (insort_cmp cmp x ys) = insert x (set ys)"
  by (induction ys) auto

lemma sorted_insort_cmp:
  "sorted (map s_map ys) \<Longrightarrow> sorted (map s_map (insort_cmp compare x ys))"
  by (induction ys) (auto simp add: compare_le_0 set_insort_cmp)

lemma foldr_insort_cmp:
  "mset (foldr (insort_cmp compare) xs []) = mset xs
   \<and> sorted (map s_map (foldr (insort_cmp compare) xs []))"
  by (induction xs) (simp_all add: mset_insort_cmp sorted_insort_cmp)

lemma qsort_sorts_insertion: "qsort_sorts insertion_qsort"
  by (simp add: qsort_sorts_def insertion_qsort_def sorted_wrt_compare foldr_insort_cmp)

lemma qsort_sorts_reverse: "qsort_sorts reverse_qsort"
  using foldr_insort_cmp [of "rev xs" for xs]
  by (simp add: qsort_sorts_def reverse_qsort_def sorted_wrt_compare)

lemma tmpsort_init_simps:
  "length (tmpsort_init cm) = length cm"
  "map s_map (tmpsort_init cm) = cm"
  "map s_remap (tmpsort_init cm) = map int [0..<length cm]"
  by (simp_all add: tmpsort_init_def comp_def map_nth)

lemma tmpsort_init_member:
  "t \<in> set (tmpsort_init cm) \<Longrightarrow>
   0 \<le> s_remap t \<and> nat (s_remap t) < length cm \<and> s_map t = cm ! nat (s_remap t)"
  by (auto simp add: tmpsort_init_def)

lemma iodesc_set_map_needssort:
  "needssort (iodesc_set_map env d n cm) = needs_sort cm"
  by (simp add: iodesc_set_map_def Let_def)

lemma iodesc_set_map_unsorted:
  "\<not> needs_sort cm \<Longrightarrow>
   remap (iodesc_set_map env d n cm) = None \<and> map_d (iodesc_set_map env d n cm) = cm"
  by (simp add: iodesc_set_map_def)

lemma iodesc_set_map_sorted:
  assumes q: "qsort_sorts (qsort env)" and ns: "needs_sort cm"
  defines "ts \<equiv> qsort env compare (tmpsort_init cm)"
  shows "map_d (iodesc_set_map env d n cm) = map s_map ts"
    and "remap (iodesc_set_map env d n cm) = Some (map s_remap ts)"
    and "mset ts = mset (tmpsort_init cm)"
    and "sorted (map s_map ts)"
    and "length ts = length cm"
proof -
  from q show m: "mset ts = mset (tmpsort_init cm)"
    by (simp add: qsort_sorts_def ts_def)
  from q show "sorted (map s_map ts)"
    by (simp add: qsort_sorts_def ts_def sorted_wrt_compare [symmetric])
  from m have "length ts = length (tmpsort_init cm)"
    by (rule mset_eq_length)
  then show len: "length ts = length cm"
    by (simp add: tmpsort_init_simps)
  from m have mem: "set ts = set (tmpsort_init cm)"
    by (rule mset_eq_setD)
  have "map (\<lambda>m. cm ! nat (s_remap (ts ! m))) [0..<length cm] = map s_map ts"
  proof (rule nth_equalityI)
    show "length (map (\<lambda>m. cm ! nat (s_remap (ts ! m))) [0..<length cm]) = length (map s_map ts)"
      by (simp add: len)
  next
    fix k assume "k < length (map (\<lambda>m. cm ! nat (s_remap (ts ! m))) [0..<length cm])"
    then have k: "k < length cm" by simp
    with len have "ts ! k \<in> set (tmpsort_init cm)"
      using mem nth_mem [of k ts] by simp
    then have "s_map (ts ! k) = cm ! nat (s_remap (ts ! k))"
      by (simp add: tmpsort_init_member)
    with k len show "map (\<lambda>m. cm ! nat (s_remap (ts ! m))) [0..<length cm] ! k = map s_map ts ! k"
      by simp
  qed
  with ns show "map_d (iodesc_set_map env d n cm) = map s_map ts"
    by (simp add: iodesc_set_map_def Let_def ts_def)
  have "map (\<lambda>m. s_remap (ts ! m)) [0..<length cm] = map s_remap ts"
    using len by (intro nth_equalityI) simp_all
  with ns show "remap (iodesc_set_map env d n cm) = Some (map s_remap ts)"
    by (simp add: iodesc_set_map_def Let_def ts_def)
qed

lemma sorted_map_is_sort:
  assumes q: "qsort_sorts (qsort env)" and ns: "needs_sort cm"
  shows "\<exists>rm. remap (iodesc_set_map env d n cm) = Some rm
      \<and> length rm = length cm
      \<and> length (map_d (iodesc_set_map env d n cm)) = length cm
      \<and> (\<forall>k < length cm. 0 \<le> rm ! k \<and> nat (rm ! k) < length cm
            \<and> map_d (iodesc_set_map env d n cm) ! k = cm ! nat (rm ! k))
      \<and> sorted (map_d (iodesc_set_map env d n cm))
      \<and> mset (map_d (iodesc_set_map env d n cm)) = mset cm
      \<and> mset rm = mset (map int [0..<length cm])"
proof -
  let ?ts = "qsort env compare (tmpsort_init cm)"
  note s = iodesc_set_map_sorted [OF q ns]
  have mem: "\<And>k. k < length cm \<Longrightarrow> ?ts ! k \<in> set (tmpsort_init cm)"
    using s(3) s(5) mset_eq_setD nth_mem by metis
  have a: "\<forall>k < length cm. 0 \<le> map s_remap ?ts ! k \<and> nat (map s_remap ?ts ! k) < length cm
      \<and> map s_map ?ts ! k = cm ! nat (map s_remap ?ts ! k)"
  proof (intro allI impI)
    fix k assume k: "k < length cm"
    from mem [OF k] have "0 \<le> s_remap (?ts ! k) \<and> nat (s_remap (?ts ! k)) < length cm
        \<and> s_map (?ts ! k) = cm ! nat (s_remap (?ts ! k))"
      by (rule tmpsort_init_member)
    with k s(5) show "0 \<le> map s_remap ?ts ! k \<and> nat (map s_remap ?ts ! k) < length cm
        \<and> map s_map ?ts ! k = cm ! nat (map s_remap ?ts ! k)"
      by simp
  qed
  have b: "mset (map s_map ?ts) = mset cm"
    using s(3) tmpsort_init_simps(2) [of cm] by (metis mset_map)
  have c: "mset (map s_remap ?ts) = mset (map int [0..<length cm])"
    using s(3) tmpsort_init_simps(3) [of cm] by (metis mset_map)
  have m: "map_d (iodesc_set_map env d n cm) = map s_map ?ts" by (rule s(1))
  have r: "remap (iodesc_set_map env d n cm) = Some (map s_remap ?ts)" by (rule s(2))
  show ?thesis
    unfolding m r
  proof (intro exI conjI)
    show "Some (map s_remap ?ts) = Some (map s_remap ?ts)" ..
    show "length (map s_remap ?ts) = length cm" by (simp add: s(5))
    show "length (map s_map ?ts) = length cm" by (simp add: s(5))
    show "\<forall>k < length cm. 0 \<le> map s_remap ?ts ! k \<and> nat (map s_remap ?ts ! k) < length cm
        \<and> map s_map ?ts ! k = cm ! nat (map s_remap ?ts ! k)" by (fact a)
    show "sorted (map s_map ?ts)" by (rule s(4))
    show "mset (map s_map ?ts) = mset cm" by (fact b)
    show "mset (map s_remap ?ts) = mset (map int [0..<length cm])" by (fact c)
  qed
qed

lemma state_with_map_simps:
  "pio_get_iosystem_from_id (state_with_map cm) 2048 = Some example_ios"
  "read_compmap (state_with_map cm) 0 (int (length cm)) = cm"
  "pio_next_ioid (state_with_map cm) = 512"
  "brk (state_with_map cm) = 1"
  "heap (state_with_map cm) 0 = Some cm"
  by (simp_all add: state_with_map_def example_state_def initial_state_def
      pio_get_iosystem_from_id_def read_compmap_def)

lemma example_ios_simps:
  "async example_ios = False" "ioproc example_ios = True" "compproc example_ios = True"
  "default_rearranger example_ios = PIO_REARR_BOX" "num_iotasks example_ios = 1"
  "io_rank example_ios = 0" "error_handler example_ios = PIO_RETURN_ERROR"
  by (simp_all add: example_ios_def)

lemma initdecomp_iodesc_map:
  "map_d (initdecomp_iodesc env ios pt nd gd n cm r)
     = map_d (iodesc_set_map env (snd (malloc_iodesc env ios pt nd)) n cm)"
  "remap (initdecomp_iodesc env ios pt nd gd n cm r)
     = remap (iodesc_set_map env (snd (malloc_iodesc env ios pt nd)) n cm)"
  "needssort (initdecomp_iodesc env ios pt nd gd n cm r) = needs_sort cm"
  by (simp_all add: initdecomp_iodesc_def iodesc_set_dims_def iodesc_set_map_needssort)

lemma PIOc_InitDecomp_registers:
  assumes k1: "keeps_map (subset_rearrange_create env)"
    and k2: "keeps_map (box_rearrange_create env)"
    and ok: "PIOc_InitDecomp env st i pt nd gdimlen n (Some p) ioidp r is ic
      = (Return PIO_NOERR, st', ioid_out)"
  obtains ios v d where
    "pio_get_iosystem_from_id st i = Some ios"
    "ioid_out = Some v" "v = assigned_ioid env st ios"
    "pio_get_iodesc_from_id st' v = Some d" "ioid d = v"
    "pio_next_ioid st' = c_int (v + 1)"
    "needssort d = needs_sort (read_compmap st p n)"
    "map_d d = map_d (iodesc_set_map env (snd (malloc_iodesc env ios pt nd)) n (read_compmap st p n))"
    "remap d = remap (iodesc_set_map env (snd (malloc_iodesc env ios pt nd)) n (read_compmap st p n))"
proof -
  from ok have "fst (PIOc_InitDecomp env st i pt nd gdimlen n (Some p) ioidp r is ic)
      = Return PIO_NOERR" by simp
  then obtain ios gd p' d1 st1 where
    lk: "pio_get_iosystem_from_id st i = Some ios" and "gdimlen = Some gd"
    and p': "Some p = Some p'" and "ioidp"
    and rb: "rearr_block env st ios pt n nd (read_compmap st p' n) gd is ic
       (initdecomp_iodesc env ios pt nd gd n (read_compmap st p' n) r) = Inr (d1, st1)"
    and "heap_frame st st1"
    and res: "PIOc_InitDecomp env st i pt nd gdimlen n (Some p) ioidp r is ic =
       (Return PIO_NOERR,
        st1\<lparr>pio_next_ioid := c_int (assigned_ioid env st ios + 1),
            pio_iodesc_list :=
              (pio_iodesc_list st)
                (assigned_ioid env st ios := Some (d1\<lparr>ioid := assigned_ioid env st ios\<rparr>))\<rparr>,
        Some (assigned_ioid env st ios))"
    by (rule PIOc_InitDecomp_success)
  from p' have pp: "p' = p" by simp
  note keep = rearr_block_keeps [OF k1 k2 rb [unfolded pp]]
  let ?v = "assigned_ioid env st ios"
  let ?d = "d1\<lparr>ioid := ?v\<rparr>"
  from ok res have st': "st' = st1\<lparr>pio_next_ioid := c_int (?v + 1),
      pio_iodesc_list := (pio_iodesc_list st)(?v := Some ?d)\<rparr>"
    and out: "ioid_out = Some ?v" by simp_all
  show ?thesis
  proof (rule that [of ios ?v ?d])
    show "pio_get_iosystem_from_id st i = Some ios" by (fact lk)
    show "ioid_out = Some ?v" by (fact out)
    show "?v = assigned_ioid env st ios" ..
    show "pio_get_iodesc_from_id st' ?v = Some ?d"
      by (simp add: st' pio_get_iodesc_from_id_def)
    show "ioid ?d = ?v" by simp
    show "pio_next_ioid st' = c_int (?v + 1)" by (simp add: st')
    show "needssort ?d = needs_sort (read_compmap st p n)"
      using keep by (simp add: initdecomp_iodesc_map)
    show "map_d ?d = map_d (iodesc_set_map env (snd (malloc_iodesc env ios pt nd)) n
        (read_compmap st p n))"
      using keep by (simp add: initdecomp_iodesc_map)
    show "remap ?d = remap (iodesc_set_map env (snd (malloc_iodesc env ios pt nd)) n
        (read_compmap st p n))"
      using keep by (simp add: initdecomp_iodesc_map)
  qed
qed

text \<open>
  C1, as the code has it. For a call of PIOc\_InitDecomp that returns PIO\_NOERR,
  with \<open>cm\<close> the first \<open>maplen\<close> elements of the caller's compmap, the registered
  descriptor satisfies:
  \<^item> when \<open>needssort\<close> is set, \<open>remap\<close> is present, \<open>map\<close> and \<open>remap\<close> have
    \<open>maplen\<close> elements, \<open>map[k] = cm[remap[k]]\<close> for every k with \<open>remap[k]\<close> a
    valid index, and \<open>map\<close> is nondecreasing;
  \<^item> when \<open>needssort\<close> is not set, \<open>remap\<close> is absent and \<open>map\<close> equals \<open>cm\<close>
    element for element (nothing is said about its order).
  qsort is taken to sort as the C standard says, and the rearranger to leave the
  map alone.
\<close>

theorem PIOc_InitDecomp_sort_correct:
  assumes "qsort_sorts (qsort env)"
    and "keeps_map (subset_rearrange_create env)"
    and "keeps_map (box_rearrange_create env)"
    and "PIOc_InitDecomp env st iosysid' pio_type ndims' gdimlen maplen' (Some p) ioidp
           rearranger' iostart iocount = (Return PIO_NOERR, st', ioid_out)"
  shows "\<exists>v d. ioid_out = Some v \<and> pio_get_iodesc_from_id st' v = Some d
      \<and> (needssort d \<longrightarrow>
           (\<exists>rm. remap d = Some rm
              \<and> length rm = length (read_compmap st p maplen')
              \<and> length (map_d d) = length (read_compmap st p maplen')
              \<and> (\<forall>k < length (read_compmap st p maplen').
                    0 \<le> rm ! k \<and> nat (rm ! k) < length (read_compmap st p maplen')
                    \<and> map_d d ! k = read_compmap st p maplen' ! nat (rm ! k))
              \<and> sorted (map_d d)))
      \<and> (\<not> needssort d \<longrightarrow> remap d = None \<and> map_d d = read_compmap st p maplen')"
proof -
  let ?cm = "read_compmap st p maplen'"
  from assms(2-4) obtain ios v d where
    out: "ioid_out = Some v" and reg: "pio_get_iodesc_from_id st' v = Some d"
    and ns: "needssort d = needs_sort ?cm"
    and m: "map_d d = map_d (iodesc_set_map env (snd (malloc_iodesc env ios pio_type ndims'))
        maplen' ?cm)"
    and rm: "remap d = remap (iodesc_set_map env (snd (malloc_iodesc env ios pio_type ndims'))
        maplen' ?cm)"
    by (rule PIOc_InitDecomp_registers)
  have sorted_case: "\<exists>rm. remap d = Some rm
      \<and> length rm = length ?cm \<and> length (map_d d) = length ?cm
      \<and> (\<forall>k < length ?cm. 0 \<le> rm ! k \<and> nat (rm ! k) < length ?cm
            \<and> map_d d ! k = ?cm ! nat (rm ! k))
      \<and> sorted (map_d d)" if "needssort d"
  proof -
    from that ns have "needs_sort ?cm" by simp
    from sorted_map_is_sort [OF assms(1) this,
        of "snd (malloc_iodesc env ios pio_type ndims')" maplen']
    obtain r where "remap d = Some r" "length r = length ?cm" "length (map_d d) = length ?cm"
      "\<forall>k < length ?cm. 0 \<le> r ! k \<and> nat (r ! k) < length ?cm
          \<and> map_d d ! k = ?cm ! nat (r ! k)"
      "sorted (map_d d)"
      unfolding m [symmetric] rm [symmetric] by (elim exE conjE)
    then show ?thesis by (intro exI conjI)
  qed
  have unsorted_case: "remap d = None \<and> map_d d = ?cm" if "\<not> needssort d"
    using that ns iodesc_set_map_unsorted [of ?cm env _ maplen'] by (simp add: m rm)
  from out reg sorted_case unsorted_case
  have body: "ioid_out = Some v \<and> pio_get_iodesc_from_id st' v = Some d
      \<and> (needssort d \<longrightarrow>
           (\<exists>rm. remap d = Some rm
              \<and> length rm = length ?cm \<and> length (map_d d) = length ?cm
              \<and> (\<forall>k < length ?cm. 0 \<le> rm ! k \<and> nat (rm ! k) < length ?cm
                    \<and> map_d d ! k = ?cm ! nat (rm ! k))
              \<and> sorted (map_d d)))
      \<and> (\<not> needssort d \<longrightarrow> remap d = None \<and> map_d d = ?cm)"
    by blast
  show ?thesis
    by (rule exI [of _ v], rule exI [of _ d], rule body)
qed

lemma plain_env_simps:
  "params_mpi (plain_env q) = quiet_mpi"
  "malloc_iodesc (plain_env q) = (\<lambda>ios pt nd. (0, blank_iodesc\<lparr>piotype := pt, ndims := nd\<rparr>))"
  "malloc_map (plain_env q)" "malloc_tmpsort (plain_env q)" "malloc_remap (plain_env q)"
  "malloc_dimlen (plain_env q)" "malloc_tmpmap (plain_env q)"
  "malloc_compmap_1_based (plain_env q)"
  "qsort (plain_env q) = q"
  "run_unique_check (plain_env q) = (\<lambda>buf. (0, sort buf, \<not> distinct (filter (\<lambda>x. x \<noteq> 0) buf)))"
  "subset_rearrange_create (plain_env q) = (\<lambda>ios n m gd nd d. (0, d\<lparr>ndof := n\<rparr>))"
  "box_rearrange_create (plain_env q) = (\<lambda>ios n m gd nd d. (0, d\<lparr>ndof := n\<rparr>))"
  "CalcStartandCount (plain_env q) = (\<lambda>pt nd gd nio rank. (0, map (\<lambda>_. 0) gd, gd, nio))"
  "compute_maxIObuffersize (plain_env q) = (\<lambda>d. (0, prod_list (count_r (firstregion d))))"
  "bcast_num_aiotasks (plain_env q) = (\<lambda>v. (MPI_SUCCESS, v))"
  "bcast_next_ioid (plain_env q) = (\<lambda>v. (MPI_SUCCESS, v))"
  by (simp_all add: plain_env_def)

lemma iodesc_set_map_other_fields:
  "rearranger (iodesc_set_map env d n cm) = rearranger d"
  "num_aiotasks (iodesc_set_map env d n cm) = num_aiotasks d"
  "firstregion (iodesc_set_map env d n cm) = firstregion d"
  "readonly (iodesc_set_map env d n cm) = readonly d"
  by (simp_all add: iodesc_set_map_def Let_def)

lemma eval_plain_box:
  assumes "0 < g"
  shows "PIOc_InitDecomp (plain_env q) (state_with_map cm) 2048 4 1 (Some [g])
       (int (length cm)) (Some 0) True None None None =
     (Return PIO_NOERR,
      (state_with_map cm)
        \<lparr>pio_next_ioid := 513,
         pio_iodesc_list := (\<lambda>_. None)(512 := Some (plain_box_iodesc q cm g))\<rparr>,
      Some 512)"
proof -
  have lk: "pio_get_iosystem_from_id (state_with_map cm) 2048 = Some example_ios"
    by (rule state_with_map_simps)
  have st: "pio_iodesc_list (state_with_map cm) = (\<lambda>_. None)"
    by (simp add: state_with_map_def example_state_def initial_state_def)
  define d0 where "d0 = iodesc_set_map (plain_env q) (blank_iodesc\<lparr>piotype := 4, ndims := 1\<rparr>)
      (int (length cm)) cm"
  have chk: "first_failure (initdecomp_checks (plain_env q) (state_with_map cm) example_ios 4 1
      (Some [g]) (int (length cm)) (Some 0) True None) = None"
    using assms
    by (simp add: initdecomp_checks_def state_with_map_simps InitDecomp_async_def
        example_ios_simps plain_env_simps)
  have fin: "InitDecomp_finish (plain_env q) (state_with_map cm) example_ios 4 (int (length cm)) 1
      cm [g] None None (d0\<lparr>dimlen := [g], rearranger := PIO_REARR_BOX\<rparr>) =
     (Return PIO_NOERR,
      (state_with_map cm)
        \<lparr>pio_next_ioid := 513,
         pio_iodesc_list := (\<lambda>_. None)(512 := Some
           (d0\<lparr> dimlen := [g], rearranger := PIO_REARR_BOX,
               firstregion := \<lparr> start = [0], count_r = [g] \<rparr>, maxiobuflen := g,
               num_aiotasks := 1, ndof := int (length cm), ioid := 512 \<rparr>))\<rparr>,
      Some 512)"
    by (simp add: InitDecomp_finish_def Let_def example_ios_simps pio_consts
        box_block_def box_ioproc_def assign_ioid_def pio_add_to_iodesc_list_def
        state_with_map_simps st plain_env_simps c_int_def)
  show ?thesis
    using chk fin
    by (simp add: PIOc_InitDecomp_checks [OF lk] state_with_map_simps initdecomp_iodesc_def
        iodesc_set_dims_def example_ios_simps plain_env_simps plain_box_iodesc_def d0_def)
qed

lemma plain_env_keeps_map:
  "keeps_map (subset_rearrange_create (plain_env q))"
  "keeps_map (box_rearrange_create (plain_env q))"
  by (simp_all add: keeps_map_def plain_env_def)

lemma plain_box_iodesc_sorted:
  "q compare (tmpsort_init cm) = ts \<Longrightarrow> needs_sort cm \<Longrightarrow>
   needssort (plain_box_iodesc q cm g)
   \<and> map_d (plain_box_iodesc q cm g) = map (\<lambda>m. cm ! nat (s_remap (ts ! m))) [0..<length cm]
   \<and> remap (plain_box_iodesc q cm g) = Some (map (\<lambda>m. s_remap (ts ! m)) [0..<length cm])"
  by (simp add: plain_box_iodesc_def iodesc_set_map_def Let_def plain_env_simps)

lemma plain_box_iodesc_unsorted:
  "\<not> needs_sort cm \<Longrightarrow>
   \<not> needssort (plain_box_iodesc q cm g)
   \<and> map_d (plain_box_iodesc q cm g) = cm
   \<and> remap (plain_box_iodesc q cm g) = None"
  by (simp add: plain_box_iodesc_def iodesc_set_map_def)

lemma sort_312:
  "insertion_qsort compare (tmpsort_init [3, 1, 2]) =
     [\<lparr>s_remap = 1, s_map = 1\<rparr>, \<lparr>s_remap = 2, s_map = 2\<rparr>, \<lparr>s_remap = 0, s_map = 3\<rparr>]"
  by (simp add: insertion_qsort_def tmpsort_init_def compare_def upt_rec)

lemma sort_221_stable:
  "insertion_qsort compare (tmpsort_init [2, 2, 1]) =
     [\<lparr>s_remap = 2, s_map = 1\<rparr>, \<lparr>s_remap = 0, s_map = 2\<rparr>, \<lparr>s_remap = 1, s_map = 2\<rparr>]"
  by (simp add: insertion_qsort_def tmpsort_init_def compare_def upt_rec)

lemma sort_221_reverse:
  "reverse_qsort compare (tmpsort_init [2, 2, 1]) =
     [\<lparr>s_remap = 2, s_map = 1\<rparr>, \<lparr>s_remap = 1, s_map = 2\<rparr>, \<lparr>s_remap = 0, s_map = 2\<rparr>]"
  by (simp add: reverse_qsort_def tmpsort_init_def compare_def upt_rec)

theorem PIOc_InitDecomp_sort_correct_witness:
  "fst (PIOc_InitDecomp (plain_env insertion_qsort) (state_with_map [3, 1, 2]) 2048 4 1
          (Some [3]) 3 (Some 0) True None None None) = Return PIO_NOERR
   \<and> (\<exists>d. pio_get_iodesc_from_id
          (fst (snd (PIOc_InitDecomp (plain_env insertion_qsort) (state_with_map [3, 1, 2])
                       2048 4 1 (Some [3]) 3 (Some 0) True None None None))) 512 = Some d
        \<and> needssort d \<and> remap d = Some [1, 2, 0] \<and> map_d d = [1, 2, 3]
        \<and> sorted (map_d d))"
proof -
  have q: "qsort_sorts (qsort (plain_env insertion_qsort))"
    by (simp add: plain_env_def qsort_sorts_insertion)
  have ev: "PIOc_InitDecomp (plain_env insertion_qsort) (state_with_map [3, 1, 2]) 2048 4 1
      (Some [3]) 3 (Some 0) True None None None =
     (Return PIO_NOERR,
      (state_with_map [3, 1, 2])
        \<lparr>pio_next_ioid := 513,
         pio_iodesc_list :=
           (\<lambda>_. None)(512 := Some (plain_box_iodesc insertion_qsort [3, 1, 2] 3))\<rparr>,
      Some 512)"
    using eval_plain_box [of 3 insertion_qsort "[3, 1, 2]"] by simp
  have d: "needssort (plain_box_iodesc insertion_qsort [3, 1, 2] 3)
      \<and> map_d (plain_box_iodesc insertion_qsort [3, 1, 2] 3) = [1, 2, 3]
      \<and> remap (plain_box_iodesc insertion_qsort [3, 1, 2] 3) = Some [1, 2, 0]"
    using plain_box_iodesc_sorted [of insertion_qsort "[3, 1, 2]", OF sort_312, of 3]
    by (simp add: upt_rec)
  show ?thesis
    using PIOc_InitDecomp_sort_correct [OF q plain_env_keeps_map ev] d
    by (simp add: ev pio_get_iodesc_from_id_def)
qed

text \<open>
  The stored map need not be nondecreasing when \<open>needssort\<close> is not set: an entry
  that is not positive is never compared with its predecessor, so the map 3, 0, 4
  is stored as it is.
\<close>

theorem PIOc_InitDecomp_unsorted_map_not_monotone:
  "fst (PIOc_InitDecomp (plain_env insertion_qsort) (state_with_map [3, 0, 4]) 2048 4 1
          (Some [4]) 3 (Some 0) True None None None) = Return PIO_NOERR
   \<and> (\<exists>d. pio_get_iodesc_from_id
          (fst (snd (PIOc_InitDecomp (plain_env insertion_qsort) (state_with_map [3, 0, 4])
                       2048 4 1 (Some [4]) 3 (Some 0) True None None None))) 512 = Some d
        \<and> \<not> needssort d \<and> remap d = None \<and> map_d d = [3, 0, 4]
        \<and> \<not> sorted (map_d d))"
proof -
  have ev: "PIOc_InitDecomp (plain_env insertion_qsort) (state_with_map [3, 0, 4]) 2048 4 1
      (Some [4]) 3 (Some 0) True None None None =
     (Return PIO_NOERR,
      (state_with_map [3, 0, 4])
        \<lparr>pio_next_ioid := 513,
         pio_iodesc_list :=
           (\<lambda>_. None)(512 := Some (plain_box_iodesc insertion_qsort [3, 0, 4] 4))\<rparr>,
      Some 512)"
    using eval_plain_box [of 4 insertion_qsort "[3, 0, 4]"] by simp
  have d: "\<not> needssort (plain_box_iodesc insertion_qsort [3, 0, 4] 4)
      \<and> map_d (plain_box_iodesc insertion_qsort [3, 0, 4] 4) = [3, 0, 4]
      \<and> remap (plain_box_iodesc insertion_qsort [3, 0, 4] 4) = None"
    by (rule plain_box_iodesc_unsorted) simp
  show ?thesis
    using d by (simp add: ev pio_get_iodesc_from_id_def)
qed

text \<open>
  C2, as the code has it. For a call of PIOc\_InitDecomp that returns PIO\_NOERR,
  \<open>needssort\<close> is set exactly when some index \<open>k > 0\<close> below \<open>maplen\<close> has
  \<open>compmap[k] > 0\<close> and \<open>compmap[k] < compmap[k-1]\<close>. When it is set (and qsort
  sorts as the C standard says), the stored map is the compmap sorted into
  nondecreasing order, and \<open>remap\<close> is a rearrangement of the indices
  \<open>0 .. maplen-1\<close> with \<open>map[k] = compmap[remap[k]]\<close>. The order among equal
  offsets is the one qsort produces.
\<close>

theorem PIOc_InitDecomp_needssort:
  assumes "keeps_map (subset_rearrange_create env)"
    and "keeps_map (box_rearrange_create env)"
    and "PIOc_InitDecomp env st iosysid' pio_type ndims' gdimlen maplen' (Some p) ioidp
           rearranger' iostart iocount = (Return PIO_NOERR, st', ioid_out)"
  shows "\<exists>v d. ioid_out = Some v \<and> pio_get_iodesc_from_id st' v = Some d
      \<and> (needssort d \<longleftrightarrow>
           (\<exists>k. 0 < k \<and> k < length (read_compmap st p maplen')
              \<and> read_compmap st p maplen' ! k > 0
              \<and> read_compmap st p maplen' ! k < read_compmap st p maplen' ! (k - 1)))
      \<and> (needssort d \<and> qsort_sorts (qsort env) \<longrightarrow>
           sorted (map_d d)
           \<and> mset (map_d d) = mset (read_compmap st p maplen')
           \<and> (\<exists>rm. remap d = Some rm
                 \<and> mset rm = mset (map int [0..<length (read_compmap st p maplen')])
                 \<and> map_d d = map (\<lambda>i. read_compmap st p maplen' ! nat i) rm))"
proof -
  let ?cm = "read_compmap st p maplen'"
  from assms obtain ios v d where
    out: "ioid_out = Some v" and reg: "pio_get_iodesc_from_id st' v = Some d"
    and ns: "needssort d = needs_sort ?cm"
    and m: "map_d d = map_d (iodesc_set_map env (snd (malloc_iodesc env ios pio_type ndims'))
        maplen' ?cm)"
    and rm: "remap d = remap (iodesc_set_map env (snd (malloc_iodesc env ios pio_type ndims'))
        maplen' ?cm)"
    by (rule PIOc_InitDecomp_registers)
  have iff: "needssort d \<longleftrightarrow>
      (\<exists>k. 0 < k \<and> k < length ?cm \<and> ?cm ! k > 0 \<and> ?cm ! k < ?cm ! (k - 1))"
    by (simp only: ns needs_sort_iff)
  have sorted_case: "sorted (map_d d) \<and> mset (map_d d) = mset ?cm
      \<and> (\<exists>rm. remap d = Some rm \<and> mset rm = mset (map int [0..<length ?cm])
            \<and> map_d d = map (\<lambda>i. ?cm ! nat i) rm)"
    if "needssort d \<and> qsort_sorts (qsort env)"
  proof -
    from that ns have q: "qsort_sorts (qsort env)" and n: "needs_sort ?cm" by simp_all
    from sorted_map_is_sort [OF q n, of "snd (malloc_iodesc env ios pio_type ndims')" maplen']
    obtain r where r: "remap d = Some r" "length r = length ?cm" "length (map_d d) = length ?cm"
      "\<forall>k < length ?cm. 0 \<le> r ! k \<and> nat (r ! k) < length ?cm
          \<and> map_d d ! k = ?cm ! nat (r ! k)"
      "sorted (map_d d)" "mset (map_d d) = mset ?cm"
      "mset r = mset (map int [0..<length ?cm])"
      unfolding m [symmetric] rm [symmetric] by (elim exE conjE)
    have "map_d d = map (\<lambda>i. ?cm ! nat i) r"
      using r(2-4) by (intro nth_equalityI) simp_all
    with r show ?thesis by (intro conjI exI [of _ r])
  qed
  from out reg iff sorted_case
  have body: "ioid_out = Some v \<and> pio_get_iodesc_from_id st' v = Some d
      \<and> (needssort d \<longleftrightarrow>
           (\<exists>k. 0 < k \<and> k < length ?cm \<and> ?cm ! k > 0 \<and> ?cm ! k < ?cm ! (k - 1)))
      \<and> (needssort d \<and> qsort_sorts (qsort env) \<longrightarrow>
           sorted (map_d d) \<and> mset (map_d d) = mset ?cm
           \<and> (\<exists>rm. remap d = Some rm \<and> mset rm = mset (map int [0..<length ?cm])
                 \<and> map_d d = map (\<lambda>i. ?cm ! nat i) rm))"
    by blast
  show ?thesis
    by (rule exI [of _ v], rule exI [of _ d], rule body)
qed

theorem PIOc_InitDecomp_needssort_witness:
  "fst (PIOc_InitDecomp (plain_env insertion_qsort) (state_with_map [2, 2, 1]) 2048 4 1
          (Some [2]) 3 (Some 0) True None None None) = Return PIO_NOERR
   \<and> (\<exists>d. pio_get_iodesc_from_id
          (fst (snd (PIOc_InitDecomp (plain_env insertion_qsort) (state_with_map [2, 2, 1])
                       2048 4 1 (Some [2]) 3 (Some 0) True None None None))) 512 = Some d
        \<and> needssort d \<and> remap d = Some [2, 0, 1] \<and> map_d d = [1, 2, 2]
        \<and> sorted (map_d d))"
proof -
  have q: "qsort_sorts (qsort (plain_env insertion_qsort))"
    by (simp add: plain_env_simps qsort_sorts_insertion)
  have ev: "PIOc_InitDecomp (plain_env insertion_qsort) (state_with_map [2, 2, 1]) 2048 4 1
      (Some [2]) 3 (Some 0) True None None None =
     (Return PIO_NOERR,
      (state_with_map [2, 2, 1])
        \<lparr>pio_next_ioid := 513,
         pio_iodesc_list :=
           (\<lambda>_. None)(512 := Some (plain_box_iodesc insertion_qsort [2, 2, 1] 2))\<rparr>,
      Some 512)"
    using eval_plain_box [of 2 insertion_qsort "[2, 2, 1]"] by simp
  have d: "needssort (plain_box_iodesc insertion_qsort [2, 2, 1] 2)
      \<and> map_d (plain_box_iodesc insertion_qsort [2, 2, 1] 2) = [1, 2, 2]
      \<and> remap (plain_box_iodesc insertion_qsort [2, 2, 1] 2) = Some [2, 0, 1]"
    using plain_box_iodesc_sorted [of insertion_qsort "[2, 2, 1]", OF sort_221_stable, of 2]
    by (simp add: upt_rec)
  show ?thesis
    using PIOc_InitDecomp_needssort [OF plain_env_keeps_map ev] q d
    by (simp add: ev pio_get_iodesc_from_id_def)
qed

text \<open>
  The sort need not be stable: \<open>compare\<close> looks at the offsets only, and a qsort
  that meets the C standard may return equal offsets in any order. With
  \<open>reverse_qsort\<close> the map 2, 2, 1 gets the remap 2, 1, 0, in which the two equal
  offsets have changed places.
\<close>

theorem PIOc_InitDecomp_sort_not_stable:
  "qsort_sorts (qsort (plain_env reverse_qsort))
   \<and> fst (PIOc_InitDecomp (plain_env reverse_qsort) (state_with_map [2, 2, 1]) 2048 4 1
          (Some [2]) 3 (Some 0) True None None None) = Return PIO_NOERR
   \<and> (\<exists>d. pio_get_iodesc_from_id
          (fst (snd (PIOc_InitDecomp (plain_env reverse_qsort) (state_with_map [2, 2, 1])
                       2048 4 1 (Some [2]) 3 (Some 0) True None None None))) 512 = Some d
        \<and> needssort d \<and> map_d d = [1, 2, 2] \<and> remap d = Some [2, 1, 0]
        \<and> \<not> sort_is_stable (map_d d) (the (remap d)))"
proof -
  have q: "qsort_sorts (qsort (plain_env reverse_qsort))"
    by (simp add: plain_env_simps qsort_sorts_reverse)
  have ev: "PIOc_InitDecomp (plain_env reverse_qsort) (state_with_map [2, 2, 1]) 2048 4 1
      (Some [2]) 3 (Some 0) True None None None =
     (Return PIO_NOERR,
      (state_with_map [2, 2, 1])
        \<lparr>pio_next_ioid := 513,
         pio_iodesc_list :=
           (\<lambda>_. None)(512 := Some (plain_box_iodesc reverse_qsort [2, 2, 1] 2))\<rparr>,
      Some 512)"
    using eval_plain_box [of 2 reverse_qsort "[2, 2, 1]"] by simp
  have d: "needssort (plain_box_iodesc reverse_qsort [2, 2, 1] 2)
      \<and> map_d (plain_box_iodesc reverse_qsort [2, 2, 1] 2) = [1, 2, 2]
      \<and> remap (plain_box_iodesc reverse_qsort [2, 2, 1] 2) = Some [2, 1, 0]"
    using plain_box_iodesc_sorted [of reverse_qsort "[2, 2, 1]", OF sort_221_reverse, of 2]
    by (simp add: upt_rec)
  have unstable: "\<not> sort_is_stable [1, 2, 2] [2, 1, 0]"
  proof
    assume "sort_is_stable [1, 2, 2] [2, 1, 0]"
    then have "[1, 2, 2 :: int] ! 1 = [1, 2, 2] ! 2 \<longrightarrow> [2, 1, 0 :: int] ! 1 < [2, 1, 0] ! 2"
      unfolding sort_is_stable_def by (simp add: numeral_3_eq_3 less_Suc_eq)
    then show False by simp
  qed
  show ?thesis
    using q d unstable by (simp add: ev pio_get_iodesc_from_id_def)
qed

lemma list_ex_take_nonpositive:
  "list_ex (\<lambda>d. d \<le> 0) (take n gd) \<longleftrightarrow> (\<exists>i < n. i < length gd \<and> gd ! i \<le> (0::int))"
proof
  assume "list_ex (\<lambda>d. d \<le> 0) (take n gd)"
  then obtain i where i: "i < length (take n gd)" "take n gd ! i \<le> 0"
    by (auto simp add: list_ex_iff in_set_conv_nth)
  then have "i < n \<and> i < length gd \<and> gd ! i \<le> 0" by simp
  then show "\<exists>i < n. i < length gd \<and> gd ! i \<le> 0" by blast
next
  assume "\<exists>i < n. i < length gd \<and> gd ! i \<le> 0"
  then obtain i where i: "i < n" "i < length gd" "gd ! i \<le> 0" by blast
  then have "take n gd ! i \<in> set (take n gd)" by (intro nth_mem) simp
  with i show "list_ex (\<lambda>d. d \<le> 0) (take n gd)"
    by (auto simp add: list_ex_iff)
qed

lemma args_valid_checks:
  "args_valid gdimlen compmap ioidp nd \<longleftrightarrow>
     \<not> (gdimlen = None \<or> compmap = None \<or> \<not> ioidp)
     \<and> \<not> list_ex (\<lambda>d. d \<le> 0) (take (nat nd) (the gdimlen))"
  by (auto simp add: args_valid_def list_ex_take_nonpositive not_le)

lemma InitDecomp_async_None:
  "\<not> async ios \<or> (params_sent env ios
      \<and> (rearranger' = None \<or> rearranger' = Some (default_rearranger ios)))
   \<Longrightarrow> InitDecomp_async env st ios rearranger' = None"
  by (cases "ioproc ios") (auto simp add: InitDecomp_async_def params_sent_def Let_def)

lemma InitDecomp_async_EBADREARR:
  "async ios \<Longrightarrow> params_sent env ios \<Longrightarrow> rearranger' = Some r \<Longrightarrow>
   r \<noteq> default_rearranger ios \<Longrightarrow>
   InitDecomp_async env st ios rearranger' = Some (pio_err st (Some ios) PIO_EBADREARR)"
  by (cases "ioproc ios") (auto simp add: InitDecomp_async_def params_sent_def Let_def)

lemma pio_err_raise:
  "e \<noteq> 0 \<Longrightarrow> pio_err st (Some ios) e =
     (if error_handler ios = PIO_INTERNAL_ERROR then Abort else Return e)"
  by (simp add: pio_err_def PIO_NOERR_def)

lemma PIOc_InitDecomp_EINVAL:
  assumes "pio_get_iosystem_from_id st i = Some ios"
    and "\<not> args_valid gdimlen compmap ioidp nd"
  shows "PIOc_InitDecomp env st i pt nd gdimlen n compmap ioidp r is ic =
     (if error_handler ios = PIO_INTERNAL_ERROR then Abort else Return PIO_EINVAL, st, None)"
proof -
  have "first_failure (initdecomp_checks env st ios pt nd gdimlen n compmap ioidp r)
      = Some (pio_err st (Some ios) PIO_EINVAL)"
    using assms(2) unfolding args_valid_checks initdecomp_checks_def first_failure.simps
    by (simp only: split: if_split) blast
  then show ?thesis
    by (simp add: PIOc_InitDecomp_checks [OF assms(1)] pio_err_raise PIO_EINVAL_def)
qed

lemma PIOc_InitDecomp_EBADREARR:
  assumes "pio_get_iosystem_from_id st i = Some ios"
    and "args_valid gdimlen compmap ioidp nd"
    and "async ios" "params_sent env ios" "r = Some x" "x \<noteq> default_rearranger ios"
  shows "PIOc_InitDecomp env st i pt nd gdimlen n compmap ioidp r is ic =
     (if error_handler ios = PIO_INTERNAL_ERROR then Abort else Return PIO_EBADREARR, st, None)"
proof -
  have "first_failure (initdecomp_checks env st ios pt nd gdimlen n compmap ioidp r)
      = Some (pio_err st (Some ios) PIO_EBADREARR)"
    using assms(2) InitDecomp_async_EBADREARR [OF assms(3-6), of st]
    unfolding args_valid_checks initdecomp_checks_def first_failure.simps
    by auto
  then show ?thesis
    by (simp add: PIOc_InitDecomp_checks [OF assms(1)] pio_err_raise PIO_EBADREARR_def)
qed

lemma PIOc_InitDecomp_ENOMEM:
  assumes "pio_get_iosystem_from_id st i = Some ios"
    and "args_valid gdimlen compmap ioidp nd"
    and "InitDecomp_async env st ios r = None"
    and "fst (malloc_iodesc env ios pt nd) = 0"
    and "\<not> malloc_map env
         \<or> (needs_sort (read_compmap st (the compmap) n)
             \<and> (\<not> malloc_tmpsort env \<or> \<not> malloc_remap env))
         \<or> \<not> malloc_dimlen env"
  shows "PIOc_InitDecomp env st i pt nd gdimlen n compmap ioidp r is ic =
     (if error_handler ios = PIO_INTERNAL_ERROR then Abort else Return PIO_ENOMEM, st, None)"
proof -
  have "first_failure (initdecomp_checks env st ios pt nd gdimlen n compmap ioidp r)
      = Some (pio_err st (Some ios) PIO_ENOMEM)"
    using assms(2-5)
    unfolding args_valid_checks initdecomp_checks_def first_failure.simps
    by (simp only: split: if_split) auto
  then show ?thesis
    by (simp add: PIOc_InitDecomp_checks [OF assms(1)] pio_err_raise PIO_ENOMEM_def)
qed

lemma PIOc_InitDecomp_ENOMEM_tmpmap:
  assumes "pio_get_iosystem_from_id st i = Some ios"
    and "args_valid gdimlen compmap ioidp nd"
    and "InitDecomp_async env st ios r = None"
    and "fst (malloc_iodesc env ios pt nd) = 0"
    and "malloc_map env" "malloc_tmpsort env" "malloc_remap env" "malloc_dimlen env"
    and "(case r of None \<Rightarrow> default_rearranger ios | Some x \<Rightarrow> x) = PIO_REARR_SUBSET"
    and "compproc ios" "\<not> malloc_tmpmap env"
  shows "PIOc_InitDecomp env st i pt nd gdimlen n compmap ioidp r is ic =
     (Return PIO_ENOMEM, st, None)"
proof -
  have "first_failure (initdecomp_checks env st ios pt nd gdimlen n compmap ioidp r) = None"
    using assms(2-8)
    unfolding args_valid_checks initdecomp_checks_def first_failure.simps
    by simp
  moreover have "rearranger (initdecomp_iodesc env ios pt nd (the gdimlen) n
      (read_compmap st (the compmap) n) r) = PIO_REARR_SUBSET"
    using assms(9) by (simp add: initdecomp_iodesc_def iodesc_set_dims_def)
  ultimately show ?thesis
    using assms(10,11)
    by (simp add: PIOc_InitDecomp_checks [OF assms(1)] InitDecomp_finish_def subset_block_def)
qed

lemma PIOc_InitDecomp_failure_registers_nothing:
  assumes "fst (PIOc_InitDecomp env st i pt nd gdimlen n compmap ioidp r is ic)
      \<noteq> Return PIO_NOERR"
  shows "pio_iodesc_list (fst (snd (PIOc_InitDecomp env st i pt nd gdimlen n compmap ioidp r
      is ic))) = pio_iodesc_list st"
proof (cases "pio_get_iosystem_from_id st i")
  case None
  then show ?thesis by (simp add: PIOc_InitDecomp_def)
next
  case (Some ios)
  note chk = PIOc_InitDecomp_checks [OF Some, of env pt nd gdimlen n compmap ioidp r "is" ic]
  show ?thesis
  proof (cases "first_failure (initdecomp_checks env st ios pt nd gdimlen n compmap ioidp r)")
    case (Some e)
    then show ?thesis by (simp add: chk)
  next
    case None
    let ?cm = "read_compmap st (the compmap) n"
    let ?d = "initdecomp_iodesc env ios pt nd (the gdimlen) n ?cm r"
    from None have fin: "PIOc_InitDecomp env st i pt nd gdimlen n compmap ioidp r is ic =
        InitDecomp_finish env st ios pt n nd ?cm (the gdimlen) is ic ?d"
      by (simp add: chk)
    show ?thesis
    proof (cases "rearr_block env st ios pt n nd ?cm (the gdimlen) is ic ?d")
      case (Inl a)
      obtain e s where a: "a = (e, s)" by (cases a)
      have "heap_frame st s"
        using rearr_block_frame [of st env ios pt n nd ?cm "the gdimlen" "is" ic ?d] Inl a
        by simp
      then show ?thesis
        using Inl a by (simp add: fin InitDecomp_finish_rearr_block heap_frame_def)
    next
      case (Inr b)
      obtain d1 s where b: "b = (d1, s)" by (cases b)
      have fr: "heap_frame st s"
        using rearr_block_frame [of st env ios pt n nd ?cm "the gdimlen" "is" ic ?d] Inr b
        by simp
      have eq: "PIOc_InitDecomp env st i pt nd gdimlen n compmap ioidp r is ic =
          assign_ioid env s ios d1"
        using Inr b by (simp add: fin InitDecomp_finish_rearr_block)
      with assms have "fst (assign_ioid env s ios d1) \<noteq> Return PIO_NOERR" by simp
      then have "pio_iodesc_list (fst (snd (assign_ioid env s ios d1))) = pio_iodesc_list s"
        by (rule assign_ioid_failure_list)
      with fr show ?thesis by (simp add: eq heap_frame_def)
    qed
  qed
qed

lemma default_started_state_ios:
  "\<exists>ios. pio_get_iosystem_from_id default_started_state 2048 = Some ios
     \<and> error_handler ios = PIO_INTERNAL_ERROR"
proof -
  have m: "snd (MPI_Comm_size four_tasks) = 4" "pio_add_to_iosystem_list four_tasks = 2048"
    by (simp_all add: four_tasks_def)
  have "PIOc_Init_Intracomm four_tasks initial_state (Comm 0) 1 1 0 PIO_REARR_BOX True =
      (Return PIO_NOERR,
       initial_state\<lparr>pio_iosystem_list :=
         (pio_iosystem_list initial_state)
           (pio_add_to_iosystem_list four_tasks
              := Some (intracomm_ios four_tasks initial_state 1 1 0 PIO_REARR_BOX))\<rparr>,
       Some (pio_add_to_iosystem_list four_tasks))"
    by (rule PIOc_Init_Intracomm_accepts [OF four_tasks_ok])
      (simp_all add: m c_int_def compute_ioranks_Some)
  then have "pio_get_iosystem_from_id default_started_state 2048
      = Some (intracomm_ios four_tasks initial_state 1 1 0 PIO_REARR_BOX)"
    by (simp add: default_started_state_def pio_get_iosystem_from_id_def m)
  moreover have "error_handler (intracomm_ios four_tasks initial_state 1 1 0 PIO_REARR_BOX)
      = PIO_INTERNAL_ERROR"
    by (simp add: intracomm_ios_def ios_set_io_rank_def ios_set_ioranks_def Let_def
        ios_set_compranks_def ios_set_comms_def calloc_iosystem_def initial_state_def)
  ultimately show ?thesis by blast
qed

text \<open>
  C3, as the code has it. For a call of PIOc\_InitDecomp on an open I/O system,
  in the order of the code:
  \<^item> a NULL \<open>gdimlen\<close>, \<open>compmap\<close> or \<open>ioidp\<close>, or a global dimension among the
    first \<open>ndims\<close> that is not positive, is reported with PIO\_EINVAL;
  \<^item> with async, once the parameters are sent, a requested rearranger other than
    the default of the I/O system is reported with PIO\_EBADREARR;
  \<^item> a failed allocation of \<open>map\<close>, of the sort buffer or \<open>remap\<close> (when the map
    needs sorting) or of \<open>dimlen\<close> is reported with PIO\_ENOMEM;
  \<^item> a failed allocation of the copy for the duplicate check of the subset
    rearranger returns PIO\_ENOMEM directly.
  The first three are reported through \<open>pio_err\<close>: the code is returned unless the
  error handler of the I/O system is PIO\_INTERNAL\_ERROR, under which the process
  is aborted. In each of these cases the state is unchanged, and whenever the
  result is not PIO\_NOERR the list of decompositions is unchanged.
\<close>

theorem PIOc_InitDecomp_errors:
  assumes "pio_get_iosystem_from_id st iosysid' = Some ios"
  shows
   "(\<not> args_valid gdimlen compmap ioidp ndims' \<longrightarrow>
       PIOc_InitDecomp env st iosysid' pio_type ndims' gdimlen maplen' compmap ioidp
         rearranger' iostart iocount =
       (if error_handler ios = PIO_INTERNAL_ERROR then Abort else Return PIO_EINVAL, st, None))
    \<and> (args_valid gdimlen compmap ioidp ndims' \<and> async ios \<and> params_sent env ios
        \<and> (\<exists>r. rearranger' = Some r \<and> r \<noteq> default_rearranger ios) \<longrightarrow>
       PIOc_InitDecomp env st iosysid' pio_type ndims' gdimlen maplen' compmap ioidp
         rearranger' iostart iocount =
       (if error_handler ios = PIO_INTERNAL_ERROR then Abort else Return PIO_EBADREARR, st, None))
    \<and> (args_valid gdimlen compmap ioidp ndims'
        \<and> (\<not> async ios \<or> (params_sent env ios
              \<and> (rearranger' = None \<or> rearranger' = Some (default_rearranger ios))))
        \<and> fst (malloc_iodesc env ios pio_type ndims') = 0
        \<and> (\<not> malloc_map env
            \<or> (needs_sort (read_compmap st (the compmap) maplen')
                \<and> (\<not> malloc_tmpsort env \<or> \<not> malloc_remap env))
            \<or> \<not> malloc_dimlen env) \<longrightarrow>
       PIOc_InitDecomp env st iosysid' pio_type ndims' gdimlen maplen' compmap ioidp
         rearranger' iostart iocount =
       (if error_handler ios = PIO_INTERNAL_ERROR then Abort else Return PIO_ENOMEM, st, None))
    \<and> (args_valid gdimlen compmap ioidp ndims'
        \<and> (\<not> async ios \<or> (params_sent env ios
              \<and> (rearranger' = None \<or> rearranger' = Some (default_rearranger ios))))
        \<and> fst (malloc_iodesc env ios pio_type ndims') = 0
        \<and> malloc_map env \<and> malloc_tmpsort env \<and> malloc_remap env \<and> malloc_dimlen env
        \<and> (case rearranger' of None \<Rightarrow> default_rearranger ios | Some r \<Rightarrow> r)
            = PIO_REARR_SUBSET
        \<and> compproc ios \<and> \<not> malloc_tmpmap env \<longrightarrow>
       PIOc_InitDecomp env st iosysid' pio_type ndims' gdimlen maplen' compmap ioidp
         rearranger' iostart iocount = (Return PIO_ENOMEM, st, None))
    \<and> (fst (PIOc_InitDecomp env st iosysid' pio_type ndims' gdimlen maplen' compmap ioidp
               rearranger' iostart iocount) \<noteq> Return PIO_NOERR \<longrightarrow>
       pio_iodesc_list
         (fst (snd (PIOc_InitDecomp env st iosysid' pio_type ndims' gdimlen maplen' compmap
                      ioidp rearranger' iostart iocount))) = pio_iodesc_list st)"
proof (intro conjI impI)
  assume "\<not> args_valid gdimlen compmap ioidp ndims'"
  with assms show "PIOc_InitDecomp env st iosysid' pio_type ndims' gdimlen maplen' compmap
      ioidp rearranger' iostart iocount =
      (if error_handler ios = PIO_INTERNAL_ERROR then Abort else Return PIO_EINVAL, st, None)"
    by (rule PIOc_InitDecomp_EINVAL)
next
  assume h: "args_valid gdimlen compmap ioidp ndims' \<and> async ios \<and> params_sent env ios
      \<and> (\<exists>r. rearranger' = Some r \<and> r \<noteq> default_rearranger ios)"
  then obtain r where r: "rearranger' = Some r" "r \<noteq> default_rearranger ios" by blast
  from h have hs: "args_valid gdimlen compmap ioidp ndims'" "async ios" "params_sent env ios"
    by blast+
  show "PIOc_InitDecomp env st iosysid' pio_type ndims' gdimlen maplen' compmap
      ioidp rearranger' iostart iocount =
      (if error_handler ios = PIO_INTERNAL_ERROR then Abort else Return PIO_EBADREARR, st, None)"
    by (rule PIOc_InitDecomp_EBADREARR [OF assms hs r])
next
  assume h: "args_valid gdimlen compmap ioidp ndims'
      \<and> (\<not> async ios \<or> (params_sent env ios
            \<and> (rearranger' = None \<or> rearranger' = Some (default_rearranger ios))))
      \<and> fst (malloc_iodesc env ios pio_type ndims') = 0
      \<and> (\<not> malloc_map env
          \<or> (needs_sort (read_compmap st (the compmap) maplen')
              \<and> (\<not> malloc_tmpsort env \<or> \<not> malloc_remap env))
          \<or> \<not> malloc_dimlen env)"
  then have a: "InitDecomp_async env st ios rearranger' = None"
    by (intro InitDecomp_async_None) blast
  from h have hs: "args_valid gdimlen compmap ioidp ndims'"
    "fst (malloc_iodesc env ios pio_type ndims') = 0"
    "\<not> malloc_map env
      \<or> (needs_sort (read_compmap st (the compmap) maplen')
          \<and> (\<not> malloc_tmpsort env \<or> \<not> malloc_remap env))
      \<or> \<not> malloc_dimlen env"
    by blast+
  show "PIOc_InitDecomp env st iosysid' pio_type ndims' gdimlen maplen' compmap
      ioidp rearranger' iostart iocount =
      (if error_handler ios = PIO_INTERNAL_ERROR then Abort else Return PIO_ENOMEM, st, None)"
    by (rule PIOc_InitDecomp_ENOMEM [OF assms hs(1) a hs(2) hs(3)])
next
  assume h: "args_valid gdimlen compmap ioidp ndims'
      \<and> (\<not> async ios \<or> (params_sent env ios
            \<and> (rearranger' = None \<or> rearranger' = Some (default_rearranger ios))))
      \<and> fst (malloc_iodesc env ios pio_type ndims') = 0
      \<and> malloc_map env \<and> malloc_tmpsort env \<and> malloc_remap env \<and> malloc_dimlen env
      \<and> (case rearranger' of None \<Rightarrow> default_rearranger ios | Some r \<Rightarrow> r)
          = PIO_REARR_SUBSET
      \<and> compproc ios \<and> \<not> malloc_tmpmap env"
  then have a: "InitDecomp_async env st ios rearranger' = None"
    by (intro InitDecomp_async_None) blast
  from h have hs: "args_valid gdimlen compmap ioidp ndims'"
    "fst (malloc_iodesc env ios pio_type ndims') = 0"
    "malloc_map env" "malloc_tmpsort env" "malloc_remap env" "malloc_dimlen env"
    "(case rearranger' of None \<Rightarrow> default_rearranger ios | Some r \<Rightarrow> r) = PIO_REARR_SUBSET"
    "compproc ios" "\<not> malloc_tmpmap env"
    by blast+
  show "PIOc_InitDecomp env st iosysid' pio_type ndims' gdimlen maplen' compmap
      ioidp rearranger' iostart iocount = (Return PIO_ENOMEM, st, None)"
    by (rule PIOc_InitDecomp_ENOMEM_tmpmap [OF assms hs(1) a hs(2-9)])
next
  assume "fst (PIOc_InitDecomp env st iosysid' pio_type ndims' gdimlen maplen' compmap ioidp
      rearranger' iostart iocount) \<noteq> Return PIO_NOERR"
  then show "pio_iodesc_list
      (fst (snd (PIOc_InitDecomp env st iosysid' pio_type ndims' gdimlen maplen' compmap
                   ioidp rearranger' iostart iocount))) = pio_iodesc_list st"
    by (rule PIOc_InitDecomp_failure_registers_nothing)
qed

lemma state_with_map_async:
  "pio_get_iosystem_from_id (state_with_map cm) 2049 = Some async_ios"
  by (simp add: state_with_map_def example_state_def pio_get_iosystem_from_id_def)

lemma async_ios_simps:
  "async async_ios" "\<not> ioproc async_ios" "compproc async_ios"
  "default_rearranger async_ios = PIO_REARR_BOX"
  "error_handler async_ios = PIO_RETURN_ERROR"
  by (simp_all add: async_ios_def example_ios_def)

lemma params_sent_plain: "params_sent (plain_env q) ios"
  by (simp add: params_sent_def plain_env_simps quiet_mpi_def)

theorem PIOc_InitDecomp_errors_witness:
  "PIOc_InitDecomp (plain_env insertion_qsort) (state_with_map [1, 2]) 2048 4 1 None 2
     (Some 0) True None None None = (Return PIO_EINVAL, state_with_map [1, 2], None)
   \<and> PIOc_InitDecomp (plain_env insertion_qsort) (state_with_map [1, 2]) 2048 4 1 (Some [0]) 2
     (Some 0) True None None None = (Return PIO_EINVAL, state_with_map [1, 2], None)
   \<and> PIOc_InitDecomp (plain_env insertion_qsort) (state_with_map [1, 2]) 2049 4 1 (Some [2]) 2
     (Some 0) True (Some PIO_REARR_SUBSET) None None
       = (Return PIO_EBADREARR, state_with_map [1, 2], None)
   \<and> PIOc_InitDecomp ((plain_env insertion_qsort)\<lparr>malloc_map := False\<rparr>)
     (state_with_map [1, 2]) 2048 4 1 (Some [2]) 2 (Some 0) True None None None
       = (Return PIO_ENOMEM, state_with_map [1, 2], None)"
proof -
  have lk: "pio_get_iosystem_from_id (state_with_map [1, 2]) 2048 = Some example_ios"
    by (rule state_with_map_simps)
  have lka: "pio_get_iosystem_from_id (state_with_map [1, 2]) 2049 = Some async_ios"
    by (rule state_with_map_async)
  have args: "\<not> args_valid None (Some 0) True 1" "\<not> args_valid (Some [0]) (Some 0) True 1"
    "args_valid (Some [2]) (Some 0) True 1"
    by (simp_all add: args_valid_def)
  have handlers: "error_handler example_ios \<noteq> PIO_INTERNAL_ERROR"
    "error_handler async_ios \<noteq> PIO_INTERNAL_ERROR"
    by (simp_all add: example_ios_simps async_ios_simps pio_consts)
  have rearr: "PIO_REARR_SUBSET \<noteq> default_rearranger async_ios"
    by (simp add: async_ios_simps pio_consts)
  have sent: "params_sent (plain_env insertion_qsort) async_ios" by (rule params_sent_plain)
  have nomem: "\<not> malloc_map ((plain_env insertion_qsort)\<lparr>malloc_map := False\<rparr>)"
    "fst (malloc_iodesc ((plain_env insertion_qsort)\<lparr>malloc_map := False\<rparr>) example_ios 4 1) = 0"
    "\<not> async example_ios"
    by (simp_all add: plain_env_simps example_ios_simps)
  show ?thesis
    using args handlers rearr sent nomem async_ios_simps(1)
      PIOc_InitDecomp_errors [OF lk, where gdimlen = None and compmap = "Some 0"
        and ioidp = True and ndims' = 1 and env = "plain_env insertion_qsort"
        and pio_type = 4 and maplen' = 2 and rearranger' = None and iostart = None
        and iocount = None]
      PIOc_InitDecomp_errors [OF lk, where gdimlen = "Some [0]" and compmap = "Some 0"
        and ioidp = True and ndims' = 1 and env = "plain_env insertion_qsort"
        and pio_type = 4 and maplen' = 2 and rearranger' = None and iostart = None
        and iocount = None]
      PIOc_InitDecomp_errors [OF lka, where gdimlen = "Some [2]" and compmap = "Some 0"
        and ioidp = True and ndims' = 1 and env = "plain_env insertion_qsort"
        and pio_type = 4 and maplen' = 2 and rearranger' = "Some PIO_REARR_SUBSET"
        and iostart = None and iocount = None]
      PIOc_InitDecomp_errors [OF lk, where gdimlen = "Some [2]" and compmap = "Some 0"
        and ioidp = True and ndims' = 1
        and env = "(plain_env insertion_qsort)\<lparr>malloc_map := False\<rparr>"
        and pio_type = 4 and maplen' = 2 and rearranger' = None and iostart = None
        and iocount = None]
    by simp
qed

text \<open>
  An I/O system opened by PIOc\_Init\_Intracomm has the default error handler,
  PIO\_INTERNAL\_ERROR, under which a call with a NULL \<open>gdimlen\<close> does not return
  PIO\_EINVAL: the process is aborted.
\<close>

theorem PIOc_InitDecomp_null_gdimlen_aborts:
  "(\<exists>ios. pio_get_iosystem_from_id default_started_state 2048 = Some ios)
   \<and> fst (PIOc_InitDecomp (plain_env insertion_qsort) default_started_state 2048 4 1 None 2
            (Some 0) True None None None) = Abort
   \<and> fst (PIOc_InitDecomp (plain_env insertion_qsort) default_started_state 2048 4 1 None 2
            (Some 0) True None None None) \<noteq> Return PIO_EINVAL"
proof -
  from default_started_state_ios obtain ios where
    lk: "pio_get_iosystem_from_id default_started_state 2048 = Some ios"
    and h: "error_handler ios = PIO_INTERNAL_ERROR" by blast
  have "PIOc_InitDecomp (plain_env insertion_qsort) default_started_state 2048 4 1 None 2
      (Some 0) True None None None = (Abort, default_started_state, None)"
    using PIOc_InitDecomp_EINVAL [OF lk, of None "Some 0" True 1] h
    by (simp add: args_valid_def)
  with lk show ?thesis by simp
qed

lemma assigned_ioid_not_behind:
  "pio_get_iosystem_from_id st i = Some ios \<Longrightarrow> counter_advances st env i \<Longrightarrow>
   pio_next_ioid st \<le> assigned_ioid env st ios
   \<and> c_int (assigned_ioid env st ios + 1) = assigned_ioid env st ios + 1"
  by (simp add: counter_advances_def c_int_def INT_MIN_def INT_MAX_def)

lemma assign_ioid_counter:
  assumes "pio_next_ioid st \<le> assigned_ioid env st ios"
    and "c_int (assigned_ioid env st ios + 1) = assigned_ioid env st ios + 1"
  shows "pio_next_ioid st \<le> pio_next_ioid (fst (snd (assign_ioid env st ios d)))"
proof (cases "async ios")
  case True
  with assms show ?thesis
    by (simp add: assign_ioid_def assigned_ioid_def Let_def pio_add_to_iodesc_list_def)
next
  case False
  with assms show ?thesis
    by (simp add: assign_ioid_def assigned_ioid_def Let_def pio_add_to_iodesc_list_def)
qed

lemma PIOc_InitDecomp_counter:
  assumes "counter_advances st env i"
  shows "pio_next_ioid st
      \<le> pio_next_ioid (fst (snd (PIOc_InitDecomp env st i pt nd gdimlen n compmap ioidp r
            is ic)))"
proof (cases "pio_get_iosystem_from_id st i")
  case None
  then show ?thesis by (simp add: PIOc_InitDecomp_def)
next
  case (Some ios)
  note chk = PIOc_InitDecomp_checks [OF Some, of env pt nd gdimlen n compmap ioidp r "is" ic]
  show ?thesis
  proof (cases "first_failure (initdecomp_checks env st ios pt nd gdimlen n compmap ioidp r)")
    case (Some e)
    then show ?thesis by (simp add: chk)
  next
    case None
    let ?cm = "read_compmap st (the compmap) n"
    let ?d = "initdecomp_iodesc env ios pt nd (the gdimlen) n ?cm r"
    from None have fin: "PIOc_InitDecomp env st i pt nd gdimlen n compmap ioidp r is ic =
        InitDecomp_finish env st ios pt n nd ?cm (the gdimlen) is ic ?d"
      by (simp add: chk)
    show ?thesis
    proof (cases "rearr_block env st ios pt n nd ?cm (the gdimlen) is ic ?d")
      case (Inl a)
      obtain e s where a: "a = (e, s)" by (cases a)
      have "heap_frame st s"
        using rearr_block_frame [of st env ios pt n nd ?cm "the gdimlen" "is" ic ?d] Inl a
        by simp
      then show ?thesis
        using Inl a by (simp add: fin InitDecomp_finish_rearr_block heap_frame_def)
    next
      case (Inr b)
      obtain d1 s where b: "b = (d1, s)" by (cases b)
      have fr: "heap_frame st s"
        using rearr_block_frame [of st env ios pt n nd ?cm "the gdimlen" "is" ic ?d] Inr b
        by simp
      have eq: "PIOc_InitDecomp env st i pt nd gdimlen n compmap ioidp r is ic =
          assign_ioid env s ios d1"
        using Inr b by (simp add: fin InitDecomp_finish_rearr_block)
      from fr have same: "pio_next_ioid s = pio_next_ioid st" by (simp add: heap_frame_def)
      have av: "assigned_ioid env s ios = assigned_ioid env st ios"
        by (simp add: assigned_ioid_def same)
      note nb = assigned_ioid_not_behind [OF Some assms]
      from nb have "pio_next_ioid s \<le> assigned_ioid env s ios"
        and "c_int (assigned_ioid env s ios + 1) = assigned_ioid env s ios + 1"
        by (simp_all add: av same)
      from assign_ioid_counter [OF this, of d1] show ?thesis by (simp add: eq same)
    qed
  qed
qed

lemma PIOc_InitDecomp_assigns:
  assumes "PIOc_InitDecomp env st i pt nd gdimlen n compmap ioidp r is ic
      = (Return PIO_NOERR, st', out)"
  obtains ios where "pio_get_iosystem_from_id st i = Some ios"
    "out = Some (assigned_ioid env st ios)"
    "pio_next_ioid st' = c_int (assigned_ioid env st ios + 1)"
    "\<exists>d. pio_get_iodesc_from_id st' (assigned_ioid env st ios) = Some d
        \<and> ioid d = assigned_ioid env st ios"
proof -
  from assms have "fst (PIOc_InitDecomp env st i pt nd gdimlen n compmap ioidp r is ic)
      = Return PIO_NOERR" by simp
  then obtain ios gd p d1 st1 where
    lk: "pio_get_iosystem_from_id st i = Some ios" and "gdimlen = Some gd"
    and "compmap = Some p" and "ioidp"
    and "rearr_block env st ios pt n nd (read_compmap st p n) gd is ic
       (initdecomp_iodesc env ios pt nd gd n (read_compmap st p n) r) = Inr (d1, st1)"
    and "heap_frame st st1"
    and res: "PIOc_InitDecomp env st i pt nd gdimlen n compmap ioidp r is ic =
       (Return PIO_NOERR,
        st1\<lparr>pio_next_ioid := c_int (assigned_ioid env st ios + 1),
            pio_iodesc_list :=
              (pio_iodesc_list st)
                (assigned_ioid env st ios := Some (d1\<lparr>ioid := assigned_ioid env st ios\<rparr>))\<rparr>,
        Some (assigned_ioid env st ios))"
    by (rule PIOc_InitDecomp_success)
  let ?v = "assigned_ioid env st ios"
  from assms res have st': "st' = st1\<lparr>pio_next_ioid := c_int (?v + 1),
      pio_iodesc_list := (pio_iodesc_list st)(?v := Some (d1\<lparr>ioid := ?v\<rparr>))\<rparr>"
    and out: "out = Some ?v" by simp_all
  have reg: "pio_get_iodesc_from_id st' ?v = Some (d1\<lparr>ioid := ?v\<rparr>) \<and> ioid (d1\<lparr>ioid := ?v\<rparr>) = ?v"
    by (simp add: st' pio_get_iodesc_from_id_def)
  show ?thesis
  proof (rule that [of ios])
    show "pio_get_iosystem_from_id st i = Some ios" by (fact lk)
    show "out = Some ?v" by (fact out)
    show "pio_next_ioid st' = c_int (?v + 1)" by (simp add: st')
    show "\<exists>d. pio_get_iodesc_from_id st' ?v = Some d \<and> ioid d = ?v"
      by (rule exI [of _ "d1\<lparr>ioid := ?v\<rparr>"]) (rule reg)
  qed
qed

lemma assigned_ids_increase:
  "counters_advance st cs \<Longrightarrow>
   sorted_wrt (<) (assigned_ids st cs) \<and> (\<forall>v \<in> set (assigned_ids st cs). pio_next_ioid st \<le> v)"
proof (induction cs arbitrary: st)
  case Nil
  show ?case by simp
next
  case (Cons c cs)
  let ?r = "run_call st c"
  let ?st' = "fst (snd ?r)"
  from Cons.prems have nb: "counter_advances st (call_env c) (call_iosysid c)"
    and rest: "counters_advance ?st' cs" by simp_all
  note ih = Cons.IH [OF rest]
  have mono: "pio_next_ioid st \<le> pio_next_ioid ?st'"
    unfolding run_call_def by (rule PIOc_InitDecomp_counter [OF nb])
  show ?case
  proof (cases "fst ?r = Return PIO_NOERR")
    case False
    with ih mono show ?thesis by (auto simp del: run_call_def)
  next
    case True
    then have "?r = (Return PIO_NOERR, ?st', snd (snd ?r))" by (simp add: prod_eq_iff)
    then obtain ios where lk: "pio_get_iosystem_from_id st (call_iosysid c) = Some ios"
      and out: "snd (snd ?r) = Some (assigned_ioid (call_env c) st ios)"
      and next': "pio_next_ioid ?st' = c_int (assigned_ioid (call_env c) st ios + 1)"
      unfolding run_call_def by (rule PIOc_InitDecomp_assigns)
    note adv = assigned_ioid_not_behind [OF lk nb]
    from adv have ge: "pio_next_ioid st \<le> assigned_ioid (call_env c) st ios" by simp
    from adv next' have next'': "pio_next_ioid ?st' = assigned_ioid (call_env c) st ios + 1"
      by simp
    from True out have ids: "assigned_ids st (c # cs)
        = assigned_ioid (call_env c) st ios # assigned_ids ?st' cs"
      by simp
    from ih next'' have "\<forall>v \<in> set (assigned_ids ?st' cs). assigned_ioid (call_env c) st ios < v"
      by auto
    with ih ge mono show ?thesis
      unfolding ids by auto
  qed
qed

lemma PIOc_InitDecomp_iosystem_list:
  "pio_iosystem_list (fst (snd (PIOc_InitDecomp env st i pt nd gdimlen n compmap ioidp r
      is ic))) = pio_iosystem_list st"
proof (cases "pio_get_iosystem_from_id st i")
  case None
  then show ?thesis by (simp add: PIOc_InitDecomp_def)
next
  case (Some ios)
  note chk = PIOc_InitDecomp_checks [OF Some, of env pt nd gdimlen n compmap ioidp r "is" ic]
  show ?thesis
  proof (cases "first_failure (initdecomp_checks env st ios pt nd gdimlen n compmap ioidp r)")
    case (Some e)
    then show ?thesis by (simp add: chk)
  next
    case None
    let ?cm = "read_compmap st (the compmap) n"
    let ?d = "initdecomp_iodesc env ios pt nd (the gdimlen) n ?cm r"
    from None have fin: "PIOc_InitDecomp env st i pt nd gdimlen n compmap ioidp r is ic =
        InitDecomp_finish env st ios pt n nd ?cm (the gdimlen) is ic ?d"
      by (simp add: chk)
    show ?thesis
    proof (cases "rearr_block env st ios pt n nd ?cm (the gdimlen) is ic ?d")
      case (Inl a)
      obtain e s where a: "a = (e, s)" by (cases a)
      have "heap_frame st s"
        using rearr_block_frame [of st env ios pt n nd ?cm "the gdimlen" "is" ic ?d] Inl a
        by simp
      then show ?thesis
        using Inl a by (simp add: fin InitDecomp_finish_rearr_block heap_frame_def)
    next
      case (Inr b)
      obtain d1 s where b: "b = (d1, s)" by (cases b)
      have fr: "heap_frame st s"
        using rearr_block_frame [of st env ios pt n nd ?cm "the gdimlen" "is" ic ?d] Inr b
        by simp
      have eq: "PIOc_InitDecomp env st i pt nd gdimlen n compmap ioidp r is ic =
          assign_ioid env s ios d1"
        using Inr b by (simp add: fin InitDecomp_finish_rearr_block)
      from fr have "pio_iosystem_list s = pio_iosystem_list st" by (simp add: heap_frame_def)
      then show ?thesis
        by (simp add: eq assign_ioid_def Let_def pio_add_to_iodesc_list_def)
    qed
  qed
qed

lemma two_element_call_ok:
  assumes lk: "pio_get_iosystem_from_id st i = Some ios"
    and ios: "ios = example_ios \<or> ios = async_ios"
    and env: "env = plain_env insertion_qsort \<or> env = root_env v"
  shows "fst (run_call st (two_element_call env i)) = Return PIO_NOERR"
proof -
  have envs: "params_mpi env = quiet_mpi"
    "malloc_iodesc env = (\<lambda>ios pt nd. (0, blank_iodesc\<lparr>piotype := pt, ndims := nd\<rparr>))"
    "malloc_map env" "malloc_tmpsort env" "malloc_remap env" "malloc_dimlen env"
    "box_rearrange_create env = (\<lambda>ios n m gd nd d. (0, d\<lparr>ndof := n\<rparr>))"
    "CalcStartandCount env = (\<lambda>pt nd gd nio rank. (0, map (\<lambda>_. 0) gd, gd, nio))"
    "compute_maxIObuffersize env = (\<lambda>d. (0, prod_list (count_r (firstregion d))))"
    "bcast_num_aiotasks env = (\<lambda>v. (MPI_SUCCESS, v))"
    "fst (bcast_next_ioid env (pio_next_ioid st)) = MPI_SUCCESS"
    using env by (auto simp add: root_env_def plain_env_simps)
  have ioss: "default_rearranger ios = PIO_REARR_BOX"
    using ios by (auto simp add: example_ios_simps async_ios_simps)
  have chk: "first_failure (initdecomp_checks env st ios 4 1 (Some [2]) 2 (Some 0) True None)
      = None"
    using ios
    by (auto simp add: initdecomp_checks_def InitDecomp_async_def example_ios_simps
        async_ios_simps envs quiet_mpi_def)
  have fin: "fst (InitDecomp_finish env st ios 4 2 1 cm [2] None None
      (initdecomp_iodesc env ios 4 1 [2] 2 cm None)) = Return PIO_NOERR" for cm
    using ios
    by (auto simp add: InitDecomp_finish_def Let_def example_ios_simps async_ios_simps pio_consts
        box_block_def box_ioproc_def assign_ioid_def pio_add_to_iodesc_list_def envs
        initdecomp_iodesc_def iodesc_set_dims_def iodesc_set_map_other_fields)
  show ?thesis
    using chk fin
    by (simp add: run_call_def two_element_call_def PIOc_InitDecomp_checks [OF lk])
qed

lemma two_element_call_id:
  assumes lk: "pio_get_iosystem_from_id st i = Some ios"
    and ios: "ios = example_ios \<or> ios = async_ios"
    and env: "env = plain_env insertion_qsort \<or> env = root_env v"
  shows "run_call st (two_element_call env i) =
      (Return PIO_NOERR, fst (snd (run_call st (two_element_call env i))),
       Some (assigned_ioid env st ios))"
    and "pio_next_ioid (fst (snd (run_call st (two_element_call env i))))
      = c_int (assigned_ioid env st ios + 1)"
    and "pio_get_iosystem_from_id (fst (snd (run_call st (two_element_call env i)))) j
      = pio_get_iosystem_from_id st j"
proof -
  let ?r = "run_call st (two_element_call env i)"
  have ok: "fst ?r = Return PIO_NOERR" by (rule two_element_call_ok [OF lk ios env])
  then have r: "PIOc_InitDecomp env st i 4 1 (Some [2]) 2 (Some 0) True None None None
      = (Return PIO_NOERR, fst (snd ?r), snd (snd ?r))"
    by (simp add: run_call_def two_element_call_def prod_eq_iff)
  obtain ios' where "pio_get_iosystem_from_id st i = Some ios'"
    and out: "snd (snd ?r) = Some (assigned_ioid env st ios')"
    and nxt: "pio_next_ioid (fst (snd ?r)) = c_int (assigned_ioid env st ios' + 1)"
    using r by (rule PIOc_InitDecomp_assigns)
  with lk have same: "ios' = ios" by simp
  show "?r = (Return PIO_NOERR, fst (snd ?r), Some (assigned_ioid env st ios))"
    using ok out same by (simp add: prod_eq_iff)
  show "pio_next_ioid (fst (snd ?r)) = c_int (assigned_ioid env st ios + 1)"
    using nxt same by simp
  have "pio_iosystem_list (fst (snd ?r)) = pio_iosystem_list st"
    unfolding run_call_def by (rule PIOc_InitDecomp_iosystem_list)
  then show "pio_get_iosystem_from_id (fst (snd ?r)) j = pio_get_iosystem_from_id st j"
    by (simp add: pio_get_iosystem_from_id_def)
qed

text \<open>
  What the code does for the ids. The counter \<open>pio_next_ioid\<close> starts at 512. A
  call of PIOc\_InitDecomp that returns PIO\_NOERR assigns the value of the counter,
  which with async is the value broadcast from the I/O root, registers the
  descriptor under it and increments the counter. Hence two tasks that receive the
  same broadcast value assign the same id, whatever their own counters were. The
  ids assigned by successive calls on one task are strictly increasing, and not
  below the counter at the start, as long as no broadcast delivers a value below
  the counter that the task holds at that call and no id reaches INT\_MAX.
\<close>

theorem PIOc_InitDecomp_ioids:
  assumes "counters_advance st cs"
  shows "pio_next_ioid initial_state = 512
    \<and> sorted_wrt (<) (assigned_ids st cs)
    \<and> (\<forall>v \<in> set (assigned_ids st cs). pio_next_ioid st \<le> v)
    \<and> (run_call st c = (Return PIO_NOERR, st', out) \<longrightarrow>
         (\<exists>ios. pio_get_iosystem_from_id st (call_iosysid c) = Some ios
            \<and> out = Some (if async ios
                          then snd (bcast_next_ioid (call_env c) (pio_next_ioid st))
                          else pio_next_ioid st)
            \<and> pio_next_ioid st' = c_int (the out + 1)
            \<and> (\<exists>d. pio_get_iodesc_from_id st' (the out) = Some d \<and> ioid d = the out)))
    \<and> (run_call st1 c1 = (Return PIO_NOERR, st1', out1)
         \<and> run_call st2 c2 = (Return PIO_NOERR, st2', out2)
         \<and> pio_get_iosystem_from_id st1 (call_iosysid c1) = Some ios1 \<and> async ios1
         \<and> pio_get_iosystem_from_id st2 (call_iosysid c2) = Some ios2 \<and> async ios2
         \<and> snd (bcast_next_ioid (call_env c1) (pio_next_ioid st1))
             = snd (bcast_next_ioid (call_env c2) (pio_next_ioid st2))
       \<longrightarrow> out1 = out2)"
proof (intro conjI impI)
  show "pio_next_ioid initial_state = 512" by (simp add: initial_state_def)
  from assigned_ids_increase [OF assms]
  show "sorted_wrt (<) (assigned_ids st cs)"
    and "\<forall>v \<in> set (assigned_ids st cs). pio_next_ioid st \<le> v" by simp_all
next
  assume "run_call st c = (Return PIO_NOERR, st', out)"
  then obtain ios where lk: "pio_get_iosystem_from_id st (call_iosysid c) = Some ios"
    and out: "out = Some (assigned_ioid (call_env c) st ios)"
    and nxt: "pio_next_ioid st' = c_int (assigned_ioid (call_env c) st ios + 1)"
    and reg: "\<exists>d. pio_get_iodesc_from_id st' (assigned_ioid (call_env c) st ios) = Some d
        \<and> ioid d = assigned_ioid (call_env c) st ios"
    unfolding run_call_def by (rule PIOc_InitDecomp_assigns)
  have body: "pio_get_iosystem_from_id st (call_iosysid c) = Some ios
      \<and> out = Some (if async ios then snd (bcast_next_ioid (call_env c) (pio_next_ioid st))
                    else pio_next_ioid st)
      \<and> pio_next_ioid st' = c_int (the out + 1)
      \<and> (\<exists>d. pio_get_iodesc_from_id st' (the out) = Some d \<and> ioid d = the out)"
    using lk out nxt reg by (simp add: assigned_ioid_def)
  show "\<exists>ios. pio_get_iosystem_from_id st (call_iosysid c) = Some ios
      \<and> out = Some (if async ios then snd (bcast_next_ioid (call_env c) (pio_next_ioid st))
                    else pio_next_ioid st)
      \<and> pio_next_ioid st' = c_int (the out + 1)
      \<and> (\<exists>d. pio_get_iodesc_from_id st' (the out) = Some d \<and> ioid d = the out)"
    by (rule exI [of _ ios]) (rule body)
next
  assume h: "run_call st1 c1 = (Return PIO_NOERR, st1', out1)
         \<and> run_call st2 c2 = (Return PIO_NOERR, st2', out2)
         \<and> pio_get_iosystem_from_id st1 (call_iosysid c1) = Some ios1 \<and> async ios1
         \<and> pio_get_iosystem_from_id st2 (call_iosysid c2) = Some ios2 \<and> async ios2
         \<and> snd (bcast_next_ioid (call_env c1) (pio_next_ioid st1))
             = snd (bcast_next_ioid (call_env c2) (pio_next_ioid st2))"
  then have r1: "run_call st1 c1 = (Return PIO_NOERR, st1', out1)"
    and r2: "run_call st2 c2 = (Return PIO_NOERR, st2', out2)"
    and l1: "pio_get_iosystem_from_id st1 (call_iosysid c1) = Some ios1" and a1: "async ios1"
    and l2: "pio_get_iosystem_from_id st2 (call_iosysid c2) = Some ios2" and a2: "async ios2"
    and same: "snd (bcast_next_ioid (call_env c1) (pio_next_ioid st1))
             = snd (bcast_next_ioid (call_env c2) (pio_next_ioid st2))"
    by blast+
  obtain i1 where "pio_get_iosystem_from_id st1 (call_iosysid c1) = Some i1"
    and o1: "out1 = Some (assigned_ioid (call_env c1) st1 i1)"
    using r1 unfolding run_call_def by (rule PIOc_InitDecomp_assigns)
  with l1 have i1: "i1 = ios1" by simp
  obtain i2 where "pio_get_iosystem_from_id st2 (call_iosysid c2) = Some i2"
    and o2: "out2 = Some (assigned_ioid (call_env c2) st2 i2)"
    using r2 unfolding run_call_def by (rule PIOc_InitDecomp_assigns)
  with l2 have i2: "i2 = ios2" by simp
  show "out1 = out2"
    using o1 o2 i1 i2 a1 a2 same by (simp add: assigned_ioid_def)
qed

text \<open>
  A sequence with an async call within that condition: after the id 512 on the
  I/O system 2048 the task holds 513, the I/O root of the async I/O system 2049
  broadcasts 514, and the ids are 512 and 514.
\<close>

lemma PIOc_InitDecomp_ioids_example:
  "counters_advance (state_with_map [1, 2])
       [two_element_call (plain_env insertion_qsort) 2048, two_element_call (root_env 514) 2049]
   \<and> assigned_ids (state_with_map [1, 2])
       [two_element_call (plain_env insertion_qsort) 2048, two_element_call (root_env 514) 2049]
     = [512, 514]
   \<and> snd (snd (run_call (state_with_map [1, 2]) (two_element_call (root_env 514) 2049)))
       = Some 514"
proof -
  let ?S = "state_with_map [1, 2]"
  let ?p = "plain_env insertion_qsort"
  let ?c = "two_element_call ?p 2048"
  let ?a = "two_element_call (root_env 514) 2049"
  let ?S1 = "fst (snd (run_call ?S ?c))"
  have lk: "pio_get_iosystem_from_id ?S 2048 = Some example_ios"
    by (rule state_with_map_simps)
  have lka: "pio_get_iosystem_from_id ?S 2049 = Some async_ios"
    by (rule state_with_map_async)
  note c1 = two_element_call_id [OF lk disjI1 disjI1, OF refl refl]
  have lka1: "pio_get_iosystem_from_id ?S1 2049 = Some async_ios"
    by (simp add: c1(3) lka)
  note a1 = two_element_call_id [OF lka disjI2 disjI2, OF refl refl, of 514]
  note a2 = two_element_call_id [OF lka1 disjI2 disjI2, OF refl refl, of 514]
  have n1: "pio_next_ioid ?S1 = 513"
    by (simp add: c1(2) assigned_ioid_def example_ios_simps state_with_map_simps c_int_def)
  have p1: "fst (run_call ?S ?c) = Return PIO_NOERR" "snd (snd (run_call ?S ?c)) = Some 512"
    using c1(1) by (simp_all add: prod_eq_iff assigned_ioid_def example_ios_simps
        state_with_map_simps)
  have p2: "fst (run_call ?S1 ?a) = Return PIO_NOERR" "snd (snd (run_call ?S1 ?a)) = Some 514"
    using a2(1) by (simp_all add: prod_eq_iff assigned_ioid_def async_ios_simps root_env_def)
  have p3: "snd (snd (run_call ?S ?a)) = Some 514"
    using a1(1) by (simp add: prod_eq_iff assigned_ioid_def async_ios_simps root_env_def)
  have ids: "assigned_ids ?S [?c, ?a] = [512, 514]"
    by (simp add: p1 p2)
  have args: "call_env ?c = ?p" "call_iosysid ?c = 2048" "call_env ?a = root_env 514"
    "call_iosysid ?a = 2049"
    by (simp_all add: two_element_call_def)
  have nb1: "counter_advances ?S (call_env ?c) (call_iosysid ?c)"
    unfolding args
    by (simp add: counter_advances_def lk example_ios_simps assigned_ioid_def
        state_with_map_simps INT_MIN_def INT_MAX_def)
  have nb2: "counter_advances ?S1 (call_env ?a) (call_iosysid ?a)"
    unfolding args
    by (simp add: counter_advances_def lka1 async_ios_simps n1 root_env_def assigned_ioid_def
        INT_MIN_def INT_MAX_def)
  have nb: "counters_advance ?S [?c, ?a]"
    by (simp add: nb1 nb2)
  show ?thesis
    using ids nb p3 by (intro conjI)
qed

text \<open>
  C4 fails on the code. The counter is one for the whole process, and the
  broadcast of an async I/O system overwrites it with the counter of that system's
  I/O root without comparing the two (lines 734-741). After two decompositions on
  the I/O system 2048 got the ids 512 and 513, a decomposition on the async I/O
  system 2049 whose I/O root still has the counter 512 gets the id 512 again: the
  ids of successive successful calls are neither increasing nor distinct, and two
  decompositions are registered under one id.
\<close>

theorem PIOc_InitDecomp_ioid_repeated:
  "assigned_ids (state_with_map [1, 2])
       [two_element_call (plain_env insertion_qsort) 2048,
        two_element_call (plain_env insertion_qsort) 2048,
        two_element_call (root_env 512) 2049] = [512, 513, 512]
   \<and> \<not> sorted_wrt (\<le>) (assigned_ids (state_with_map [1, 2])
       [two_element_call (plain_env insertion_qsort) 2048,
        two_element_call (plain_env insertion_qsort) 2048,
        two_element_call (root_env 512) 2049])
   \<and> \<not> distinct (assigned_ids (state_with_map [1, 2])
       [two_element_call (plain_env insertion_qsort) 2048,
        two_element_call (plain_env insertion_qsort) 2048,
        two_element_call (root_env 512) 2049])"
proof -
  let ?S = "state_with_map [1, 2]"
  let ?p = "plain_env insertion_qsort"
  let ?c = "two_element_call ?p 2048"
  let ?a = "two_element_call (root_env 512) 2049"
  let ?S1 = "fst (snd (run_call ?S ?c))"
  let ?S2 = "fst (snd (run_call ?S1 ?c))"
  have lk: "pio_get_iosystem_from_id ?S 2048 = Some example_ios"
    by (rule state_with_map_simps)
  have lka: "pio_get_iosystem_from_id ?S 2049 = Some async_ios"
    by (rule state_with_map_async)
  note c1 = two_element_call_id [OF lk disjI1 disjI1, OF refl refl]
  have lk1: "pio_get_iosystem_from_id ?S1 2048 = Some example_ios"
    and lka1: "pio_get_iosystem_from_id ?S1 2049 = Some async_ios"
    by (simp_all add: c1(3) lk lka)
  note c2 = two_element_call_id [OF lk1 disjI1 disjI1, OF refl refl]
  have lka2: "pio_get_iosystem_from_id ?S2 2049 = Some async_ios"
    by (simp add: c2(3) lka1)
  note a3 = two_element_call_id [OF lka2 disjI2 disjI2, OF refl refl, of 512]
  have n1: "pio_next_ioid ?S1 = 513"
    by (simp add: c1(2) assigned_ioid_def example_ios_simps state_with_map_simps c_int_def)
  have p1: "fst (run_call ?S ?c) = Return PIO_NOERR" "snd (snd (run_call ?S ?c)) = Some 512"
    using c1(1) by (simp_all add: prod_eq_iff assigned_ioid_def example_ios_simps
        state_with_map_simps)
  have p2: "fst (run_call ?S1 ?c) = Return PIO_NOERR" "snd (snd (run_call ?S1 ?c)) = Some 513"
    using c2(1) by (simp_all add: prod_eq_iff assigned_ioid_def example_ios_simps n1)
  have p3: "fst (run_call ?S2 ?a) = Return PIO_NOERR" "snd (snd (run_call ?S2 ?a)) = Some 512"
    using a3(1) by (simp_all add: prod_eq_iff assigned_ioid_def async_ios_simps root_env_def)
  have ids: "assigned_ids ?S [?c, ?c, ?a] = [512, 513, 512]"
    by (simp add: p1 p2 p3)
  show ?thesis
    unfolding ids by simp
qed

lemma PIOc_InitDecomp_heap:
  assumes "p < brk st"
  shows "heap (fst (snd (PIOc_InitDecomp env st i pt nd gdimlen n compmap ioidp r is ic))) p
      = heap st p"
proof (cases "pio_get_iosystem_from_id st i")
  case None
  then show ?thesis by (simp add: PIOc_InitDecomp_def)
next
  case (Some ios)
  note chk = PIOc_InitDecomp_checks [OF Some, of env pt nd gdimlen n compmap ioidp r "is" ic]
  show ?thesis
  proof (cases "first_failure (initdecomp_checks env st ios pt nd gdimlen n compmap ioidp r)")
    case (Some e)
    then show ?thesis by (simp add: chk)
  next
    case None
    let ?cm = "read_compmap st (the compmap) n"
    let ?d = "initdecomp_iodesc env ios pt nd (the gdimlen) n ?cm r"
    from None have fin: "PIOc_InitDecomp env st i pt nd gdimlen n compmap ioidp r is ic =
        InitDecomp_finish env st ios pt n nd ?cm (the gdimlen) is ic ?d"
      by (simp add: chk)
    show ?thesis
    proof (cases "rearr_block env st ios pt n nd ?cm (the gdimlen) is ic ?d")
      case (Inl a)
      obtain e s where a: "a = (e, s)" by (cases a)
      have "heap_frame st s"
        using rearr_block_frame [of st env ios pt n nd ?cm "the gdimlen" "is" ic ?d] Inl a
        by simp
      then show ?thesis
        using Inl a assms by (simp add: fin InitDecomp_finish_rearr_block heap_frame_def)
    next
      case (Inr b)
      obtain d1 s where b: "b = (d1, s)" by (cases b)
      have fr: "heap_frame st s"
        using rearr_block_frame [of st env ios pt n nd ?cm "the gdimlen" "is" ic ?d] Inr b
        by simp
      have eq: "PIOc_InitDecomp env st i pt nd gdimlen n compmap ioidp r is ic =
          assign_ioid env s ios d1"
        using Inr b by (simp add: fin InitDecomp_finish_rearr_block)
      from fr assms have "heap s p = heap st p" by (simp add: heap_frame_def)
      then show ?thesis by (simp add: eq assign_ioid_heap)
    qed
  qed
qed

text \<open>
  C8. PIOc\_InitDecomp never modifies the caller's compmap array. The addresses
  below \<open>brk\<close> are the buffers allocated before the call, the caller's array among
  them. Whatever the environment does and however the call ends, every element of
  the array holds its original value afterwards: the map is copied into the
  descriptor, the sort works on its own buffer, and the duplicate check of the
  subset rearranger is handed \<open>tmpmap\<close>, a buffer allocated for it.
\<close>

theorem PIOc_InitDecomp_keeps_compmap:
  assumes "compmap = Some p" and "p < brk st"
  shows "heap (fst (snd (PIOc_InitDecomp env st iosysid' pio_type ndims' gdimlen maplen' compmap
             ioidp rearranger' iostart iocount))) p = heap st p
    \<and> read_compmap (fst (snd (PIOc_InitDecomp env st iosysid' pio_type ndims' gdimlen maplen'
             compmap ioidp rearranger' iostart iocount))) p maplen'
        = read_compmap st p maplen'"
  using PIOc_InitDecomp_heap [OF assms(2), of env iosysid' pio_type ndims' gdimlen maplen'
      compmap ioidp rearranger' iostart iocount]
  by (simp add: read_compmap_def)

lemma eval_plain_subset:
  "fst (PIOc_InitDecomp (plain_env q) (state_with_map cm) 2048 4 1 (Some [3])
       (int (length cm)) (Some 0) True (Some PIO_REARR_SUBSET) None None) = Return PIO_NOERR"
proof -
  have lk: "pio_get_iosystem_from_id (state_with_map cm) 2048 = Some example_ios"
    by (rule state_with_map_simps)
  have chk: "first_failure (initdecomp_checks (plain_env q) (state_with_map cm) example_ios 4 1
      (Some [3]) (int (length cm)) (Some 0) True (Some PIO_REARR_SUBSET)) = None"
    by (simp add: initdecomp_checks_def state_with_map_simps InitDecomp_async_def
        example_ios_simps plain_env_simps)
  have fin: "fst (InitDecomp_finish (plain_env q) (state_with_map cm) example_ios 4
      (int (length cm)) 1 cm [3] None None
      (initdecomp_iodesc (plain_env q) example_ios 4 1 [3] (int (length cm)) cm
         (Some PIO_REARR_SUBSET))) = Return PIO_NOERR"
    by (simp add: InitDecomp_finish_def Let_def example_ios_simps
        subset_block_def malloc_buf_def free_buf_def assign_ioid_def pio_add_to_iodesc_list_def
        plain_env_simps initdecomp_iodesc_def iodesc_set_dims_def PIO_NOERR_def MPI_SUCCESS_def
        split: prod.split)
  show ?thesis
    using chk fin
    by (simp add: PIOc_InitDecomp_checks [OF lk] state_with_map_simps)
qed

theorem PIOc_InitDecomp_keeps_compmap_witness:
  "fst (PIOc_InitDecomp (plain_env insertion_qsort) (state_with_map [3, 1, 2]) 2048 4 1
          (Some [3]) 3 (Some 0) True (Some PIO_REARR_SUBSET) None None) = Return PIO_NOERR
   \<and> fst (snd (run_unique_check (plain_env insertion_qsort) [3, 1, 2])) = [1, 2, 3]
   \<and> heap (fst (snd (PIOc_InitDecomp (plain_env insertion_qsort) (state_with_map [3, 1, 2])
          2048 4 1 (Some [3]) 3 (Some 0) True (Some PIO_REARR_SUBSET) None None))) 0
       = Some [3, 1, 2]
   \<and> read_compmap (fst (snd (PIOc_InitDecomp (plain_env insertion_qsort)
          (state_with_map [3, 1, 2]) 2048 4 1 (Some [3]) 3 (Some 0) True
          (Some PIO_REARR_SUBSET) None None))) 0 3 = [3, 1, 2]"
  using PIOc_InitDecomp_keeps_compmap [of "Some 0" 0 "state_with_map [3, 1, 2]"
      "plain_env insertion_qsort" 2048 4 1 "Some [3]" 3 True "Some PIO_REARR_SUBSET" None None]
    eval_plain_subset [of insertion_qsort "[3, 1, 2]"]
    state_with_map_simps(2) [of "[3, 1, 2]"]
  by (simp add: state_with_map_simps plain_env_simps)

lemma globals_heap_frame: "heap_frame st st' \<Longrightarrow> globals st' = globals st"
  by (simp add: heap_frame_def globals_def)

lemma globals_malloc_free:
  "globals (snd (malloc_buf st buf)) = globals st"
  "globals (free_buf st a) = globals st"
  by (simp_all add: globals_def malloc_buf_def free_buf_def)

lemma lookup_globals:
  "globals st' = globals st \<Longrightarrow>
   pio_get_iosystem_from_id st' i = pio_get_iosystem_from_id st i"
  by (simp add: globals_def pio_get_iosystem_from_id_def)

lemma pio_err_state: "pio_err st' (Some ios) e = pio_err st (Some ios) e"
  by (simp add: pio_err_def)

lemma check_mpi_state: "check_mpi st' (Some ios) e = check_mpi st (Some ios) e"
  by (simp add: check_mpi_def)

lemma subset_block_result:
  "block_result (subset_block env st' ios n cm gd nd d)
     = block_result (subset_block env st ios n cm gd nd d)"
proof (cases "compproc ios")
  case False
  then show ?thesis
    by (simp add: subset_block_def Let_def pio_err_state [of st' ios _ st])
next
  case True
  obtain ierr buf ro where "run_unique_check env cm = (ierr, buf, ro)"
    by (cases "run_unique_check env cm")
  with True show ?thesis
    by (simp add: subset_block_def Let_def malloc_buf_def
        pio_err_state [of "free_buf _ _" ios _ st] pio_err_state [of "_\<lparr>heap := _\<rparr>" ios _ st])
qed

lemma box_ioproc_state:
  "box_ioproc env st' ios pt nd gd is ic d = box_ioproc env st ios pt nd gd is ic d"
  unfolding box_ioproc_def pio_err_state [of st' ios _ st] by (rule refl)

lemma box_block_result:
  "block_result (box_block env st' ios pt n nd gd is ic d)
     = block_result (box_block env st ios pt n nd gd is ic d)"
proof -
  define x where "x = (if ioproc ios then box_ioproc env st ios pt nd gd is ic d else Inr d)"
  have x': "(if ioproc ios then box_ioproc env st' ios pt nd gd is ic d else Inr d) = x"
    by (simp add: x_def box_ioproc_state [of env st' ios pt nd gd "is" ic d st])
  show ?thesis
    unfolding box_block_def x' x_def [symmetric]
      pio_err_state [of st' ios _ st] check_mpi_state [of st' ios _ st]
    by (cases x) (simp_all add: Let_def)
qed

lemma rearr_block_result:
  "block_result (rearr_block env st' ios pt n nd cm gd is ic d)
     = block_result (rearr_block env st ios pt n nd cm gd is ic d)"
  by (simp add: rearr_block_def subset_block_result [of env st' ios n cm gd nd d st]
      box_block_result [of env st' ios pt n nd gd "is" ic d st])

lemma assign_ioid_result:
  "globals st' = globals st \<Longrightarrow>
   call_result (assign_ioid env st' ios d) = call_result (assign_ioid env st ios d)"
  by (simp add: call_result_def globals_def assign_ioid_def Let_def pio_add_to_iodesc_list_def
      pio_err_state [of "_\<lparr>pio_iodesc_list := _\<rparr>" ios _ st]
      check_mpi_state [of "_\<lparr>pio_next_ioid := _\<rparr>" ios _ st])

lemma block_result_cases:
  "block_result b' = block_result b \<Longrightarrow> b = Inl (e, s) \<Longrightarrow> \<exists>s'. b' = Inl (e, s')"
  "block_result b' = block_result b \<Longrightarrow> b = Inr (d, s) \<Longrightarrow> \<exists>s'. b' = Inr (d, s')"
  by (cases b' rule: block_result.cases; simp)+

lemma InitDecomp_finish_result:
  assumes g: "globals st' = globals st"
  shows "call_result (InitDecomp_finish env st' ios pt n nd cm gd is ic d)
     = call_result (InitDecomp_finish env st ios pt n nd cm gd is ic d)"
proof -
  define b' where "b' = rearr_block env st' ios pt n nd cm gd is ic d"
  define b where "b = rearr_block env st ios pt n nd cm gd is ic d"
  have res: "block_result b' = block_result b"
    unfolding b'_def b_def by (rule rearr_block_result)
  have "globals (block_state b') = globals st'"
    unfolding b'_def by (rule globals_heap_frame [OF rearr_block_frame])
  moreover have "globals (block_state b) = globals st"
    unfolding b_def by (rule globals_heap_frame [OF rearr_block_frame])
  ultimately have gl: "globals (block_state b') = globals (block_state b)"
    using g by simp
  have f': "InitDecomp_finish env st' ios pt n nd cm gd is ic d =
      (case b' of Inl (e, st1) \<Rightarrow> (e, st1, None) | Inr (d1, st1) \<Rightarrow> assign_ioid env st1 ios d1)"
    unfolding b'_def by (rule InitDecomp_finish_rearr_block)
  have f: "InitDecomp_finish env st ios pt n nd cm gd is ic d =
      (case b of Inl (e, st1) \<Rightarrow> (e, st1, None) | Inr (d1, st1) \<Rightarrow> assign_ioid env st1 ios d1)"
    unfolding b_def by (rule InitDecomp_finish_rearr_block)
  show ?thesis
  proof (cases b rule: block_result.cases)
    case (1 e s)
    from block_result_cases(1) [OF res 1] obtain s' where c1: "b' = Inl (e, s')" by blast
    from gl 1 c1 have "globals s' = globals s" by simp
    then show ?thesis
      unfolding f f' 1 c1 by (simp add: call_result_def)
  next
    case (2 d1 s)
    from block_result_cases(2) [OF res 2] obtain s' where c2: "b' = Inr (d1, s')" by blast
    from gl 2 c2 have "globals s' = globals s" by simp
    then have "call_result (assign_ioid env s' ios d1) = call_result (assign_ioid env s ios d1)"
      by (rule assign_ioid_result)
    then show ?thesis
      unfolding f f' 2 c2 by simp
  qed
qed

lemma InitDecomp_async_state:
  "InitDecomp_async env st' ios r = InitDecomp_async env st ios r"
  unfolding InitDecomp_async_def check_mpi_state [of st' ios _ st] pio_err_state [of st' ios _ st]
  by (rule refl)

lemma initdecomp_checks_state:
  "read_compmap st' q n = read_compmap st p n \<Longrightarrow>
   initdecomp_checks env st' ios pt nd gd n (Some q) ioidp r
     = initdecomp_checks env st ios pt nd gd n (Some p) ioidp r"
  unfolding initdecomp_checks_def InitDecomp_async_state [of env st' ios r st]
    pio_err_state [of st' ios _ st]
  by simp

lemma PIOc_InitDecomp_result:
  assumes g: "globals st' = globals st"
    and cm: "read_compmap st' q n = read_compmap st p n"
  shows "call_result (PIOc_InitDecomp env st' i pt nd gdimlen n (Some q) ioidp r is ic)
       = call_result (PIOc_InitDecomp env st i pt nd gdimlen n (Some p) ioidp r is ic)"
proof (cases "pio_get_iosystem_from_id st i")
  case None
  moreover from None have "pio_get_iosystem_from_id st' i = None"
    by (simp add: lookup_globals [OF g])
  moreover from g have "pio_err st' None PIO_EBADID = pio_err st None PIO_EBADID"
    by (simp add: pio_err_def globals_def)
  ultimately show ?thesis
    using g by (simp add: PIOc_InitDecomp_def call_result_def)
next
  case (Some ios)
  then have lk': "pio_get_iosystem_from_id st' i = Some ios"
    by (simp add: lookup_globals [OF g])
  note chk = PIOc_InitDecomp_checks [OF Some, of env pt nd gdimlen n "Some p" ioidp r "is" ic]
  note chk' = PIOc_InitDecomp_checks [OF lk', of env pt nd gdimlen n "Some q" ioidp r "is" ic]
  note same = initdecomp_checks_state [OF cm, of env ios pt nd gdimlen ioidp r]
  show ?thesis
  proof (cases "first_failure (initdecomp_checks env st ios pt nd gdimlen n (Some p) ioidp r)")
    case (Some e)
    then show ?thesis
      using g by (simp add: chk chk' same call_result_def)
  next
    case None
    have "call_result (InitDecomp_finish env st' ios pt n nd (read_compmap st p n)
          (the gdimlen) is ic (initdecomp_iodesc env ios pt nd (the gdimlen) n
             (read_compmap st p n) r))
        = call_result (InitDecomp_finish env st ios pt n nd (read_compmap st p n)
          (the gdimlen) is ic (initdecomp_iodesc env ios pt nd (the gdimlen) n
             (read_compmap st p n) r))"
      by (rule InitDecomp_finish_result [OF g])
    then show ?thesis
      using None by (simp add: chk chk' same cm)
  qed
qed

lemma eval_no_compmap_1_based:
  assumes "0 < g"
  shows "fst (PIOc_InitDecomp ((plain_env q)\<lparr>malloc_compmap_1_based := False\<rparr>)
       (state_with_map cm) 2048 4 1 (Some [g]) (int (length cm)) (Some 0) True None None None)
     = Return PIO_NOERR"
proof -
  let ?env = "(plain_env q)\<lparr>malloc_compmap_1_based := False\<rparr>"
  have lk: "pio_get_iosystem_from_id (state_with_map cm) 2048 = Some example_ios"
    by (rule state_with_map_simps)
  have chk: "first_failure (initdecomp_checks ?env (state_with_map cm) example_ios 4 1
      (Some [g]) (int (length cm)) (Some 0) True None) = None"
    using assms
    by (simp add: initdecomp_checks_def state_with_map_simps InitDecomp_async_def
        example_ios_simps plain_env_simps)
  have fin: "fst (InitDecomp_finish ?env (state_with_map cm) example_ios 4 (int (length cm)) 1
      cm [g] None None (initdecomp_iodesc ?env example_ios 4 1 [g] (int (length cm)) cm None))
     = Return PIO_NOERR"
    by (simp add: InitDecomp_finish_def Let_def example_ios_simps pio_consts
        box_block_def box_ioproc_def assign_ioid_def pio_add_to_iodesc_list_def
        plain_env_simps initdecomp_iodesc_def iodesc_set_dims_def iodesc_set_map_other_fields)
  show ?thesis
    using chk fin
    by (simp add: PIOc_InitDecomp_checks [OF lk] state_with_map_simps)
qed

text \<open>
  C6, as the code has it. When the allocation of \<open>compmap_1_based\<close> fails,
  PIOc\_init\_decomp returns PIO\_ENOMEM directly, without calling PIOc\_InitDecomp
  and without pio\_err. When it succeeds, PIOc\_init\_decomp on a 0-based compmap
  returns the same value, writes the same id and leaves the same globals (hence
  the same registered decomposition) as PIOc\_InitDecomp called, from a state with
  the same globals, on an array holding every element of the compmap plus one in
  \<^verbatim>\<open>PIO_Offset\<close> arithmetic, with the rearranger passed by pointer exactly when
  it is not 0. For a compmap without the element LLONG\_MAX that array is the
  compmap plus one, element for element, so that -1, the 0-based mark of an
  element to omit, becomes 0.
\<close>

theorem PIOc_init_decomp_refines:
  "(\<not> malloc_compmap_1_based env \<longrightarrow>
      PIOc_init_decomp env st iosysid' pio_type ndims' gdimlen maplen' (Some p) ioidp
        rearranger' iostart iocount = (Return PIO_ENOMEM, st, None))
   \<and> (malloc_compmap_1_based env \<and> globals st1 = globals st
       \<and> read_compmap st1 q maplen'
           = map (\<lambda>e. c_offset (e + 1)) (read_compmap st p maplen') \<longrightarrow>
      call_result (PIOc_init_decomp env st iosysid' pio_type ndims' gdimlen maplen' (Some p)
             ioidp rearranger' iostart iocount)
       = call_result (PIOc_InitDecomp env st1 iosysid' pio_type ndims' gdimlen maplen' (Some q)
             ioidp (if rearranger' \<noteq> 0 then Some rearranger' else None) iostart iocount))
   \<and> (malloc_compmap_1_based env \<and> globals st1 = globals st
       \<and> (\<forall>e \<in> set (read_compmap st p maplen'). LLONG_MIN \<le> e \<and> e < LLONG_MAX)
       \<and> read_compmap st1 q maplen' = map (\<lambda>e. e + 1) (read_compmap st p maplen') \<longrightarrow>
      call_result (PIOc_init_decomp env st iosysid' pio_type ndims' gdimlen maplen' (Some p)
             ioidp rearranger' iostart iocount)
       = call_result (PIOc_InitDecomp env st1 iosysid' pio_type ndims' gdimlen maplen' (Some q)
             ioidp (if rearranger' \<noteq> 0 then Some rearranger' else None) iostart iocount))"
proof -
  define cm1 where "cm1 = map (\<lambda>e. c_offset (e + 1)) (read_compmap st p maplen')"
  define stm where "stm = snd (malloc_buf st cm1)"
  define rp where "rp = (if rearranger' \<noteq> 0 then Some rearranger' else None)"
  define r where "r = PIOc_InitDecomp env stm iosysid' pio_type ndims' gdimlen maplen'
      (Some (brk st)) ioidp rp iostart iocount"
  have fail: "PIOc_init_decomp env st iosysid' pio_type ndims' gdimlen maplen' (Some p) ioidp
      rearranger' iostart iocount = (Return PIO_ENOMEM, st, None)"
    if "\<not> malloc_compmap_1_based env"
    using that by (simp add: PIOc_init_decomp_def)
  have eq: "call_result (PIOc_init_decomp env st iosysid' pio_type ndims' gdimlen maplen'
        (Some p) ioidp rearranger' iostart iocount)
      = call_result (PIOc_InitDecomp env st1 iosysid' pio_type ndims' gdimlen maplen' (Some q)
          ioidp rp iostart iocount)"
    if m: "malloc_compmap_1_based env" and g: "globals st1 = globals st"
      and rd1: "read_compmap st1 q maplen' = cm1"
  proof -
    have w: "PIOc_init_decomp env st iosysid' pio_type ndims' gdimlen maplen' (Some p)
        ioidp rearranger' iostart iocount
        = (fst r, free_buf (fst (snd r)) (brk st), snd (snd r))"
      using m
      by (simp add: PIOc_init_decomp_def Let_def malloc_buf_def r_def stm_def cm1_def rp_def
          split: prod.split)
    have gm: "globals stm = globals st1"
      by (simp add: stm_def globals_malloc_free g)
    have "length cm1 \<le> nat maplen'" by (simp add: cm1_def read_compmap_def)
    then have rd: "read_compmap stm (brk st) maplen' = read_compmap st1 q maplen'"
      by (simp add: stm_def malloc_buf_def read_compmap_def [of "_\<lparr>brk := _\<rparr>"] rd1)
    have "call_result r = call_result (PIOc_InitDecomp env st1 iosysid' pio_type ndims' gdimlen
        maplen' (Some q) ioidp rp iostart iocount)"
      unfolding r_def by (rule PIOc_InitDecomp_result [OF gm rd])
    then show ?thesis
      unfolding w by (simp add: call_result_def globals_malloc_free)
  qed
  have plain: "cm1 = map (\<lambda>e. e + 1) (read_compmap st p maplen')"
    if "\<forall>e \<in> set (read_compmap st p maplen'). LLONG_MIN \<le> e \<and> e < LLONG_MAX"
    unfolding cm1_def
  proof (rule map_cong [OF refl])
    fix e assume "e \<in> set (read_compmap st p maplen')"
    with that have "LLONG_MIN \<le> e \<and> e < LLONG_MAX" by blast
    then show "c_offset (e + 1) = e + 1"
      by (intro c_offset_id) (simp_all add: LLONG_MIN_def)
  qed
  show ?thesis
  proof (intro conjI impI)
    assume "\<not> malloc_compmap_1_based env"
    then show "PIOc_init_decomp env st iosysid' pio_type ndims' gdimlen maplen' (Some p) ioidp
        rearranger' iostart iocount = (Return PIO_ENOMEM, st, None)"
      by (rule fail)
  next
    assume h: "malloc_compmap_1_based env \<and> globals st1 = globals st
       \<and> read_compmap st1 q maplen'
           = map (\<lambda>e. c_offset (e + 1)) (read_compmap st p maplen')"
    then have "read_compmap st1 q maplen' = cm1" by (simp add: cm1_def)
    with h show "call_result (PIOc_init_decomp env st iosysid' pio_type ndims' gdimlen maplen'
          (Some p) ioidp rearranger' iostart iocount)
       = call_result (PIOc_InitDecomp env st1 iosysid' pio_type ndims' gdimlen maplen' (Some q)
             ioidp (if rearranger' \<noteq> 0 then Some rearranger' else None) iostart iocount)"
      unfolding rp_def [symmetric] by (intro eq) simp_all
  next
    assume h: "malloc_compmap_1_based env \<and> globals st1 = globals st
       \<and> (\<forall>e \<in> set (read_compmap st p maplen'). LLONG_MIN \<le> e \<and> e < LLONG_MAX)
       \<and> read_compmap st1 q maplen' = map (\<lambda>e. e + 1) (read_compmap st p maplen')"
    then have "read_compmap st1 q maplen' = cm1" by (simp add: plain)
    with h show "call_result (PIOc_init_decomp env st iosysid' pio_type ndims' gdimlen maplen'
          (Some p) ioidp rearranger' iostart iocount)
       = call_result (PIOc_InitDecomp env st1 iosysid' pio_type ndims' gdimlen maplen' (Some q)
             ioidp (if rearranger' \<noteq> 0 then Some rearranger' else None) iostart iocount)"
      unfolding rp_def [symmetric] by (intro eq) simp_all
  qed
qed

theorem PIOc_init_decomp_refines_witness:
  "PIOc_init_decomp ((plain_env insertion_qsort)\<lparr>malloc_compmap_1_based := False\<rparr>)
       (state_with_map [1, - 1, 0]) 2048 4 1 (Some [3]) 3 (Some 0) True 0 None None
     = (Return PIO_ENOMEM, state_with_map [1, - 1, 0], None)
   \<and> call_result (PIOc_init_decomp (plain_env insertion_qsort)
         (state_with_map [9223372036854775807, 0]) 2048 4 1 (Some [3]) 2 (Some 0) True 0
         None None)
     = call_result (PIOc_InitDecomp (plain_env insertion_qsort)
         (state_with_map [- 9223372036854775808, 1]) 2048 4 1 (Some [3]) 2 (Some 0) True None
         None None)
   \<and> call_result (PIOc_init_decomp (plain_env insertion_qsort) (state_with_map [1, - 1, 0]) 2048 4
       1 (Some [3]) 3 (Some 0) True 0 None None)
     = call_result (PIOc_InitDecomp (plain_env insertion_qsort) (state_with_map [2, 0, 1]) 2048 4
       1 (Some [3]) 3 (Some 0) True None None None)
   \<and> fst (PIOc_init_decomp (plain_env insertion_qsort) (state_with_map [1, - 1, 0]) 2048 4
       1 (Some [3]) 3 (Some 0) True 0 None None) = Return PIO_NOERR
   \<and> snd (snd (PIOc_init_decomp (plain_env insertion_qsort) (state_with_map [1, - 1, 0]) 2048 4
       1 (Some [3]) 3 (Some 0) True 0 None None)) = Some 512
   \<and> map_option map_d
        (pio_get_iodesc_from_id
           (fst (snd (PIOc_init_decomp (plain_env insertion_qsort) (state_with_map [1, - 1, 0])
              2048 4 1 (Some [3]) 3 (Some 0) True 0 None None))) 512) = Some [2, 0, 1]"
proof -
  let ?w = "PIOc_init_decomp (plain_env insertion_qsort) (state_with_map [1, - 1, 0]) 2048 4
       1 (Some [3]) 3 (Some 0) True 0 None None"
  have g: "globals (state_with_map a) = globals (state_with_map b)" for a b
    by (simp add: globals_def state_with_map_def)
  have rd: "read_compmap (state_with_map [2, 0, 1]) 0 3
      = map (\<lambda>e. e + 1) (read_compmap (state_with_map [1, - 1, 0]) 0 3)"
    using state_with_map_simps(2) [of "[2, 0, 1]"] state_with_map_simps(2) [of "[1, - 1, 0]"]
    by simp
  have rng: "\<forall>e \<in> set (read_compmap (state_with_map [1, - 1, 0]) 0 3).
      LLONG_MIN \<le> e \<and> e < LLONG_MAX"
    using state_with_map_simps(2) [of "[1, - 1, 0]"]
    by (simp add: LLONG_MIN_def LLONG_MAX_def)
  have rdw: "read_compmap (state_with_map [- 9223372036854775808, 1]) 0 2
      = map (\<lambda>e. c_offset (e + 1))
          (read_compmap (state_with_map [9223372036854775807, 0]) 0 2)"
    using state_with_map_simps(2) [of "[- 9223372036854775808, 1]"]
      state_with_map_simps(2) [of "[9223372036854775807, 0]"]
    by (simp add: c_offset_def)
  have ev: "PIOc_InitDecomp (plain_env insertion_qsort) (state_with_map [2, 0, 1]) 2048 4 1
      (Some [3]) 3 (Some 0) True None None None =
     (Return PIO_NOERR,
      (state_with_map [2, 0, 1])
        \<lparr>pio_next_ioid := 513,
         pio_iodesc_list :=
           (\<lambda>_. None)(512 := Some (plain_box_iodesc insertion_qsort [2, 0, 1] 3))\<rparr>,
      Some 512)"
    using eval_plain_box [of 3 insertion_qsort "[2, 0, 1]"] by simp
  have d: "map_d (plain_box_iodesc insertion_qsort [2, 0, 1] 3) = [2, 0, 1]"
    using plain_box_iodesc_unsorted [of "[2, 0, 1]" insertion_qsort 3] by simp
  have a: "PIOc_init_decomp ((plain_env insertion_qsort)\<lparr>malloc_compmap_1_based := False\<rparr>)
       (state_with_map [1, - 1, 0]) 2048 4 1 (Some [3]) 3 (Some 0) True 0 None None
     = (Return PIO_ENOMEM, state_with_map [1, - 1, 0], None)"
    using PIOc_init_decomp_refines
      [where env = "(plain_env insertion_qsort)\<lparr>malloc_compmap_1_based := False\<rparr>"
        and st = "state_with_map [1, - 1, 0]" and iosysid' = 2048 and pio_type = 4
        and ndims' = 1 and gdimlen = "Some [3]" and maplen' = 3 and p = 0 and ioidp = True
        and rearranger' = 0 and iostart = None and iocount = None, THEN conjunct1]
    by simp
  have b: "call_result (PIOc_init_decomp (plain_env insertion_qsort)
         (state_with_map [9223372036854775807, 0]) 2048 4 1 (Some [3]) 2 (Some 0) True 0
         None None)
     = call_result (PIOc_InitDecomp (plain_env insertion_qsort)
         (state_with_map [- 9223372036854775808, 1]) 2048 4 1 (Some [3]) 2 (Some 0) True None
         None None)"
    using PIOc_init_decomp_refines
      [where env = "plain_env insertion_qsort"
        and st = "state_with_map [9223372036854775807, 0]"
        and ?st1.0 = "state_with_map [- 9223372036854775808, 1]" and q = 0
        and iosysid' = 2048 and pio_type = 4
        and ndims' = 1 and gdimlen = "Some [3]" and maplen' = 2 and p = 0 and ioidp = True
        and rearranger' = 0 and iostart = None and iocount = None,
        THEN conjunct2, THEN conjunct1] g rdw
    by (simp add: plain_env_simps)
  have eq: "call_result ?w = call_result (PIOc_InitDecomp (plain_env insertion_qsort)
      (state_with_map [2, 0, 1]) 2048 4 1 (Some [3]) 3 (Some 0) True None None None)"
    using PIOc_init_decomp_refines
      [where env = "plain_env insertion_qsort"
        and st = "state_with_map [1, - 1, 0]"
        and ?st1.0 = "state_with_map [2, 0, 1]" and q = 0
        and iosysid' = 2048 and pio_type = 4
        and ndims' = 1 and gdimlen = "Some [3]" and maplen' = 3 and p = 0 and ioidp = True
        and rearranger' = 0 and iostart = None and iocount = None,
        THEN conjunct2, THEN conjunct2] g rd rng
    by (simp add: plain_env_simps)
  then have "fst ?w = Return PIO_NOERR" and "snd (snd ?w) = Some 512"
    and "pio_iodesc_list (fst (snd ?w))
      = (\<lambda>_. None)(512 := Some (plain_box_iodesc insertion_qsort [2, 0, 1] 3))"
    by (simp_all add: ev call_result_def globals_def)
  with a b eq d show ?thesis
    by (simp add: pio_get_iodesc_from_id_def)
qed

text \<open>
  With the allocation of \<open>compmap_1_based\<close> failing, PIOc\_init\_decomp returns
  PIO\_ENOMEM and registers nothing, while PIOc\_InitDecomp on the compmap plus one
  returns PIO\_NOERR in the same environment.
\<close>

theorem PIOc_init_decomp_malloc_failure:
  "PIOc_init_decomp ((plain_env insertion_qsort)\<lparr>malloc_compmap_1_based := False\<rparr>)
       (state_with_map [1, - 1, 0]) 2048 4 1 (Some [3]) 3 (Some 0) True 0 None None
     = (Return PIO_ENOMEM, state_with_map [1, - 1, 0], None)
   \<and> fst (PIOc_InitDecomp ((plain_env insertion_qsort)\<lparr>malloc_compmap_1_based := False\<rparr>)
       (state_with_map [2, 0, 1]) 2048 4 1 (Some [3]) 3 (Some 0) True None None None)
     = Return PIO_NOERR
   \<and> fst (PIOc_init_decomp ((plain_env insertion_qsort)\<lparr>malloc_compmap_1_based := False\<rparr>)
       (state_with_map [1, - 1, 0]) 2048 4 1 (Some [3]) 3 (Some 0) True 0 None None)
     \<noteq> fst (PIOc_InitDecomp ((plain_env insertion_qsort)\<lparr>malloc_compmap_1_based := False\<rparr>)
       (state_with_map [2, 0, 1]) 2048 4 1 (Some [3]) 3 (Some 0) True None None None)"
proof -
  have w: "PIOc_init_decomp ((plain_env insertion_qsort)\<lparr>malloc_compmap_1_based := False\<rparr>)
       (state_with_map [1, - 1, 0]) 2048 4 1 (Some [3]) 3 (Some 0) True 0 None None
     = (Return PIO_ENOMEM, state_with_map [1, - 1, 0], None)"
    by (simp add: PIOc_init_decomp_def)
  have l: "fst (PIOc_InitDecomp ((plain_env insertion_qsort)\<lparr>malloc_compmap_1_based := False\<rparr>)
       (state_with_map [2, 0, 1]) 2048 4 1 (Some [3]) 3 (Some 0) True None None None)
     = Return PIO_NOERR"
    using eval_no_compmap_1_based [of 3 insertion_qsort "[2, 0, 1]"] by simp
  show ?thesis
    by (simp add: w l pio_consts)
qed

end
